(* ===== verification/Prelude.thy ===== *)
theory Prelude
  imports Main
begin

text \<open>
  Shared vocabulary of the gaphor connection model: the identifier types of domain
  elements, presentation items and diagrams, the Python errors the modelled code can
  raise, the list operations that model gaphor's ordered, duplicate-free
  \<open>relation_many\<close> collections, and the evaluation lemmas that the component
  theories and the witnesses share.
\<close>

named_theorems model_defs "definitions unfolded when a model operation is evaluated on a concrete state"

type_synonym eid = nat  \<comment> \<open>identity of a domain element (Python object identity, \<open>is\<close>)\<close>
type_synonym iid = nat  \<comment> \<open>identity of a presentation item on a diagram\<close>
type_synonym did = nat  \<comment> \<open>identity of a diagram\<close>

text \<open>The Python exceptions a modelled routine can raise.\<close>

datatype py_error =
    AssertionError       \<comment> \<open>a failed \<open>assert\<close> statement\<close>
  | RecursionError       \<comment> \<open>unbounded recursion\<close>
  | AmbiguousLookupError \<comment> \<open>multiple dispatch found no most specific registration\<close>

subsection \<open>Duplicate-free collections\<close>

text \<open>
  A many-valued association of gaphor keeps an ordered list of distinct values;
  assigning a value that is already present leaves the list unchanged, deleting removes
  it.
\<close>

definition add_unique :: "'a \<Rightarrow> 'a list \<Rightarrow> 'a list" where
  "add_unique x xs = (if x \<in> set xs then xs else xs @ [x])"

lemma set_add_unique [simp]: "set (add_unique x xs) = insert x (set xs)"
  by (auto simp: add_unique_def)

lemma distinct_add_unique [simp]: "distinct (add_unique x xs) = distinct xs"
  by (simp add: add_unique_def)

lemma add_unique_present [simp]: "x \<in> set xs \<Longrightarrow> add_unique x xs = xs"
  by (simp add: add_unique_def)

lemma add_unique_idem [simp]: "add_unique x (add_unique x xs) = add_unique x xs"
  by (simp add: add_unique_def)

subsection \<open>Evaluating Python sets built from lists\<close>

text \<open>
  \<open>len(set(a).intersection(set(b)))\<close> is the cardinality of the intersection of two
  list-sets; the equation below computes it by list operations so that witnesses
  evaluate it with \<open>simp\<close>.
\<close>

lemma card_set_inter_filter:
  "card (set xs \<inter> set ys) = length (remdups (filter (\<lambda>x. x \<in> set ys) xs))"
proof -
  have "set xs \<inter> set ys = set (filter (\<lambda>x. x \<in> set ys) xs)" by auto
  then show ?thesis by (simp add: length_remdups_card_conv)
qed

lemma find_Some_in_set: "find P xs = Some x \<Longrightarrow> x \<in> set xs \<and> P x"
  by (auto simp: find_Some_iff)

subsection \<open>Searching and filtering lists\<close>

lemma distinct_keys_filter_append:
  assumes "distinct (map k xs)" and "\<And>x. Q x \<Longrightarrow> k x \<noteq> k y"
  shows "distinct (map k (filter Q xs @ [y]))"
proof -
  have "distinct (map k (filter Q xs))" using assms(1) by (simp add: distinct_map_filter)
  moreover have "k y \<notin> k ` set (filter Q xs)" using assms(2) by force
  ultimately show ?thesis by simp
qed

lemma find_append_single:
  "\<not> P y \<Longrightarrow> find P (xs @ [y]) = find P xs"
  by (induction xs) simp_all

lemma find_filter_weaker:
  "(\<And>x. P x \<Longrightarrow> Q x) \<Longrightarrow> find P (filter Q xs) = find P xs"
  by (induction xs) auto

lemma find_append_None:
  "find P xs = None \<Longrightarrow> find P (xs @ ys) = find P ys"
  by (induction xs) (auto split: if_splits)

lemma find_unique_key:
  assumes "distinct (map k xs)" "y \<in> set xs" "\<And>x. P x \<longleftrightarrow> k x = k y"
  shows "find P xs = Some y"
  using assms
proof (induction xs)
  case Nil
  then show ?case by simp
next
  case (Cons x xs)
  show ?case
  proof (cases "x = y")
    case True
    with Cons.prems show ?thesis by simp
  next
    case False
    with Cons.prems(2) have y: "y \<in> set xs" by simp
    with Cons.prems(1) have "k x \<noteq> k y" by force
    with Cons.prems y Cons.IH show ?thesis by simp
  qed
qed

lemma filter_last_holds: "filter P xs \<noteq> [] \<Longrightarrow> P (last (filter P xs))"
proof -
  assume "filter P xs \<noteq> []"
  then have "last (filter P xs) \<in> set (filter P xs)" by (rule last_in_set)
  then show ?thesis by simp
qed

lemma sorted_map_last_max:
  "sorted (map f xs) \<Longrightarrow> x \<in> set xs \<Longrightarrow> f x \<le> f (last xs)"
proof (induction xs)
  case Nil
  then show ?case by simp
next
  case (Cons a xs)
  show ?case
  proof (cases "xs = []")
    case True
    with Cons.prems show ?thesis by simp
  next
    case False
    then have "last xs \<in> set xs" by simp
    with Cons.prems False Cons.IH show ?thesis by auto
  qed
qed

lemma concat_map_single:
  "(\<And>x. x \<in> set xs \<Longrightarrow> g x = [h x]) \<Longrightarrow> concat (map g xs) = map h xs"
  by (induction xs) simp_all

end
