(* ===== verification/Items.thy ===== *)
theory Items
  imports Prelude
begin

text \<open>
  Presentation items: the closed set of presentation classes the connectors of
  \<open>src/gaphor/diagram/general/connectors.py\<close> and the component tests name, their
  subclass hierarchy (which Python's \<open>isinstance\<close> and the connector registry read),
  the item record (class, subject, owning diagram) and the two handles of a line.
\<close>

datatype item_kind =
    Presentation
  | ElementPresentation
  | LinePresentation
  | CommentItem
  | CommentLineItem
  | InterfaceItem
  | ComponentItem
  | ClassItem
  | ConnectorItem
  | DependencyItem
  | InterfaceRealizationItem

text \<open>The method resolution order of each class, most specific first.\<close>

fun mro :: "item_kind \<Rightarrow> item_kind list" where
  "mro Presentation = [Presentation]"
| "mro ElementPresentation = [ElementPresentation, Presentation]"
| "mro LinePresentation = [LinePresentation, Presentation]"
| "mro CommentItem = [CommentItem, ElementPresentation, Presentation]"
| "mro InterfaceItem = [InterfaceItem, ElementPresentation, Presentation]"
| "mro ComponentItem = [ComponentItem, ElementPresentation, Presentation]"
| "mro ClassItem = [ClassItem, ElementPresentation, Presentation]"
| "mro CommentLineItem = [CommentLineItem, LinePresentation, Presentation]"
| "mro ConnectorItem = [ConnectorItem, LinePresentation, Presentation]"
| "mro DependencyItem = [DependencyItem, LinePresentation, Presentation]"
| "mro InterfaceRealizationItem = [InterfaceRealizationItem, LinePresentation, Presentation]"

definition isinstance :: "item_kind \<Rightarrow> item_kind \<Rightarrow> bool" where
  "isinstance k cls \<longleftrightarrow> cls \<in> set (mro k)"

definition is_line :: "item_kind \<Rightarrow> bool" where
  "is_line k \<longleftrightarrow> isinstance k LinePresentation"

text \<open>A presentation item: its class, its subject (\<open>None\<close> for no subject) and its diagram.\<close>

record item =
  kind :: item_kind
  subject :: "eid option"
  diagram :: did

text \<open>The two handles of a line and \<open>Line.opposite\<close>.\<close>

datatype handle = Head | Tail

fun opposite :: "handle \<Rightarrow> handle" where
  "opposite Head = Tail"
| "opposite Tail = Head"

lemma opposite_opposite [simp]: "opposite (opposite h) = h"
  by (cases h) simp_all

lemma opposite_neq [simp]: "opposite h \<noteq> h"
  by (cases h) simp_all

lemma isinstance_self [simp]: "isinstance k k"
  by (cases k) (simp_all add: isinstance_def)

lemma isinstance_Presentation [simp]: "isinstance k Presentation"
  by (cases k) (simp_all add: isinstance_def)

lemma isinstance_trans:
  "isinstance a b \<Longrightarrow> isinstance b c \<Longrightarrow> isinstance a c"
  by (cases a; cases b) (auto simp: isinstance_def)

lemma isinstance_antisym:
  "isinstance a b \<Longrightarrow> isinstance b a \<Longrightarrow> a = b"
  by (cases a; cases b) (auto simp: isinstance_def)

lemma isinstance_CommentItem [simp]: "isinstance k CommentItem \<longleftrightarrow> k = CommentItem"
  by (cases k) (simp_all add: isinstance_def)

lemma isinstance_CommentLineItem [simp]: "isinstance k CommentLineItem \<longleftrightarrow> k = CommentLineItem"
  by (cases k) (simp_all add: isinstance_def)

end
