(* ===== verification/Connections.thy ===== *)
theory Connections
  imports Items
begin

text \<open>
  The per-diagram connection index and the generic connector protocol. A
  \<open>ConnectionInfo\<close> records that a handle of a line is docked to a port of another
  item; each diagram owns a list of them. The \<open>BaseConnector\<close> operations
  (spec section 4.2: \<open>allow\<close>, \<open>connect\<close>, \<open>disconnect\<close>, \<open>get_connected\<close>) and the
  index queries they use are defined here over any state that extends
  \<open>diagram_state\<close>, so every concrete connector reuses them and their lemmas.
\<close>

record cinfo =
  line :: iid
  handle :: handle
  connected :: iid
  port :: nat

record diagram_state =
  items :: "iid \<Rightarrow> item"
  item_order :: "iid list"
  connections :: "did \<Rightarrow> cinfo list"

definition on_handle :: "iid \<Rightarrow> handle \<Rightarrow> cinfo \<Rightarrow> bool" where
  "on_handle l h c \<longleftrightarrow> line c = l \<and> handle c = h"

definition line_connections :: "'a diagram_state_scheme \<Rightarrow> iid \<Rightarrow> cinfo list" where
  "line_connections s l = connections s (diagram (items s l))"

subsection \<open>Queries\<close>

definition get_connection :: "'a diagram_state_scheme \<Rightarrow> iid \<Rightarrow> handle \<Rightarrow> cinfo option" where
  "get_connection s l h = find (on_handle l h) (line_connections s l)"

definition get_connected :: "'a diagram_state_scheme \<Rightarrow> iid \<Rightarrow> handle \<Rightarrow> iid option" where
  "get_connected s l h = map_option connected (get_connection s l h)"

definition get_connections :: "'a diagram_state_scheme \<Rightarrow> iid \<Rightarrow> cinfo list" where
  "get_connections s p = filter (\<lambda>c. connected c = p) (connections s (diagram (items s p)))"

subsection \<open>Updates of the index\<close>

definition connect_item ::
  "'a diagram_state_scheme \<Rightarrow> iid \<Rightarrow> handle \<Rightarrow> iid \<Rightarrow> nat \<Rightarrow> 'a diagram_state_scheme" where
  "connect_item s l h target p =
     (let d = diagram (items s l);
          cs = connections s d;
          ci = \<lparr>line = l, handle = h, connected = target, port = p\<rparr>
      in if ci \<in> set cs then s
         else s\<lparr>connections := (connections s)(d := filter (Not \<circ> on_handle l h) cs @ [ci])\<rparr>)"

definition disconnect_item :: "'a diagram_state_scheme \<Rightarrow> iid \<Rightarrow> handle \<Rightarrow> 'a diagram_state_scheme" where
  "disconnect_item s l h =
     (let d = diagram (items s l)
      in s\<lparr>connections := (connections s)(d := filter (Not \<circ> on_handle l h) (connections s d))\<rparr>)"

subsection \<open>The BaseConnector protocol\<close>

text \<open>
  \<open>allow\<close> is true by default; \<open>connect\<close> records the connection and accepts it;
  \<open>disconnect\<close> removes the record of the handle.
\<close>

definition base_allow :: "'a diagram_state_scheme \<Rightarrow> iid \<Rightarrow> handle \<Rightarrow> nat \<Rightarrow> bool" where
  "base_allow s l h p = True"

definition base_connect ::
  "'a diagram_state_scheme \<Rightarrow> iid \<Rightarrow> iid \<Rightarrow> handle \<Rightarrow> nat \<Rightarrow> bool \<times> 'a diagram_state_scheme" where
  "base_connect s element l h p = (True, connect_item s l h element p)"

definition base_disconnect :: "'a diagram_state_scheme \<Rightarrow> iid \<Rightarrow> handle \<Rightarrow> 'a diagram_state_scheme" where
  "base_disconnect s l h = disconnect_item s l h"

declare get_connection_def [model_defs] get_connected_def [model_defs]
  get_connections_def [model_defs] connect_item_def [model_defs]
  disconnect_item_def [model_defs] on_handle_def [model_defs]
  line_connections_def [model_defs] base_connect_def [model_defs]
  base_disconnect_def [model_defs] base_allow_def [model_defs]

subsection \<open>The uniqueness invariant\<close>

text \<open>Within every diagram, a handle of a line appears in at most one record.\<close>

definition conn_unique :: "'a diagram_state_scheme \<Rightarrow> bool" where
  "conn_unique s \<longleftrightarrow> (\<forall>d. distinct (map (\<lambda>c. (line c, handle c)) (connections s d)))"


subsection \<open>Behaviour of the index operations\<close>

lemma conn_unique_connect_item:
  "conn_unique s \<Longrightarrow> conn_unique (connect_item s l h t p)"
  unfolding conn_unique_def connect_item_def Let_def
  by (auto intro!: distinct_keys_filter_append simp: on_handle_def distinct_map_filter)

lemma conn_unique_disconnect_item:
  "conn_unique s \<Longrightarrow> conn_unique (disconnect_item s l h)"
  unfolding conn_unique_def disconnect_item_def Let_def
  by (auto simp: distinct_map_filter)

lemma get_connection_connect_item:
  assumes "conn_unique s"
  shows "get_connection (connect_item s l h t p) l h = Some \<lparr>line = l, handle = h, connected = t, port = p\<rparr>"
proof -
  let ?ci = "\<lparr>line = l, handle = h, connected = t, port = p\<rparr>"
  let ?d = "diagram (items s l)"
  show ?thesis
  proof (cases "?ci \<in> set (connections s ?d)")
    case True
    have "find (on_handle l h) (connections s ?d) = Some ?ci"
      by (rule find_unique_key[where k = "\<lambda>c. (line c, handle c)"])
         (use assms True in \<open>auto simp: conn_unique_def on_handle_def\<close>)
    with True show ?thesis
      by (simp add: connect_item_def get_connection_def line_connections_def)
  next
    case False
    have "find (on_handle l h) (filter (Not \<circ> on_handle l h) (connections s ?d)) = None"
      by (simp add: find_None_iff)
    with False show ?thesis
      by (simp add: connect_item_def get_connection_def line_connections_def Let_def
          find_append_None on_handle_def)
  qed
qed

lemma connect_item_idem:
  "connect_item (connect_item s l h t p) l h t p = connect_item s l h t p"
  by (simp add: connect_item_def Let_def)

lemma disconnect_item_unconnected:
  "get_connection s l h = None \<Longrightarrow> disconnect_item s l h = s"
  by (simp add: disconnect_item_def get_connection_def line_connections_def find_None_iff
      filter_id_conv)

lemma get_connection_disconnect_item:
  "get_connection (disconnect_item s l h) l h = None"
  by (simp add: disconnect_item_def get_connection_def line_connections_def find_None_iff Let_def)

lemma get_connection_connect_item_other:
  assumes "(l', h') \<noteq> (l, h)"
  shows "get_connection (connect_item s l h t p) l' h' = get_connection s l' h'"
proof -
  have "find (on_handle l' h') (filter (Not \<circ> on_handle l h) cs @ [\<lparr>line = l, handle = h, connected = t, port = p\<rparr>])
        = find (on_handle l' h') cs" for cs
  proof -
    have w: "\<And>c. on_handle l' h' c \<Longrightarrow> (Not \<circ> on_handle l h) c"
      and n: "\<not> on_handle l' h' \<lparr>line = l, handle = h, connected = t, port = p\<rparr>"
      using assms by (auto simp: on_handle_def)
    show ?thesis by (simp only: find_append_single[where P = "on_handle l' h'", OF n] find_filter_weaker[OF w])
  qed
  then show ?thesis
    by (simp add: connect_item_def get_connection_def line_connections_def Let_def)
qed

lemma get_connection_disconnect_item_other:
  assumes "(l', h') \<noteq> (l, h)"
  shows "get_connection (disconnect_item s l h) l' h' = get_connection s l' h'"
proof -
  have "find (on_handle l' h') (filter (Not \<circ> on_handle l h) cs) = find (on_handle l' h') cs" for cs
  proof -
    have w: "\<And>c. on_handle l' h' c \<Longrightarrow> (Not \<circ> on_handle l h) c"
      using assms by (auto simp: on_handle_def)
    show ?thesis by (simp only: find_filter_weaker[OF w])
  qed
  then show ?thesis
    by (simp add: disconnect_item_def get_connection_def line_connections_def Let_def)
qed

lemma connect_item_frame [simp]:
  "items (connect_item s l h t p) = items s"
  "item_order (connect_item s l h t p) = item_order s"
  "diagram_state.more (connect_item s l h t p) = diagram_state.more s"
  by (simp_all add: connect_item_def Let_def)

lemma disconnect_item_frame [simp]:
  "items (disconnect_item s l h) = items s"
  "item_order (disconnect_item s l h) = item_order s"
  "diagram_state.more (disconnect_item s l h) = diagram_state.more s"
  by (simp_all add: disconnect_item_def Let_def)

lemma cinfo_in_connect_item:
  "\<lparr>line = l, handle = h, connected = t, port = p\<rparr>
     \<in> set (connections (connect_item s l h t p) (diagram (items s l)))"
  by (simp add: connect_item_def Let_def)

lemma connect_item_present:
  "\<lparr>line = l, handle = h, connected = t, port = p\<rparr> \<in> set (connections s (diagram (items s l)))
   \<Longrightarrow> connect_item s l h t p = s"
  by (simp add: connect_item_def)

subsection \<open>The BaseConnector contract\<close>

text \<open>
  \<open>connect\<close> accepts, records exactly the new connection of the handle, leaves every
  other handle's record alone, keeps records unique, and a second identical call is a
  no-op.
\<close>

theorem base_connect_contract:
  assumes "conn_unique s" and "base_connect s element l h p = (ok, s')"
  shows "ok \<and> conn_unique s' \<and> get_connected s' l h = Some element
         \<and> (\<forall>l' h'. (l', h') \<noteq> (l, h) \<longrightarrow> get_connection s' l' h' = get_connection s l' h')
         \<and> base_connect s' element l h p = (True, s')"
proof -
  from assms(2) have ok: "ok" and s': "s' = connect_item s l h element p"
    by (simp_all add: base_connect_def)
  have "get_connected s' l h = Some element"
    using assms(1) s' by (simp add: get_connected_def get_connection_connect_item)
  with assms(1) ok s' show ?thesis
    by (simp add: conn_unique_connect_item get_connection_connect_item_other connect_item_idem
        base_connect_def)
qed

text \<open>
  \<open>disconnect\<close> removes the record of the handle, keeps the others and uniqueness, and
  is a no-op on a handle that is not connected.
\<close>

theorem base_disconnect_contract:
  assumes "conn_unique s"
  shows "conn_unique (base_disconnect s l h) \<and> get_connection (base_disconnect s l h) l h = None
         \<and> (\<forall>l' h'. (l', h') \<noteq> (l, h) \<longrightarrow>
                get_connection (base_disconnect s l h) l' h' = get_connection s l' h')
         \<and> (get_connection s l h = None \<longrightarrow> base_disconnect s l h = s)"
  using assms
  by (simp add: base_disconnect_def conn_unique_disconnect_item get_connection_disconnect_item
      get_connection_disconnect_item_other disconnect_item_unconnected)

end
