(* ===== verification/Domain.thy ===== *)
theory Domain
  imports Prelude
begin

text \<open>
  The domain-object layer of \<open>src/gaphor/core/modeling/coremodel.py\<close>: the element
  classes the connectors test with \<open>isinstance\<close>, the element factory as a store of
  typed elements with their attributes and association ends, the bidirectional
  association \<open>Comment.annotatedElement\<close>/\<open>Element.comment\<close> whose two ends are
  updated together (lines 72--73), and the derived \<open>qualifiedName\<close> computed by
  recursion over \<open>NamedElement.namespace\<close> (lines 89--103).
\<close>

datatype etype =
    Element
  | NamedElement
  | PackageableElement
  | Namespace
  | Package
  | Comment
  | Component
  | Interface
  | Class
  | Operation
  | Association
  | InterfaceRealization
  | Usage
  | Connector
  | ConnectorEnd
  | Port
  | Property
  | Parameter

text \<open>
  The element factory: which identities exist and of which class, and the attributes and
  association ends the core reads and writes. \<open>attribute[str]\<close> defaults to
  \<open>None\<close>, so names and bodies are optional strings; \<open>relation_one\<close> is an optional
  identity and \<open>relation_many\<close> an ordered list of distinct identities.
\<close>

record element_factory =
  elements :: "eid \<Rightarrow> etype option"
  name :: "eid \<Rightarrow> string option"
  body :: "eid \<Rightarrow> string option"
  namespace :: "eid \<Rightarrow> eid option"
  annotatedElement :: "eid \<Rightarrow> eid list"
  comment :: "eid \<Rightarrow> eid list"

definition is_comment :: "'a element_factory_scheme \<Rightarrow> eid \<Rightarrow> bool" where
  "is_comment f e \<longleftrightarrow> elements f e = Some Comment"

subsection \<open>The attributes \<open>name\<close> and \<open>body\<close>\<close>

text \<open>
  \<open>NamedElement.name = attribute("name", str)\<close> and \<open>Comment.body = attribute("body",
  str)\<close> (lines 61--62): writing the attribute stores the string, writing the default
  \<open>None\<close> deletes the stored value so that reading gives \<open>None\<close> again. Nothing else
  of the element changes: \<open>qualifiedName\<close> is derived, computed anew on every read.
\<close>

definition set_name :: "'a element_factory_scheme \<Rightarrow> eid \<Rightarrow> string option \<Rightarrow> 'a element_factory_scheme" where
  "set_name f e v = (case v of None \<Rightarrow> f\<lparr>name := (name f)(e := None)\<rparr> | Some s \<Rightarrow> f\<lparr>name := (name f)(e \<mapsto> s)\<rparr>)"

definition set_body :: "'a element_factory_scheme \<Rightarrow> eid \<Rightarrow> string option \<Rightarrow> 'a element_factory_scheme" where
  "set_body f e v = (case v of None \<Rightarrow> f\<lparr>body := (body f)(e := None)\<rparr> | Some s \<Rightarrow> f\<lparr>body := (body f)(e \<mapsto> s)\<rparr>)"

declare set_name_def [model_defs] set_body_def [model_defs]

subsection \<open>The association \<open>annotatedElement\<close> with opposite \<open>comment\<close>\<close>

text \<open>
  \<open>c.annotatedElement = e\<close> appends \<open>e\<close> to the many-valued end of the comment and,
  through \<open>opposite="comment"\<close>, appends \<open>c\<close> to the element's \<open>comment\<close> end;
  \<open>del c.annotatedElement[e]\<close> removes both. A value already present is not appended
  twice, and deleting an absent value changes nothing.
\<close>

definition set_annotatedElement ::
  "'a element_factory_scheme \<Rightarrow> eid \<Rightarrow> eid \<Rightarrow> 'a element_factory_scheme" where
  "set_annotatedElement f c e =
     f\<lparr>annotatedElement := (annotatedElement f)(c := add_unique e (annotatedElement f c)),
       comment := (comment f)(e := add_unique c (comment f e))\<rparr>"

definition del_annotatedElement ::
  "'a element_factory_scheme \<Rightarrow> eid \<Rightarrow> eid \<Rightarrow> 'a element_factory_scheme" where
  "del_annotatedElement f c e =
     f\<lparr>annotatedElement := (annotatedElement f)(c := removeAll e (annotatedElement f c)),
       comment := (comment f)(e := removeAll c (comment f e))\<rparr>"

declare is_comment_def [model_defs] set_annotatedElement_def [model_defs]
  del_annotatedElement_def [model_defs]

text \<open>
  The invariant of a bidirectional association: every forward link has its mirror, and
  both ends are duplicate-free lists.
\<close>

definition association_sync :: "'a element_factory_scheme \<Rightarrow> bool" where
  "association_sync f \<longleftrightarrow>
     (\<forall>c e. e \<in> set (annotatedElement f c) \<longleftrightarrow> c \<in> set (comment f e)) \<and>
     (\<forall>c. distinct (annotatedElement f c)) \<and> (\<forall>e. distinct (comment f e))"

subsection \<open>The derived \<open>qualifiedName\<close>\<close>

text \<open>
  \<open>_namedelement_qualifiedname\<close> recurses on the namespace until an element without
  one. On a cyclic namespace chain Python never returns (it ends in a
  \<open>RecursionError\<close>), so the recursion is a \<open>partial_function\<close> in the option
  monad: \<open>None\<close> is the call that does not return.
\<close>

partial_function (option) namedelement_qualifiedname ::
  "'a element_factory_scheme \<Rightarrow> eid \<Rightarrow> string option list option" where
  "namedelement_qualifiedname f e =
     (case namespace f e of
        Some ns \<Rightarrow> Option.bind (namedelement_qualifiedname f ns) (\<lambda>q. Some (q @ [name f e]))
      | None \<Rightarrow> Some [name f e])"

text \<open>The namespace chain reaches an element without namespace within \<open>n\<close> steps.\<close>

fun reaches_root :: "'a element_factory_scheme \<Rightarrow> nat \<Rightarrow> eid \<Rightarrow> bool" where
  "reaches_root f 0 e = False"
| "reaches_root f (Suc n) e = (case namespace f e of None \<Rightarrow> True | Some ns \<Rightarrow> reaches_root f n ns)"

text \<open>The chain itself, from the element up to the root, computed with fuel.\<close>

fun namespace_chain :: "'a element_factory_scheme \<Rightarrow> nat \<Rightarrow> eid \<Rightarrow> eid list" where
  "namespace_chain f 0 e = []"
| "namespace_chain f (Suc n) e =
     e # (case namespace f e of None \<Rightarrow> [] | Some ns \<Rightarrow> namespace_chain f n ns)"

subsection \<open>Lemmas\<close>

lemma association_sync_set_annotatedElement:
  "association_sync f \<Longrightarrow> association_sync (set_annotatedElement f c e)"
  unfolding association_sync_def set_annotatedElement_def by auto

lemma association_sync_del_annotatedElement:
  "association_sync f \<Longrightarrow> association_sync (del_annotatedElement f c e)"
  unfolding association_sync_def del_annotatedElement_def by (auto simp: distinct_removeAll)

lemma set_annotatedElement_links:
  "e \<in> set (annotatedElement (set_annotatedElement f c e) c) \<and> c \<in> set (comment (set_annotatedElement f c e) e)"
  by (simp add: set_annotatedElement_def)

lemma del_annotatedElement_unlinks:
  "e \<notin> set (annotatedElement (del_annotatedElement f c e) c) \<and> c \<notin> set (comment (del_annotatedElement f c e) e)"
  by (simp add: del_annotatedElement_def)

lemma set_annotatedElement_idem:
  "set_annotatedElement (set_annotatedElement f c e) c e = set_annotatedElement f c e"
  by (simp add: set_annotatedElement_def)

lemma set_annotatedElement_present:
  "e \<in> set (annotatedElement f c) \<Longrightarrow> association_sync f \<Longrightarrow> set_annotatedElement f c e = f"
  by (auto simp: set_annotatedElement_def association_sync_def)

text \<open>Claim C23: Assigning Comment.annotatedElement for a pair not yet linked links both ends of the association, and deleting it again restores the element factory exactly.\<close>
theorem del_set_annotatedElement_roundtrip:
  assumes "e \<notin> set (annotatedElement f c)" and "c \<notin> set (comment f e)"
  shows "e \<in> set (annotatedElement (set_annotatedElement f c e) c)
       \<and> c \<in> set (comment (set_annotatedElement f c e) e)
       \<and> del_annotatedElement (set_annotatedElement f c e) c e = f"
proof -
  have "removeAll e (add_unique e (annotatedElement f c)) = annotatedElement f c"
    using assms(1) by (simp add: add_unique_def)
  moreover have "removeAll c (add_unique c (comment f e)) = comment f e"
    using assms(2) by (simp add: add_unique_def)
  ultimately show ?thesis by (simp add: set_annotatedElement_def del_annotatedElement_def)
qed

text \<open>Claim C18: When the namespace chain of an element reaches an element without namespace, qualifiedName returns the names along the chain, root first.\<close>
lemma qualifiedname_reaches_root:
  "reaches_root f n e \<Longrightarrow>
   namedelement_qualifiedname f e = Some (rev (map (name f) (namespace_chain f n e)))"
proof (induction n arbitrary: e)
  case 0
  then show ?case by simp
next
  case (Suc n)
  show ?case
  proof (cases "namespace f e")
    case None
    then show ?thesis by (simp add: namedelement_qualifiedname.simps)
  next
    case (Some ns)
    with Suc.prems have "reaches_root f n ns" by simp
    with Suc.IH Some show ?thesis by (simp add: namedelement_qualifiedname.simps)
  qed
qed

lemma qualifiedname_returns_reaches_root:
  assumes ret: "namedelement_qualifiedname f e = Some q"
  shows "reaches_root f (length q) e"
proof (rule namedelement_qualifiedname.raw_induct [where P = "\<lambda>f e q. reaches_root f (length q) e", OF _ ret])
  fix qn :: "'a element_factory_scheme \<Rightarrow> eid \<Rightarrow> string option list option" and f e q
  assume IH: "\<And>f e q. qn f e = Some q \<Longrightarrow> reaches_root f (length q) e"
    and eq: "(case namespace f e of
        Some ns \<Rightarrow> Option.bind (qn f ns) (\<lambda>q. Some (q @ [name f e]))
      | None \<Rightarrow> Some [name f e]) = Some q"
  show "reaches_root f (length q) e"
  proof (cases "namespace f e")
    case None
    with eq show ?thesis by auto
  next
    case (Some ns)
    with eq obtain q' where q': "qn f ns = Some q'" and "q = q' @ [name f e]"
      by (auto split: Option.bind_splits)
    with IH[OF q'] Some show ?thesis by simp
  qed
qed

lemma reaches_root_self_loop:
  "namespace f e = Some e \<Longrightarrow> \<not> reaches_root f n e"
  by (induction n) simp_all

text \<open>Claim C19: An element that is its own namespace makes the qualifiedName recursion never return.\<close>
lemma qualifiedname_self_loop:
  "namespace f e = Some e \<Longrightarrow> namedelement_qualifiedname f e = None"
proof (rule ccontr)
  assume loop: "namespace f e = Some e" and "namedelement_qualifiedname f e \<noteq> None"
  then obtain q where "namedelement_qualifiedname f e = Some q" by blast
  then have "reaches_root f (length q) e" by (rule qualifiedname_returns_reaches_root)
  with loop show False by (simp add: reaches_root_self_loop)
qed


lemma set_name_fields [simp]:
  "namespace (set_name f e v) = namespace f" "name (set_name f e v) = (name f)(e := v)"
  by (simp_all add: set_name_def split: option.split)

text \<open>\<open>reaches_root\<close> and \<open>namespace_chain\<close> read only the namespace ends.\<close>

lemma namespace_chain_cong:
  "namespace f' = namespace f \<Longrightarrow>
   reaches_root f' n x = reaches_root f n x \<and> namespace_chain f' n x = namespace_chain f n x"
  by (induction n arbitrary: x) (simp_all split: option.split)

text \<open>Claim C20: Writing the name of an element never changes whether qualifiedName returns, and when it returns, the result is the names along the same namespace chain with the new name at the renamed element: the derived attribute is never stale.\<close>
theorem qualifiedname_set_name:
  "namedelement_qualifiedname (set_name f e v) x =
     map_option (\<lambda>q. rev (map ((name f)(e := v)) (namespace_chain f (length q) x)))
       (namedelement_qualifiedname f x)"
proof (cases "namedelement_qualifiedname f x")
  case None
  show ?thesis
  proof (rule ccontr)
    assume "namedelement_qualifiedname (set_name f e v) x \<noteq> map_option (\<lambda>q. rev (map ((name f)(e := v))
      (namespace_chain f (length q) x))) (namedelement_qualifiedname f x)"
    with None obtain q where "namedelement_qualifiedname (set_name f e v) x = Some q" by auto
    then have "reaches_root (set_name f e v) (length q) x" by (rule qualifiedname_returns_reaches_root)
    then have "reaches_root f (length q) x" using namespace_chain_cong[of "set_name f e v" f] by simp
    with None show False by (simp add: qualifiedname_reaches_root)
  qed
next
  case (Some q)
  then have r: "reaches_root f (length q) x" by (rule qualifiedname_returns_reaches_root)
  then have "reaches_root (set_name f e v) (length q) x" using namespace_chain_cong[of "set_name f e v" f] by simp
  then have "namedelement_qualifiedname (set_name f e v) x =
      Some (rev (map ((name f)(e := v)) (namespace_chain f (length q) x)))"
    using namespace_chain_cong[of "set_name f e v" f] by (simp add: qualifiedname_reaches_root)
  with Some show ?thesis by simp
qed

end
