(* ===== verification/CommentLine.thy ===== *)
theory CommentLine
  imports Connections Domain
begin

text \<open>
  The comment-line connector of \<open>src/gaphor/diagram/general/connectors.py\<close>
  (\<open>CommentLinePresentationConnect\<close>, lines 15--84, and \<open>all_comment_line_items\<close>,
  lines 87--92). Its state is the diagrams' state (items and connection index) together
  with the element factory; \<open>presentation\<close> is the opposite end of
  \<open>Presentation.subject\<close>, read off the items in creation order.
\<close>

record model = diagram_state +
  factory :: element_factory

definition presentation :: "'a model_scheme \<Rightarrow> eid \<Rightarrow> iid list" where
  "presentation m e = filter (\<lambda>i. subject (items m i) = Some e) (item_order m)"

definition item_is :: "'a model_scheme \<Rightarrow> iid option \<Rightarrow> item_kind \<Rightarrow> bool" where
  "item_is m x cls = (case x of None \<Rightarrow> False | Some i \<Rightarrow> isinstance (kind (items m i)) cls)"

definition all_comment_line_items :: "'a model_scheme \<Rightarrow> eid \<Rightarrow> iid list" where
  "all_comment_line_items m e =
     concat (map (\<lambda>p. map line (filter (\<lambda>c. isinstance (kind (items m (line c))) CommentLineItem)
                                      (get_connections m p)))
                 (presentation m e))"

subsection \<open>\<open>allow\<close>\<close>

text \<open>
  Both ends may not be connected to the same element; the subject test (lines 39--45)
  rejects two ends whose subjects are both missing; when the opposite end is connected,
  exactly one of the two items must be a \<open>CommentItem\<close>. Otherwise the base check
  decides.
\<close>

definition comment_allow :: "'a model_scheme \<Rightarrow> iid \<Rightarrow> iid \<Rightarrow> handle \<Rightarrow> nat \<Rightarrow> bool" where
  "comment_allow m element l h p =
     (let connected_to = get_connected m l (opposite h)
      in if connected_to = Some element then False
         else if (case connected_to of
                    None \<Rightarrow> False
                  | Some c \<Rightarrow> subject (items m c) = None \<and> subject (items m element) = None
                              \<and> subject (items m c) = subject (items m element)) then False
         else if connected_to \<noteq> None \<and>
                 \<not> (item_is m connected_to CommentItem \<noteq> item_is m (Some element) CommentItem) then False
         else base_allow m l h p)"

subsection \<open>\<open>connect\<close>\<close>

text \<open>
  After the base connector has recorded the connection, if the opposite end is connected
  and both items carry subjects, the Comment among them annotates the other subject; if
  neither subject is a Comment the \<open>assert\<close> of line 63 fails.
\<close>

definition annotate :: "'a model_scheme \<Rightarrow> eid \<Rightarrow> eid \<Rightarrow> 'a model_scheme" where
  "annotate m c e = m\<lparr>factory := set_annotatedElement (factory m) c e\<rparr>"

definition unannotate :: "'a model_scheme \<Rightarrow> eid \<Rightarrow> eid \<Rightarrow> 'a model_scheme" where
  "unannotate m c e = m\<lparr>factory := del_annotatedElement (factory m) c e\<rparr>"

definition comment_link :: "'a model_scheme \<Rightarrow> iid \<Rightarrow> iid \<Rightarrow> handle \<Rightarrow> py_error + 'a model_scheme" where
  "comment_link m element l h =
     (case get_connected m l (opposite h) of
        None \<Rightarrow> Inr m
      | Some c \<Rightarrow>
          (case (subject (items m c), subject (items m element)) of
             (Some sc, Some se) \<Rightarrow>
               if is_comment (factory m) sc then Inr (annotate m sc se)
               else if is_comment (factory m) se then Inr (annotate m se sc)
               else Inl AssertionError
           | _ \<Rightarrow> Inr m))"

definition comment_connect ::
  "'a model_scheme \<Rightarrow> iid \<Rightarrow> iid \<Rightarrow> handle \<Rightarrow> nat \<Rightarrow> py_error + 'a model_scheme" where
  "comment_connect m element l h p =
     (case base_connect m element l h p of (ok, m1) \<Rightarrow>
        if ok then comment_link m1 element l h else Inr m1)"

subsection \<open>\<open>disconnect\<close>\<close>

text \<open>
  If both ends carry subjects, the relation is removed only when at most one comment
  line links the two subjects (lines 72--75); otherwise the method returns at once,
  without calling the base \<open>disconnect\<close>. After removing the relation (or when an end
  has no subject) the base connector removes the connection record.
\<close>

definition comment_disconnect ::
  "'a model_scheme \<Rightarrow> iid \<Rightarrow> iid \<Rightarrow> handle \<Rightarrow> py_error + 'a model_scheme" where
  "comment_disconnect m element l h =
     (let opp = get_connected m l (opposite h)
      in case (subject (items m element), map_option (\<lambda>i. subject (items m i)) opp) of
           (Some se, Some (Some so)) \<Rightarrow>
             (let items1 = all_comment_line_items m se;
                  items2 = all_comment_line_items m so
              in if 1 < card (set items1 \<inter> set items2) then Inr m
                 else if is_comment (factory m) so then Inr (base_disconnect (unannotate m so se) l h)
                 else if is_comment (factory m) se then Inr (base_disconnect (unannotate m se so) l h)
                 else Inl AssertionError)
         | _ \<Rightarrow> Inr (base_disconnect m l h))"

text \<open>
  Items are well typed when every \<open>CommentItem\<close> presents a \<open>Comment\<close>, as the
  diagram's item factory ensures.
\<close>

definition comment_items_typed :: "'a model_scheme \<Rightarrow> bool" where
  "comment_items_typed m \<longleftrightarrow>
     (\<forall>i s. kind (items m i) = CommentItem \<longrightarrow> subject (items m i) = Some s \<longrightarrow> is_comment (factory m) s)"

declare presentation_def [model_defs] item_is_def [model_defs] all_comment_line_items_def [model_defs]
  comment_allow_def [model_defs] annotate_def [model_defs] unannotate_def [model_defs]
  comment_link_def [model_defs] comment_connect_def [model_defs] comment_disconnect_def [model_defs]

subsection \<open>Frame lemmas\<close>

lemma factory_connect_item [simp]: "factory (connect_item m l h t p) = factory m"
  by (simp add: connect_item_def Let_def)

lemma factory_disconnect_item [simp]: "factory (disconnect_item m l h) = factory m"
  by (simp add: disconnect_item_def Let_def)

lemma annotate_frame [simp]:
  "items (annotate m c e) = items m" "item_order (annotate m c e) = item_order m"
  "connections (annotate m c e) = connections m"
  "factory (annotate m c e) = set_annotatedElement (factory m) c e"
  "items (unannotate m c e) = items m" "item_order (unannotate m c e) = item_order m"
  "connections (unannotate m c e) = connections m"
  "factory (unannotate m c e) = del_annotatedElement (factory m) c e"
  by (simp_all add: annotate_def unannotate_def)

lemma get_connection_annotate [simp]:
  "get_connection (annotate m c e) l h = get_connection m l h"
  "get_connection (unannotate m c e) l h = get_connection m l h"
  by (simp_all add: get_connection_def line_connections_def)

lemma conn_unique_annotate [simp]:
  "conn_unique (annotate m c e) = conn_unique m"
  "conn_unique (unannotate m c e) = conn_unique m"
  by (simp_all add: conn_unique_def)

lemma elements_annotate [simp]:
  "elements (set_annotatedElement f c e) = elements f"
  "elements (del_annotatedElement f c e) = elements f"
  "is_comment (set_annotatedElement f c e) = is_comment f"
  "is_comment (del_annotatedElement f c e) = is_comment f"
  by (simp_all add: set_annotatedElement_def del_annotatedElement_def is_comment_def fun_eq_iff)

lemma get_connected_connect_opposite [simp]:
  "get_connected (connect_item s l h t p) l (opposite h) = get_connected s l (opposite h)"
  by (simp add: get_connected_def get_connection_connect_item_other)

lemma annotate_idem [simp]: "annotate (annotate m c e) c e = annotate m c e"
  by (simp add: annotate_def set_annotatedElement_idem)

lemma get_connected_annotate [simp]:
  "get_connected (annotate m c e) l h = get_connected m l h"
  "get_connected (unannotate m c e) l h = get_connected m l h"
  by (simp_all add: get_connected_def)

lemma comment_connect_eq:
  "comment_connect m element l h p = comment_link (connect_item m l h element p) element l h"
  by (simp add: comment_connect_def base_connect_def)

lemma comment_link_cases:
  assumes "comment_link m element l h = Inr m'"
  obtains (plain) "m' = m" | (annot) c e where "m' = annotate m c e"
  using assms by (auto simp: comment_link_def split: option.splits if_splits)

lemma comment_link_idem:
  "comment_link m element l h = Inr m' \<Longrightarrow> comment_link m' element l h = Inr m'"
  by (auto simp: comment_link_def split: option.splits if_splits)

text \<open>Claim C4: A successful connect keeps connection records unique per handle and keeps the annotatedElement/comment association mirrored and duplicate-free.\<close>
theorem comment_connect_invariants:
  assumes "comment_connect m element l h p = Inr m'"
    and "conn_unique m" and "association_sync (factory m)"
  shows "conn_unique m' \<and> association_sync (factory m')"
proof -
  let ?m1 = "connect_item m l h element p"
  have "comment_link ?m1 element l h = Inr m'" using assms(1) by (simp add: comment_connect_eq)
  then show ?thesis
  proof (cases rule: comment_link_cases)
    case plain
    with assms(2,3) show ?thesis by (simp add: conn_unique_connect_item)
  next
    case (annot c e)
    with assms(2,3) show ?thesis
      by (simp add: conn_unique_connect_item association_sync_set_annotatedElement)
  qed
qed

text \<open>Claim C3: Connecting a comment line whose other end is docked on a Comment item succeeds, records the handle as connected to the element and links the Comment to the element subject in both directions.\<close>
theorem comment_connect_annotates:
  assumes "conn_unique m"
    and "get_connected m l (opposite h) = Some c"
    and "subject (items m c) = Some sc" and "subject (items m element) = Some se"
    and "is_comment (factory m) sc"
  shows "\<exists>m'. comment_connect m element l h p = Inr m' \<and> get_connected m' l h = Some element
           \<and> se \<in> set (annotatedElement (factory m') sc) \<and> sc \<in> set (comment (factory m') se)"
proof -
  let ?m1 = "connect_item m l h element p"
  from assms(2-5) have run: "comment_connect m element l h p = Inr (annotate ?m1 sc se)"
    by (simp add: comment_connect_eq comment_link_def)
  have "get_connected ?m1 l h = Some element"
    using assms(1) by (simp add: get_connected_def get_connection_connect_item)
  with run show ?thesis by (simp add: set_annotatedElement_links)
qed

text \<open>Claim C6: Connecting the same handle of a comment line to the same element and port a second time returns the same state.\<close>
theorem comment_connect_idem:
  assumes "comment_connect m element l h p = Inr m'"
  shows "comment_connect m' element l h p = Inr m'"
proof -
  let ?m1 = "connect_item m l h element p"
  have link: "comment_link ?m1 element l h = Inr m'" using assms by (simp add: comment_connect_eq)
  have "connect_item m' l h element p = m'"
    using link
  proof (cases rule: comment_link_cases)
    case plain
    then show ?thesis by (simp add: connect_item_idem)
  next
    case (annot c e)
    then show ?thesis
      by (intro connect_item_present) (simp add: cinfo_in_connect_item)
  qed
  with comment_link_idem[OF link] show ?thesis by (simp add: comment_connect_eq)
qed

text \<open>Claim C7: On a diagram whose CommentItems present Comments, a connect that allow permitted never fails the assertion of the connect method.\<close>
theorem comment_connect_no_assertion:
  assumes "comment_allow m element l h p" and "comment_items_typed m"
  shows "\<exists>m'. comment_connect m element l h p = Inr m'"
  using assms
  by (auto simp: comment_allow_def item_is_def comment_items_typed_def comment_connect_eq comment_link_def
      Let_def split: option.split option.split_asm if_splits)



lemma comment_disconnect_cases:
  assumes "comment_disconnect m element l h = Inr m'"
  obtains (kept) "m' = m" | (removed) c e where "m' = disconnect_item (unannotate m c e) l h"
    | (plain) "m' = disconnect_item m l h"
  using assms
  by (auto simp: comment_disconnect_def base_disconnect_def Let_def split: option.splits if_splits)

text \<open>Claim C5: A successful disconnect keeps connection records unique per handle and keeps the annotatedElement/comment association mirrored and duplicate-free.\<close>
theorem comment_disconnect_invariants:
  assumes "comment_disconnect m element l h = Inr m'"
    and "conn_unique m" and "association_sync (factory m)"
  shows "conn_unique m' \<and> association_sync (factory m')"
  using assms(1)
proof (cases rule: comment_disconnect_cases)
  case kept
  with assms show ?thesis by simp
next
  case (removed c e)
  with assms(2,3) show ?thesis
    by (simp add: conn_unique_disconnect_item association_sync_del_annotatedElement)
next
  case plain
  with assms(2,3) show ?thesis by (simp add: conn_unique_disconnect_item)
qed

lemma card_inter_two:
  assumes "a \<noteq> b" "a \<in> set xs \<inter> set ys" "b \<in> set xs \<inter> set ys"
  shows "1 < card (set xs \<inter> set ys)"
proof -
  have "{a, b} \<subseteq> set xs \<inter> set ys" using assms(2,3) by blast
  then have "card {a, b} \<le> card (set xs \<inter> set ys)" by (intro card_mono) simp_all
  with assms(1) show ?thesis by simp
qed

text \<open>Claim C1: Disconnecting a comment line while another comment line links the same two subjects leaves the state, and so the annotatedElement relation, unchanged.\<close>
theorem comment_disconnect_parallel_kept:
  assumes "get_connected m l (opposite h) = Some ob"
    and "subject (items m element) = Some se" and "subject (items m ob) = Some so"
    and "l1 \<noteq> l2"
    and "l1 \<in> set (all_comment_line_items m se) \<inter> set (all_comment_line_items m so)"
    and "l2 \<in> set (all_comment_line_items m se) \<inter> set (all_comment_line_items m so)"
  shows "comment_disconnect m element l h = Inr m"
proof -
  have "1 < card (set (all_comment_line_items m se) \<inter> set (all_comment_line_items m so))"
    using assms(4-6) by (rule card_inter_two)
  with assms(1-3) show ?thesis by (simp add: comment_disconnect_def)
qed

text \<open>Claim C2: Disconnecting the only comment line between a Comment and another subject, with the Comment at either end of the line, succeeds, removes both directions of the annotatedElement/comment link in the orientation of the branch taken and the connection record of the handle.\<close>
theorem comment_disconnect_single_removes:
  assumes "get_connected m l (opposite h) = Some ob"
    and "subject (items m element) = Some se" and "subject (items m ob) = Some so"
    and "is_comment (factory m) so \<or> is_comment (factory m) se"
    and "card (set (all_comment_line_items m se) \<inter> set (all_comment_line_items m so)) \<le> 1"
  shows "\<exists>m'. comment_disconnect m element l h = Inr m'
           \<and> (if is_comment (factory m) so
              then se \<notin> set (annotatedElement (factory m') so) \<and> so \<notin> set (comment (factory m') se)
              else so \<notin> set (annotatedElement (factory m') se) \<and> se \<notin> set (comment (factory m') so))
           \<and> get_connection m' l h = None"
proof (cases "is_comment (factory m) so")
  case True
  with assms have "comment_disconnect m element l h = Inr (disconnect_item (unannotate m so se) l h)"
    by (simp add: comment_disconnect_def base_disconnect_def)
  with True show ?thesis by (simp add: del_annotatedElement_unlinks get_connection_disconnect_item)
next
  case False
  with assms(4) have "is_comment (factory m) se" by simp
  with False assms(1-3,5) have "comment_disconnect m element l h = Inr (disconnect_item (unannotate m se so) l h)"
    by (simp add: comment_disconnect_def base_disconnect_def)
  with False show ?thesis by (simp add: del_annotatedElement_unlinks get_connection_disconnect_item)
qed

end
