(* ===== verification/Scenarios.thy ===== *)
theory Scenarios
  imports CommentLine
begin

text \<open>
  Concrete diagrams for the comment-line connector, used to apply its theorems at inputs
  where their hypotheses hold. In all
  of them item 1 is a \<open>CommentItem\<close> presenting Comment 10, item 2 a \<open>ClassItem\<close>
  presenting Class 20, and items 3, 4 and 5 are comment lines.
\<close>

definition items_of :: "(iid \<times> item) list \<Rightarrow> iid \<Rightarrow> item" where
  "items_of xs i = (case map_of xs i of Some it \<Rightarrow> it | None \<Rightarrow> \<lparr>kind = Presentation, subject = None, diagram = 0\<rparr>)"

definition scene_items :: "(iid \<times> item) list" where
  "scene_items = [(1, \<lparr>kind = CommentItem, subject = Some 10, diagram = 0\<rparr>),
                  (2, \<lparr>kind = ClassItem, subject = Some 20, diagram = 0\<rparr>),
                  (3, \<lparr>kind = CommentLineItem, subject = None, diagram = 0\<rparr>),
                  (4, \<lparr>kind = CommentLineItem, subject = None, diagram = 0\<rparr>),
                  (5, \<lparr>kind = CommentLineItem, subject = None, diagram = 0\<rparr>),
                  (6, \<lparr>kind = ElementPresentation, subject = Some 10, diagram = 0\<rparr>)]"

definition annotated_factory :: element_factory where
  "annotated_factory = \<lparr>elements = [10 \<mapsto> Comment, 20 \<mapsto> Class], name = (\<lambda>_. None),
     body = (\<lambda>_. None), namespace = (\<lambda>_. None),
     annotatedElement = (\<lambda>_. [])(10 := [20]), comment = (\<lambda>_. [])(20 := [10])\<rparr>"

definition scene :: "cinfo list \<Rightarrow> element_factory \<Rightarrow> model" where
  "scene cs f = \<lparr>items = items_of scene_items, item_order = map fst scene_items,
     connections = (\<lambda>_. [])(0 := cs), factory = f\<rparr>"

definition ci :: "iid \<Rightarrow> handle \<Rightarrow> iid \<Rightarrow> cinfo" where
  "ci l h t = \<lparr>line = l, handle = h, connected = t, port = 0\<rparr>"

text \<open>Two parallel comment lines 3 and 4 between the comment and the class.\<close>

definition parallel_state :: model where
  "parallel_state = scene [ci 3 Head 1, ci 3 Tail 2, ci 4 Head 1, ci 4 Tail 2] annotated_factory"

text \<open>A single comment line 3 between the comment and the class.\<close>

definition single_state :: model where
  "single_state = scene [ci 3 Head 1, ci 3 Tail 2] annotated_factory"

text \<open>The same diagram before any relation exists, with line 3 docked at its head only.\<close>

definition unlinked_factory :: element_factory where
  "unlinked_factory = annotated_factory\<lparr>annotatedElement := (\<lambda>_. []), comment := (\<lambda>_. [])\<rparr>"

definition half_state :: model where
  "half_state = scene [ci 3 Head 1] unlinked_factory"

text \<open>A class 30 in package 31 (a root), and an element 40 that is its own namespace.\<close>

definition ns_factory :: element_factory where
  "ns_factory = unlinked_factory\<lparr>elements := [30 \<mapsto> Class, 31 \<mapsto> Package, 40 \<mapsto> Package],
     name := [30 \<mapsto> ''Cls'', 31 \<mapsto> ''Pkg''], namespace := [30 \<mapsto> 31, 40 \<mapsto> 40]\<rparr>"

subsection \<open>Facts about the scenarios\<close>

lemma scene_conn_unique:
  "conn_unique (scene cs f) \<longleftrightarrow> distinct (map (\<lambda>c. (line c, handle c)) cs)"
  by (auto simp: conn_unique_def scene_def)

lemma annotated_factory_sync: "association_sync annotated_factory"
  by (auto simp: association_sync_def annotated_factory_def)

lemma unlinked_factory_sync: "association_sync unlinked_factory"
  by (simp add: association_sync_def unlinked_factory_def)

lemma scene_typed: "comment_items_typed (scene cs annotated_factory)"
  "comment_items_typed (scene cs unlinked_factory)"
  by (auto simp: comment_items_typed_def scene_def items_of_def scene_items_def
      is_comment_def unlinked_factory_def annotated_factory_def split: if_splits)

lemma sum_case_Inr_obtain: "(case x of Inr _ \<Rightarrow> True | Inl _ \<Rightarrow> False) \<Longrightarrow> \<exists>y. x = Inr y"
  by (cases x) simp_all

theorem comment_disconnect_parallel_kept_witness:
  "comment_disconnect parallel_state 2 3 Tail = Inr parallel_state"
proof -
  have h1: "get_connected parallel_state 3 (opposite Tail) = Some 1" by code_simp
  have h2: "subject (items parallel_state 2) = Some 20" "subject (items parallel_state 1) = Some 10"
    by code_simp+
  have h3: "(3::nat) \<noteq> 4" by simp
  have h4: "3 \<in> set (all_comment_line_items parallel_state 20) \<inter> set (all_comment_line_items parallel_state 10)"
    "4 \<in> set (all_comment_line_items parallel_state 20) \<inter> set (all_comment_line_items parallel_state 10)"
    by code_simp+
  show ?thesis by (rule comment_disconnect_parallel_kept[OF h1 h2 h3 h4])
qed

theorem comment_disconnect_single_removes_witness:
  "\<exists>m'. comment_disconnect single_state 2 3 Tail = Inr m'
      \<and> 20 \<notin> set (annotatedElement (factory m') 10) \<and> 10 \<notin> set (comment (factory m') 20)
      \<and> get_connection m' 3 Tail = None"
proof -
  have h1: "get_connected single_state 3 (opposite Tail) = Some 1" by code_simp
  have h2: "subject (items single_state 2) = Some 20" "subject (items single_state 1) = Some 10"
    "is_comment (factory single_state) 10" by code_simp+
  have h3: "card (set (all_comment_line_items single_state 20) \<inter> set (all_comment_line_items single_state 10)) \<le> 1"
    by code_simp
  have "\<exists>m'. comment_disconnect single_state 2 3 Tail = Inr m'
      \<and> (if is_comment (factory single_state) 10
         then 20 \<notin> set (annotatedElement (factory m') 10) \<and> 10 \<notin> set (comment (factory m') 20)
         else 10 \<notin> set (annotatedElement (factory m') 20) \<and> 20 \<notin> set (comment (factory m') 10))
      \<and> get_connection m' 3 Tail = None"
    by (rule comment_disconnect_single_removes[OF h1 h2(1,2) disjI1[OF h2(3)] h3])
  with h2(3) show ?thesis by simp
qed

theorem comment_connect_annotates_witness:
  "\<exists>m'. comment_connect half_state 2 3 Tail 0 = Inr m' \<and> get_connected m' 3 Tail = Some 2
      \<and> 20 \<in> set (annotatedElement (factory m') 10) \<and> 10 \<in> set (comment (factory m') 20)"
proof -
  have h0: "conn_unique half_state" by (simp add: half_state_def scene_conn_unique)
  have h1: "get_connected half_state 3 (opposite Tail) = Some 1" by code_simp
  have h2: "subject (items half_state 1) = Some 10" "subject (items half_state 2) = Some 20"
    "is_comment (factory half_state) 10" by code_simp+
  show ?thesis by (rule comment_connect_annotates[OF h0 h1 h2])
qed

theorem comment_connect_invariants_witness:
  "\<exists>m'. comment_connect half_state 2 3 Tail 0 = Inr m' \<and> conn_unique m' \<and> association_sync (factory m')"
proof -
  have "case comment_connect half_state 2 3 Tail 0 of Inr _ \<Rightarrow> True | Inl _ \<Rightarrow> False" by code_simp
  then obtain m' where run: "comment_connect half_state 2 3 Tail 0 = Inr m'" by (auto dest: sum_case_Inr_obtain)
  have "conn_unique half_state" by (simp add: half_state_def scene_conn_unique)
  moreover have "association_sync (factory half_state)"
    by (simp add: half_state_def scene_def unlinked_factory_sync)
  ultimately show ?thesis using comment_connect_invariants[OF run] run by blast
qed

theorem comment_connect_idem_witness:
  "\<exists>m'. comment_connect half_state 2 3 Tail 0 = Inr m' \<and> comment_connect m' 2 3 Tail 0 = Inr m'"
proof -
  have "case comment_connect half_state 2 3 Tail 0 of Inr _ \<Rightarrow> True | Inl _ \<Rightarrow> False" by code_simp
  then obtain m' where run: "comment_connect half_state 2 3 Tail 0 = Inr m'" by (auto dest: sum_case_Inr_obtain)
  then show ?thesis using comment_connect_idem[OF run] by blast
qed

theorem comment_connect_no_assertion_witness:
  "comment_allow half_state 2 3 Tail 0 \<and> (\<exists>m'. comment_connect half_state 2 3 Tail 0 = Inr m')"
proof -
  have a: "comment_allow half_state 2 3 Tail 0" by code_simp
  have t: "comment_items_typed half_state" by (simp add: half_state_def scene_typed)
  show ?thesis using a comment_connect_no_assertion[OF a t] by blast
qed

theorem comment_disconnect_invariants_witness:
  "\<exists>m'. comment_disconnect single_state 2 3 Tail = Inr m' \<and> conn_unique m' \<and> association_sync (factory m')"
proof -
  have "case comment_disconnect single_state 2 3 Tail of Inr _ \<Rightarrow> True | Inl _ \<Rightarrow> False" by code_simp
  then obtain m' where run: "comment_disconnect single_state 2 3 Tail = Inr m'" by (auto dest: sum_case_Inr_obtain)
  have "conn_unique single_state" by (simp add: single_state_def scene_conn_unique ci_def)
  moreover have "association_sync (factory single_state)"
    by (simp add: single_state_def scene_def annotated_factory_sync)
  ultimately show ?thesis using comment_disconnect_invariants[OF run] run by blast
qed

theorem qualifiedname_reaches_root_witness:
  "namedelement_qualifiedname ns_factory 30 = Some [Some ''Pkg'', Some ''Cls'']"
proof -
  have r: "reaches_root ns_factory 2 30" by (simp add: ns_factory_def numeral_2_eq_2)
  show ?thesis using qualifiedname_reaches_root[OF r]
    by (simp add: ns_factory_def numeral_2_eq_2)
qed

theorem qualifiedname_self_loop_witness:
  "namedelement_qualifiedname ns_factory 40 = None"
  by (rule qualifiedname_self_loop) (simp add: ns_factory_def)

theorem base_connect_contract_witness:
  "conn_unique (connect_item half_state 3 Tail 2 0) \<and> get_connected (connect_item half_state 3 Tail 2 0) 3 Tail = Some 2
   \<and> get_connection (connect_item half_state 3 Tail 2 0) 3 Head = get_connection half_state 3 Head"
proof -
  have h0: "conn_unique half_state" by (simp add: half_state_def scene_conn_unique)
  have h1: "base_connect half_state 2 3 Tail 0 = (True, connect_item half_state 3 Tail 2 0)"
    by (simp add: base_connect_def)
  show ?thesis using base_connect_contract[OF h0 h1] by simp
qed

theorem base_disconnect_contract_witness:
  "conn_unique (base_disconnect single_state 3 Tail) \<and> get_connection (base_disconnect single_state 3 Tail) 3 Tail = None
   \<and> get_connection (base_disconnect single_state 3 Tail) 3 Head = get_connection single_state 3 Head"
proof -
  have h0: "conn_unique single_state" by (simp add: single_state_def scene_conn_unique ci_def)
  show ?thesis using base_disconnect_contract[OF h0, of 3 Tail] by simp
qed

theorem del_set_annotatedElement_roundtrip_witness:
  "20 \<notin> set (annotatedElement unlinked_factory 10) \<and> 10 \<notin> set (comment unlinked_factory 20)
   \<and> 20 \<in> set (annotatedElement (set_annotatedElement unlinked_factory 10 20) 10)
   \<and> 10 \<in> set (comment (set_annotatedElement unlinked_factory 10 20) 20)
   \<and> del_annotatedElement (set_annotatedElement unlinked_factory 10 20) 10 20 = unlinked_factory"
  using del_set_annotatedElement_roundtrip[of 20 unlinked_factory 10]
  by (simp add: unlinked_factory_def)

end
