(* ===== verification/Registry.thy ===== *)
theory Registry
  imports Items
begin

text \<open>
  The connector registry. \<open>src/gaphor/diagram/general/connectors.py\<close> registers
  \<open>CommentLinePresentationConnect\<close> for three (target, line) class pairs (lines 15--17)
  and \<open>InverseCommentLineLineConnect\<close> for one (line 95), whose constructor swaps its two
  arguments (lines 100--101). Dispatch (spec section 4.1) picks the registration whose
  pair is most specific for the runtime classes of the two items; a match with no most
  specific registration is an ambiguity, and no match at all means that no connector is
  defined for the pair.
\<close>

datatype connector_class = CommentLinePresentationConnect | InverseCommentLineLineConnect

type_synonym 'c registry = "((item_kind \<times> item_kind) \<times> 'c) list"

definition registrations :: "connector_class registry" where
  "registrations =
     [((CommentItem, CommentLineItem), CommentLinePresentationConnect),
      ((ElementPresentation, CommentLineItem), CommentLinePresentationConnect),
      ((LinePresentation, CommentLineItem), CommentLinePresentationConnect),
      ((CommentLineItem, LinePresentation), InverseCommentLineLineConnect)]"

definition more_specific :: "item_kind \<times> item_kind \<Rightarrow> item_kind \<times> item_kind \<Rightarrow> bool" where
  "more_specific p q \<longleftrightarrow> isinstance (fst p) (fst q) \<and> isinstance (snd p) (snd q)"

definition matches :: "'c registry \<Rightarrow> item_kind \<Rightarrow> item_kind \<Rightarrow> 'c registry" where
  "matches regs t l = filter (\<lambda>r. isinstance t (fst (fst r)) \<and> isinstance l (snd (fst r))) regs"

definition dispatch :: "'c registry \<Rightarrow> item_kind \<Rightarrow> item_kind \<Rightarrow> py_error + 'c option" where
  "dispatch regs t l =
     (let ms = matches regs t l
      in case filter (\<lambda>r. list_all (\<lambda>r'. more_specific (fst r) (fst r')) ms) ms of
           [] \<Rightarrow> (if ms = [] then Inr None else Inl AmbiguousLookupError)
         | r # _ \<Rightarrow> Inr (Some (snd r)))"

text \<open>
  The connector a class builds from \<open>(target, line)\<close>, as the pair (element, line) the
  comment-line connector operates on: the inverse class swaps them.
\<close>

fun connector_instance :: "connector_class \<Rightarrow> iid \<Rightarrow> iid \<Rightarrow> iid \<times> iid" where
  "connector_instance CommentLinePresentationConnect target l = (target, l)"
| "connector_instance InverseCommentLineLineConnect target l = (l, target)"

declare registrations_def [model_defs] more_specific_def [model_defs] matches_def [model_defs]
  dispatch_def [model_defs]

subsection \<open>Dispatch\<close>

lemma more_specific_antisym:
  "more_specific p q \<Longrightarrow> more_specific q p \<Longrightarrow> p = q"
  by (cases p; cases q) (auto simp: more_specific_def dest: isinstance_antisym)

lemma dispatch_exact:
  assumes "distinct (map fst regs)" and "((t, l), c) \<in> set regs"
  shows "dispatch regs t l = Inr (Some c)"
proof -
  let ?ms = "matches regs t l"
  let ?least = "filter (\<lambda>r. list_all (\<lambda>r'. more_specific (fst r) (fst r')) ?ms) ?ms"
  have in_ms: "((t, l), c) \<in> set ?ms" using assms(2) by (simp add: matches_def)
  have exact_least: "((t, l), c) \<in> set ?least"
    using in_ms by (auto simp: list_all_iff matches_def more_specific_def)
  have only: "r = ((t, l), c)" if "r \<in> set ?least" for r
  proof -
    from that have r1: "r \<in> set regs" and all: "\<forall>x\<in>set ?ms. more_specific (fst r) (fst x)"
      by (auto simp: matches_def list_all_iff)
    from all in_ms have "more_specific (fst r) (fst ((t, l), c))" by (rule bspec)
    then have r: "r \<in> set regs" "more_specific (fst r) (t, l)" using r1 by simp_all
    from that have "more_specific (t, l) (fst r)" by (auto simp: matches_def more_specific_def)
    with r(2) have "fst r = (t, l)" by (rule more_specific_antisym)
    with r(1) assms show ?thesis by (metis eq_key_imp_eq_value prod.collapse)
  qed
  obtain r rs where "?least = r # rs" using exact_least by (cases ?least) auto
  with only[of r] show ?thesis by (simp add: dispatch_def Let_def)
qed

lemma dispatch_sound:
  assumes "dispatch regs t l = Inr (Some c)"
  shows "\<exists>p. (p, c) \<in> set regs \<and> isinstance t (fst p) \<and> isinstance l (snd p)
           \<and> list_all (\<lambda>r. isinstance t (fst (fst r)) \<and> isinstance l (snd (fst r)) \<longrightarrow> more_specific p (fst r)) regs"
proof -
  let ?ms = "matches regs t l"
  let ?least = "filter (\<lambda>r. list_all (\<lambda>r'. more_specific (fst r) (fst r')) ?ms) ?ms"
  from assms obtain r rs where least: "?least = r # rs" and c: "c = snd r"
    by (auto simp: dispatch_def Let_def split: list.splits if_splits)
  then have "r \<in> set ?least" by simp
  then show ?thesis using c
    by (intro exI[of _ "fst r"]) (auto simp: matches_def list_all_iff; blast)
qed

theorem registrations_exact:
  "dispatch registrations CommentItem CommentLineItem = Inr (Some CommentLinePresentationConnect)
   \<and> dispatch registrations ElementPresentation CommentLineItem = Inr (Some CommentLinePresentationConnect)
   \<and> dispatch registrations LinePresentation CommentLineItem = Inr (Some CommentLinePresentationConnect)
   \<and> dispatch registrations CommentLineItem LinePresentation = Inr (Some InverseCommentLineLineConnect)"
  by (intro conjI dispatch_exact) (simp_all add: registrations_def)

text \<open>Claim C16: A comment line docked on any element item, or on any line other than a comment line, is handled by CommentLinePresentationConnect.\<close>
theorem comment_line_dispatch:
  "(isinstance t ElementPresentation \<or> (isinstance t LinePresentation \<and> t \<noteq> CommentLineItem))
   \<Longrightarrow> dispatch registrations t CommentLineItem = Inr (Some CommentLinePresentationConnect)"
  by (cases t) (simp_all add: isinstance_def model_defs)

text \<open>Claim C17: For a line of any other class docked on a comment line, the inverse connector operates on the same (element, line) pair as the direct registration with the two items swapped.\<close>
theorem inverse_dispatch_agrees:
  assumes "is_line k" and "k \<noteq> CommentLineItem"
  shows "\<exists>c c'. dispatch registrations CommentLineItem k = Inr (Some c)
           \<and> dispatch registrations k CommentLineItem = Inr (Some c')
           \<and> connector_instance c t l = connector_instance c' l t"
  using assms by (cases k) (simp_all add: is_line_def isinstance_def model_defs)

theorem comment_line_dispatch_witness:
  "dispatch registrations ClassItem CommentLineItem = Inr (Some CommentLinePresentationConnect)"
  by (rule comment_line_dispatch) (simp add: isinstance_def)

theorem inverse_dispatch_agrees_witness:
  "\<exists>c c'. dispatch registrations CommentLineItem DependencyItem = Inr (Some c)
      \<and> dispatch registrations DependencyItem CommentLineItem = Inr (Some c')
      \<and> connector_instance c 7 8 = connector_instance c' 8 7"
  by (rule inverse_dispatch_agrees) (simp_all add: is_line_def isinstance_def)

end
