(* ===== verification/Styling.thy ===== *)
theory Styling
  imports Prelude "HOL-Library.Product_Lexorder"
begin

text \<open>
  The style-sheet cascade of \<open>src/gaphor/core/styling/__init__.py\<close>. tinycss2's
  parser, \<open>compile_selector_list\<close> and \<open>StyleDeclarations\<close> are library code the
  module only calls: their results are the inputs of the model. A parsed rule is an
  error, a rule whose selector list failed to compile, or a rule with its compiled
  selectors (a predicate on elements and a specificity triple) and its raw declarations;
  \<open>StyleDeclarations\<close> is a parameter \<open>sd\<close> that converts a raw value or rejects it
  with \<open>None\<close>. Style dictionaries are maps from property names to values.
\<close>

type_synonym 'v style = "string \<rightharpoonup> 'v"
type_synonym specificity = "nat \<times> nat \<times> nat"
type_synonym 'e selector = "('e \<Rightarrow> bool) \<times> specificity"

datatype ('e, 'r) css_rule =
    RuleError
  | QualifiedRule "'e selector list option" "(string \<times> 'r) list"

datatype parse_error = ParseError | SelectorError

subsection \<open>\<open>merge_styles\<close>\<close>

text \<open>\<open>style.update(s)\<close> for each style in turn: a later style overrides an earlier one.\<close>

definition merge_styles :: "'v style list \<Rightarrow> 'v style" where
  "merge_styles styles = fold (\<lambda>s style. style ++ s) styles Map.empty"

subsection \<open>\<open>parse_style_sheet\<close>\<close>

text \<open>
  The declaration dictionary of a rule keeps the converted values that are not
  \<open>None\<close>; a later declaration of the same property overrides an earlier one.
\<close>

definition rule_declarations :: "(string \<Rightarrow> 'r \<Rightarrow> 'v option) \<Rightarrow> (string \<times> 'r) list \<Rightarrow> 'v style" where
  "rule_declarations sd decls =
     fold (\<lambda>(prop, raw) d. case sd prop raw of None \<Rightarrow> d | Some v \<Rightarrow> d(prop \<mapsto> v)) decls Map.empty"

fun parse_style_sheet ::
  "(string \<Rightarrow> 'r \<Rightarrow> 'v option) \<Rightarrow> ('e, 'r) css_rule list \<Rightarrow> (parse_error + 'e selector \<times> 'v style) list" where
  "parse_style_sheet sd [] = []"
| "parse_style_sheet sd (RuleError # rules) = Inl ParseError # parse_style_sheet sd rules"
| "parse_style_sheet sd (QualifiedRule None decls # rules) = Inl SelectorError # parse_style_sheet sd rules"
| "parse_style_sheet sd (QualifiedRule (Some sels) decls # rules) =
     map (\<lambda>sel. Inr (sel, rule_declarations sd decls)) sels @ parse_style_sheet sd rules"

subsection \<open>\<open>CompiledStyleSheet\<close>\<close>

text \<open>
  \<open>__init__\<close> numbers every parse result with \<open>enumerate\<close>, errors included, and keeps
  the selectors with their number as their order.
\<close>

record ('e, 'v) compiled_selector =
  sel_pred :: "'e \<Rightarrow> bool"
  sel_specificity :: specificity
  sel_order :: nat
  sel_declarations :: "'v style"

fun enumerate_selectors ::
  "nat \<Rightarrow> (parse_error + 'e selector \<times> 'v style) list \<Rightarrow> ('e, 'v) compiled_selector list" where
  "enumerate_selectors n [] = []"
| "enumerate_selectors n (Inl e # rs) = enumerate_selectors (Suc n) rs"
| "enumerate_selectors n (Inr ((pred, spec), decl) # rs) =
     \<lparr>sel_pred = pred, sel_specificity = spec, sel_order = n, sel_declarations = decl\<rparr>
       # enumerate_selectors (Suc n) rs"

definition compiled_style_sheet ::
  "(string \<Rightarrow> 'r \<Rightarrow> 'v option) \<Rightarrow> ('e, 'r) css_rule list \<Rightarrow> ('e, 'v) compiled_selector list" where
  "compiled_style_sheet sd css = enumerate_selectors 0 (parse_style_sheet sd css)"

text \<open>
  \<open>match\<close> sorts the matching selectors by (specificity, order) and merges their
  declarations in that order.
\<close>

definition style_match :: "('e, 'v) compiled_selector list \<Rightarrow> 'e \<Rightarrow> 'v style" where
  "style_match selectors element =
     merge_styles (map sel_declarations
       (sort_key (\<lambda>s. (sel_specificity s, sel_order s)) (filter (\<lambda>s. sel_pred s element) selectors)))"

text \<open>
  What \<open>CompiledStyleSheet\<close> keeps of a style sheet, stated without numbering: the
  selectors of every rule that parsed, each with its rule's declarations, in order.
\<close>

fun rule_entries :: "(string \<Rightarrow> 'r \<Rightarrow> 'v option) \<Rightarrow> ('e, 'r) css_rule \<Rightarrow> ('e selector \<times> 'v style) list" where
  "rule_entries sd (QualifiedRule (Some sels) decls) = map (\<lambda>sel. (sel, rule_declarations sd decls)) sels"
| "rule_entries sd _ = []"

subsection \<open>Lemmas\<close>

lemma fold_map_add_last:
  "fold (\<lambda>s style. style ++ s) ss acc k =
     (case filter (\<lambda>s. s k \<noteq> None) ss of [] \<Rightarrow> acc k | fs \<Rightarrow> last fs k)"
proof (induction ss arbitrary: acc)
  case Nil
  then show ?case by simp
next
  case (Cons s ss)
  have "fold (\<lambda>s style. style ++ s) (s # ss) acc k =
        (case filter (\<lambda>s. s k \<noteq> None) ss of [] \<Rightarrow> (acc ++ s) k | fs \<Rightarrow> last fs k)"
    by (simp add: Cons.IH)
  then show ?case
    by (cases "filter (\<lambda>s. s k \<noteq> None) ss") (auto simp: map_add_def split: option.splits)
qed

theorem merge_styles_last_writer:
  "merge_styles ss k = (case filter (\<lambda>s. s k \<noteq> None) ss of [] \<Rightarrow> None | fs \<Rightarrow> last fs k)"
  by (simp add: merge_styles_def fold_map_add_last)

lemma fold_decl_last:
  "fold (\<lambda>(prop, raw) d. case sd prop raw of None \<Rightarrow> d | Some v \<Rightarrow> d(prop \<mapsto> v)) decls acc p =
     (case filter (\<lambda>(q, r). q = p \<and> sd q r \<noteq> None) decls of [] \<Rightarrow> acc p | xs \<Rightarrow> sd p (snd (last xs)))"
proof (induction decls arbitrary: acc)
  case Nil
  then show ?case by simp
next
  case (Cons d decls)
  obtain q r where d: "d = (q, r)" by (cases d)
  show ?case
    by (cases "filter (\<lambda>(q, r). q = p \<and> sd q r \<noteq> None) decls")
       (auto simp: Cons.IH d split: option.splits)
qed

text \<open>Claim C15: In a rule, a property takes the value of its last declaration that the converter accepts; rejected values do not erase earlier ones.\<close>
theorem rule_declarations_last:
  "rule_declarations sd decls p =
     (case filter (\<lambda>(q, r). q = p \<and> sd q r \<noteq> None) decls of [] \<Rightarrow> None | xs \<Rightarrow> sd p (snd (last xs)))"
  by (simp add: rule_declarations_def fold_decl_last)

lemma enumerate_selectors_orders:
  "sorted_wrt (<) (map sel_order (enumerate_selectors n rs)) \<and> (\<forall>s\<in>set (enumerate_selectors n rs). n \<le> sel_order s)"
  by (induction n rs rule: enumerate_selectors.induct) auto

lemma enumerate_selectors_index:
  "s \<in> set (enumerate_selectors n rs) \<Longrightarrow>
     n \<le> sel_order s \<and> sel_order s < n + length rs
     \<and> rs ! (sel_order s - n) = Inr ((sel_pred s, sel_specificity s), sel_declarations s)"
proof (induction n rs rule: enumerate_selectors.induct)
  case (2 n e rs)
  then show ?case by (fastforce simp: nth_Cons')
next
  case (3 n pred spec decl rs)
  then show ?case by (auto simp: nth_Cons')
qed simp

lemma compiled_orders_distinct:
  "distinct (map sel_order (compiled_style_sheet sd css))"
  using enumerate_selectors_orders[of 0 "parse_style_sheet sd css"]
  by (simp add: compiled_style_sheet_def strict_sorted_iff)


lemma style_match_winner:
  assumes "s \<in> set sels" "sel_pred s el" "sel_declarations s k = Some v"
    and "\<And>s'. s' \<in> set sels \<Longrightarrow> sel_pred s' el \<Longrightarrow> sel_declarations s' k \<noteq> None \<Longrightarrow> s' \<noteq> s
           \<Longrightarrow> (sel_specificity s', sel_order s') < (sel_specificity s, sel_order s)"
  shows "style_match sels el k = Some v"
proof -
  let ?key = "\<lambda>s. (sel_specificity s, sel_order s)"
  let ?L = "sort_key ?key (filter (\<lambda>s. sel_pred s el) sels)"
  let ?DS = "filter (\<lambda>s. sel_declarations s k \<noteq> None) ?L"
  have s_in: "s \<in> set ?DS" using assms(1-3) by (simp add: filter_empty_conv)
  from s_in have ne: "?DS \<noteq> []" by (metis empty_iff list.set(1))
  have sorted: "sorted (map ?key ?DS)" by (simp add: sorted_filter)
  have last_in: "last ?DS \<in> set ?DS" using ne by (rule last_in_set)
  have le: "?key s \<le> ?key (last ?DS)"
    using sorted s_in by (rule sorted_map_last_max)
  have last_s: "last ?DS = s"
  proof (rule ccontr)
    assume "last ?DS \<noteq> s"
    moreover have "last ?DS \<in> set sels" "sel_pred (last ?DS) el" "sel_declarations (last ?DS) k \<noteq> None"
      using last_in by simp_all
    ultimately have "?key (last ?DS) < ?key s" by (intro assms(4))
    with leD[OF le] show False by (rule notE)
  qed
  have fm: "filter (\<lambda>d. d k \<noteq> None) (map sel_declarations ?L) = map sel_declarations ?DS"
    by (simp add: filter_map comp_def)
  obtain d ds where DS: "map sel_declarations ?DS = d # ds" using ne by (cases ?DS) auto
  have "style_match sels el k = last (d # ds) k"
    by (simp only: style_match_def merge_styles_last_writer fm DS list.case)
  also have "last (d # ds) = last (map sel_declarations ?DS)" by (simp only: DS)
  also have "\<dots> = sel_declarations (last ?DS)" using ne by (rule last_map)
  finally show ?thesis using last_s assms(3) by simp
qed


text \<open>Claim C12: match on a compiled style sheet returns, for a property, the value declared by the matching selector with the greatest (specificity, order); a later rule wins a tie of specificity.\<close>
theorem compiled_style_match_cascade:
  assumes "s \<in> set (compiled_style_sheet sd css)" "sel_pred s el" "sel_declarations s k = Some v"
    and "\<forall>s'\<in>set (compiled_style_sheet sd css). sel_pred s' el \<and> sel_declarations s' k \<noteq> None
           \<longrightarrow> (sel_specificity s', sel_order s') \<le> (sel_specificity s, sel_order s)"
  shows "style_match (compiled_style_sheet sd css) el k = Some v"
proof (rule style_match_winner[OF assms(1-3)])
  fix s'
  assume s': "s' \<in> set (compiled_style_sheet sd css)" "sel_pred s' el" "sel_declarations s' k \<noteq> None" "s' \<noteq> s"
  from assms(4) s'(1-3) have le: "(sel_specificity s', sel_order s') \<le> (sel_specificity s, sel_order s)"
    by blast
  have "sel_order s' \<noteq> sel_order s"
    using compiled_orders_distinct[of sd css] s'(1,4) assms(1) by (auto simp: distinct_map inj_on_def)
  then have "(sel_specificity s', sel_order s') \<noteq> (sel_specificity s, sel_order s)" by simp
  with le show "(sel_specificity s', sel_order s') < (sel_specificity s, sel_order s)"
    by (rule order_le_neq_trans)
qed

text \<open>Claim C13: match leaves a property undefined exactly when no selector that matches the element declares it.\<close>
theorem style_match_undefined:
  "style_match sels el k = None \<longleftrightarrow> (\<forall>s\<in>set sels. sel_pred s el \<longrightarrow> sel_declarations s k = None)"
proof -
  let ?L = "sort_key (\<lambda>s. (sel_specificity s, sel_order s)) (filter (\<lambda>s. sel_pred s el) sels)"
  let ?F = "filter (\<lambda>d. d k \<noteq> None) (map sel_declarations ?L)"
  have eq: "style_match sels el k = (case ?F of [] \<Rightarrow> None | fs \<Rightarrow> last fs k)"
    by (simp add: style_match_def merge_styles_last_writer)
  have "?F \<noteq> [] \<Longrightarrow> last ?F k \<noteq> None"
    using filter_last_holds[of "\<lambda>d. d k \<noteq> None"] by blast
  then have "style_match sels el k = None \<longleftrightarrow> ?F = []"
    unfolding eq by (cases ?F) auto
  also have "\<dots> \<longleftrightarrow> (\<forall>s\<in>set sels. sel_pred s el \<longrightarrow> sel_declarations s k = None)"
    by (auto simp: filter_empty_conv)
  finally show ?thesis .
qed

lemma enumerate_selectors_entries:
  "map (\<lambda>s. ((sel_pred s, sel_specificity s), sel_declarations s)) (enumerate_selectors n rs)
   = concat (map (case_sum (\<lambda>_. []) (\<lambda>x. [x])) rs)"
  by (induction n rs rule: enumerate_selectors.induct) simp_all

text \<open>Claim C14: The compiled selectors are, in order, the selectors of every rule that parsed, each with its rule declarations: parse errors and selector errors drop only their own rule.\<close>
theorem compiled_style_sheet_entries:
  "map (\<lambda>s. ((sel_pred s, sel_specificity s), sel_declarations s)) (compiled_style_sheet sd css)
   = concat (map (rule_entries sd) css)"
proof -
  have "concat (map (case_sum (\<lambda>_. []) (\<lambda>x. [x])) (parse_style_sheet sd css)) = concat (map (rule_entries sd) css)"
    by (induction sd css rule: parse_style_sheet.induct) (simp_all add: comp_def)
  then show ?thesis by (simp add: compiled_style_sheet_def enumerate_selectors_entries)
qed

text \<open>Claim C24: The order of every compiled selector is below the number of parse results and is the position, in the enumerated parse results, of the selector it was compiled from.\<close>
theorem compiled_order_bounds:
  assumes "s \<in> set (compiled_style_sheet sd css)"
  shows "sel_order s < length (parse_style_sheet sd css)
         \<and> parse_style_sheet sd css ! sel_order s = Inr ((sel_pred s, sel_specificity s), sel_declarations s)"
  using enumerate_selectors_index[of s 0 "parse_style_sheet sd css"] assms
  by (simp add: compiled_style_sheet_def)

theorem rule_declarations_last_witness:
  "rule_declarations (\<lambda>p r. if r = '''' then None else Some r)
     [(''color'', ''red''), (''width'', ''2''), (''color'', ''blue''), (''color'', '''')] ''color'' = Some ''blue''"
  by (simp add: rule_declarations_last)

end
