(* ===== verification/StyleExamples.thy ===== *)
theory StyleExamples
  imports Styling
begin

text \<open>
  A concrete style sheet for the cascade theorems: a universal rule (specificity
  (0,0,1)), a parse error, a more specific rule for element 1, a rule whose selector does
  not compile, and a later universal rule. Empty raw values are rejected by the
  converter, as \<open>StyleDeclarations\<close> rejects values it cannot parse.
\<close>

definition example_sd :: "string \<Rightarrow> string \<Rightarrow> string option" where
  "example_sd prop raw = (if raw = [] then None else Some raw)"

definition example_css :: "(nat, string) css_rule list" where
  "example_css =
     [QualifiedRule (Some [(\<lambda>e. True, (0, 0, 1))]) [(''color'', ''red''), (''width'', ''2'')],
      RuleError,
      QualifiedRule (Some [(\<lambda>e. e = 1, (0, 1, 0))]) [(''color'', ''blue'')],
      QualifiedRule None [(''color'', ''black'')],
      QualifiedRule (Some [(\<lambda>e. True, (0, 0, 1))]) [(''color'', ''green''), (''width'', [])]]"

definition example_sheet :: "(nat, string) compiled_selector list" where
  "example_sheet = compiled_style_sheet example_sd example_css"

subsection \<open>The example evaluated\<close>

lemma example_sheet_eval:
  "example_sheet =
     [\<lparr>sel_pred = \<lambda>e. True, sel_specificity = (0, 0, 1), sel_order = 0,
       sel_declarations = [''color'' \<mapsto> ''red'', ''width'' \<mapsto> ''2'']\<rparr>,
      \<lparr>sel_pred = \<lambda>e. e = 1, sel_specificity = (0, 1, 0), sel_order = 2,
       sel_declarations = [''color'' \<mapsto> ''blue'']\<rparr>,
      \<lparr>sel_pred = \<lambda>e. True, sel_specificity = (0, 0, 1), sel_order = 4,
       sel_declarations = [''color'' \<mapsto> ''green'']\<rparr>]"
  by (simp add: example_sheet_def example_css_def compiled_style_sheet_def example_sd_def
      rule_declarations_def)

theorem compiled_style_match_cascade_witness:
  "style_match example_sheet 1 ''color'' = Some ''blue''"
proof -
  let ?s = "\<lparr>sel_pred = \<lambda>e::nat. e = 1, sel_specificity = (0::nat, 1::nat, 0::nat), sel_order = 2::nat,
       sel_declarations = [''color'' \<mapsto> ''blue'']\<rparr>"
  have h1: "?s \<in> set (compiled_style_sheet example_sd example_css)"
    using example_sheet_eval by (simp add: example_sheet_def)
  have h2: "sel_pred ?s 1" "sel_declarations ?s ''color'' = Some ''blue''" by simp_all
  have h3: "\<forall>s'\<in>set (compiled_style_sheet example_sd example_css). sel_pred s' 1 \<and> sel_declarations s' ''color'' \<noteq> None
           \<longrightarrow> (sel_specificity s', sel_order s') \<le> (sel_specificity ?s, sel_order ?s)"
    using example_sheet_eval by (simp add: example_sheet_def)
  show ?thesis using compiled_style_match_cascade[OF h1 h2 h3] by (simp add: example_sheet_def)
qed

theorem style_match_undefined_witness:
  "style_match example_sheet 2 ''height'' = None"
proof -
  have "\<forall>s\<in>set example_sheet. sel_pred s 2 \<longrightarrow> sel_declarations s ''height'' = None"
    by (simp add: example_sheet_eval)
  then show ?thesis using style_match_undefined[of example_sheet 2 "''height''"] by blast
qed

lemma example_later_rule_wins: "style_match example_sheet 2 ''color'' = Some ''green''"
  by (simp add: example_sheet_eval style_match_def merge_styles_def)
lemma example_rejected_value_kept: "style_match example_sheet 2 ''width'' = Some ''2''"
  by (simp add: example_sheet_eval style_match_def merge_styles_def)

theorem compiled_order_bounds_witness:
  "\<lparr>sel_pred = \<lambda>e::nat. e = 1, sel_specificity = (0::nat, 1::nat, 0::nat), sel_order = 2::nat,
     sel_declarations = [''color'' \<mapsto> ''blue'']\<rparr> \<in> set (compiled_style_sheet example_sd example_css)
   \<and> (2::nat) < length (parse_style_sheet example_sd example_css)
   \<and> parse_style_sheet example_sd example_css ! 2 = Inr ((\<lambda>e::nat. e = 1, (0::nat, 1::nat, 0::nat)), [''color'' \<mapsto> ''blue''])"
proof -
  let ?s = "\<lparr>sel_pred = \<lambda>e::nat. e = 1, sel_specificity = (0::nat, 1::nat, 0::nat), sel_order = 2::nat,
     sel_declarations = [''color'' \<mapsto> ''blue'']\<rparr>"
  have m: "?s \<in> set (compiled_style_sheet example_sd example_css)"
    using example_sheet_eval by (simp add: example_sheet_def)
  show ?thesis using compiled_order_bounds[OF m] m by simp
qed

end
