(* ===== verification/Copypaste.thy ===== *)
theory Copypaste
  imports Domain
begin

text \<open>
  Copy support for classes of \<open>src/gaphor/UML/classes/copypaste.py\<close>. \<open>copy\<close> is a
  single-dispatch generator of (id, copy) pairs: for a \<open>Class\<close> (so also a \<open>Component\<close>,
  a subclass of \<open>Class\<close> in gaphor's UML model, which \<open>singledispatch\<close> resolves to the
  registration of its nearest base) or an \<open>Interface\<close> it
  yields the element and then copies its owned attributes and operations
  (\<open>copy_class\<close>), for an \<open>Operation\<close> the element and its parameters
  (\<open>copy_operation\<close>), for an \<open>Association\<close> the element and its member ends
  (\<open>copy_association\<close>); other elements are copied alone by the generic copier of
  \<open>gaphor.diagram.copypaste\<close>. The dispatch follows the runtime class of each feature,
  so the recursion is bounded only on a well-typed model: it is written with fuel, and a
  lemma says how much fuel is enough.
\<close>

record uml_factory = element_factory +
  ownedAttribute :: "eid \<Rightarrow> eid list"
  ownedOperation :: "eid \<Rightarrow> eid list"
  ownedParameter :: "eid \<Rightarrow> eid list"
  memberEnd :: "eid \<Rightarrow> eid list"

text \<open>\<open>copy_named_element\<close>: an opaque snapshot of the element's class and name.\<close>

type_synonym element_copy = "etype option \<times> string option"

definition copy_named_element :: "'a uml_factory_scheme \<Rightarrow> eid \<Rightarrow> element_copy" where
  "copy_named_element f e = (elements f e, name f e)"

text \<open>\<open>yield from\<close> over a sequence of sub-generators; a sub-copy that runs out of fuel
  makes the whole copy run out.\<close>

fun concat_options :: "'b list option list \<Rightarrow> 'b list option" where
  "concat_options [] = Some []"
| "concat_options (x # xs) = Option.bind x (\<lambda>ys. map_option (\<lambda>zs. ys @ zs) (concat_options xs))"

type_synonym copier = "eid \<Rightarrow> (eid \<times> element_copy) list option"

definition copy_class :: "copier \<Rightarrow> 'a uml_factory_scheme \<Rightarrow> eid \<Rightarrow> (eid \<times> element_copy) list option" where
  "copy_class cp f e =
     map_option (\<lambda>rest. (e, copy_named_element f e) # rest)
       (concat_options (map cp (ownedAttribute f e @ ownedOperation f e)))"

definition copy_operation :: "copier \<Rightarrow> 'a uml_factory_scheme \<Rightarrow> eid \<Rightarrow> (eid \<times> element_copy) list option" where
  "copy_operation cp f e =
     map_option (\<lambda>rest. (e, copy_named_element f e) # rest) (concat_options (map cp (ownedParameter f e)))"

definition copy_association :: "copier \<Rightarrow> 'a uml_factory_scheme \<Rightarrow> eid \<Rightarrow> (eid \<times> element_copy) list option" where
  "copy_association cp f e =
     map_option (\<lambda>rest. (e, copy_named_element f e) # rest) (concat_options (map cp (memberEnd f e)))"

fun copy :: "nat \<Rightarrow> 'a uml_factory_scheme \<Rightarrow> eid \<Rightarrow> (eid \<times> element_copy) list option" where
  "copy 0 f e = None"
| "copy (Suc n) f e =
     (case elements f e of
        Some Class \<Rightarrow> copy_class (copy n f) f e
      | Some Interface \<Rightarrow> copy_class (copy n f) f e
      | Some Component \<Rightarrow> copy_class (copy n f) f e
      | Some Operation \<Rightarrow> copy_operation (copy n f) f e
      | Some Association \<Rightarrow> copy_association (copy n f) f e
      | _ \<Rightarrow> Some [(e, copy_named_element f e)])"

text \<open>
  A model is well typed for copying when attributes and member ends are properties,
  operations are operations and parameters are parameters.
\<close>

definition copy_typed :: "'a uml_factory_scheme \<Rightarrow> bool" where
  "copy_typed f \<longleftrightarrow>
     (\<forall>e. list_all (\<lambda>a. elements f a = Some Property) (ownedAttribute f e)
        \<and> list_all (\<lambda>o'. elements f o' = Some Operation) (ownedOperation f e)
        \<and> list_all (\<lambda>p. elements f p = Some Parameter) (ownedParameter f e)
        \<and> list_all (\<lambda>m. elements f m = Some Property) (memberEnd f e))"

definition leaf_copy :: "'a uml_factory_scheme \<Rightarrow> eid \<Rightarrow> eid \<times> element_copy" where
  "leaf_copy f x = (x, copy_named_element f x)"

text \<open>A class Car with attribute wheels and operation drive(speed), and an association
  whose member ends are wheels and car.\<close>

definition copy_example :: uml_factory where
  "copy_example = \<lparr>elements = [1 \<mapsto> Class, 2 \<mapsto> Property, 3 \<mapsto> Operation, 4 \<mapsto> Parameter,
       5 \<mapsto> Association, 6 \<mapsto> Property],
     name = [1 \<mapsto> ''Car'', 2 \<mapsto> ''wheels'', 3 \<mapsto> ''drive'', 4 \<mapsto> ''speed'', 6 \<mapsto> ''car''],
     body = (\<lambda>_. None), namespace = (\<lambda>_. None), annotatedElement = (\<lambda>_. []), comment = (\<lambda>_. []),
     ownedAttribute = (\<lambda>_. [])(1 := [2]), ownedOperation = (\<lambda>_. [])(1 := [3]),
     ownedParameter = (\<lambda>_. [])(3 := [4]), memberEnd = (\<lambda>_. [])(5 := [2, 6])\<rparr>"

subsection \<open>Lemmas\<close>

lemma concat_options_all_Some:
  "(\<And>x. x \<in> set xs \<Longrightarrow> cp x = Some (g x)) \<Longrightarrow> concat_options (map cp xs) = Some (concat (map g xs))"
  by (induction xs) simp_all

lemma concat_options_mono:
  "concat_options (map cp xs) = Some r \<Longrightarrow> (\<And>x r'. cp x = Some r' \<Longrightarrow> cp' x = Some r')
   \<Longrightarrow> concat_options (map cp' xs) = Some r"
  by (induction xs arbitrary: r) (auto split: Option.bind_splits)

lemma copy_leaf:
  "elements f e \<notin> Some ` {Class, Interface, Component, Operation, Association}
   \<Longrightarrow> copy (Suc n) f e = Some [(e, copy_named_element f e)]"
  by (cases "elements f e") (auto split: etype.split)

lemma copy_typed_leaf:
  assumes "copy_typed f" "elements f x = Some Property \<or> elements f x = Some Parameter"
  shows "copy (Suc n) f x = Some [leaf_copy f x]"
  using assms(2) by (auto simp: leaf_copy_def intro: copy_leaf)

lemma copy_typed_operation:
  assumes "copy_typed f" "elements f o' = Some Operation"
  shows "copy (Suc (Suc n)) f o' = Some ((o', copy_named_element f o') # map (leaf_copy f) (ownedParameter f o'))"
proof -
  have "\<And>p. p \<in> set (ownedParameter f o') \<Longrightarrow> copy (Suc n) f p = Some [leaf_copy f p]"
    using assms(1) by (intro copy_typed_leaf) (auto simp: copy_typed_def list_all_iff)
  then have "concat_options (map (copy (Suc n) f) (ownedParameter f o'))
             = Some (concat (map (\<lambda>p. [leaf_copy f p]) (ownedParameter f o')))"
    by (rule concat_options_all_Some)
  with assms(2) show ?thesis by (simp add: copy_operation_def concat_map_singleton)
qed

text \<open>Claim C21: On a well-typed model, copying a class, interface or component (a Class subclass) yields the element itself, then each owned attribute, then each owned operation followed by its parameters, each paired with its own snapshot; three levels of fuel are enough.\<close>
theorem copy_class_ids:
  assumes "copy_typed f"
    and "elements f e = Some Class \<or> elements f e = Some Interface \<or> elements f e = Some Component"
  shows "\<exists>r. copy (Suc (Suc (Suc n))) f e = Some r
           \<and> map fst r = e # ownedAttribute f e @ concat (map (\<lambda>o'. o' # ownedParameter f o') (ownedOperation f e))
           \<and> list_all (\<lambda>(x, c). c = copy_named_element f x) r"
proof -
  let ?g = "\<lambda>x. if elements f x = Some Operation
               then (x, copy_named_element f x) # map (leaf_copy f) (ownedParameter f x) else [leaf_copy f x]"
  have "\<And>x. x \<in> set (ownedAttribute f e @ ownedOperation f e) \<Longrightarrow> copy (Suc (Suc n)) f x = Some (?g x)"
    using assms(1) by (auto simp del: copy.simps simp: copy_typed_def list_all_iff copy_typed_leaf
        copy_typed_operation leaf_copy_def)
  then have c: "concat_options (map (copy (Suc (Suc n)) f) (ownedAttribute f e @ ownedOperation f e))
                = Some (concat (map ?g (ownedAttribute f e @ ownedOperation f e)))"
    by (rule concat_options_all_Some)
  have attrs: "concat (map ?g (ownedAttribute f e)) = map (leaf_copy f) (ownedAttribute f e)"
    using assms(1) by (intro concat_map_single) (auto simp: copy_typed_def list_all_iff)
  have ops: "map ?g (ownedOperation f e)
             = map (\<lambda>o'. (o', copy_named_element f o') # map (leaf_copy f) (ownedParameter f o')) (ownedOperation f e)"
    using assms(1) by (auto simp: copy_typed_def list_all_iff)
  have "copy (Suc (Suc (Suc n))) f e = Some ((e, copy_named_element f e) # concat (map ?g (ownedAttribute f e @ ownedOperation f e)))"
    using c assms(2) by (auto simp: copy_class_def)
  moreover have "map fst (concat (map ?g (ownedAttribute f e @ ownedOperation f e)))
      = ownedAttribute f e @ concat (map (\<lambda>o'. o' # ownedParameter f o') (ownedOperation f e))"
    by (simp only: map_append concat_append attrs ops) (simp add: leaf_copy_def map_concat comp_def)
  moreover have "list_all (\<lambda>(x, c). c = copy_named_element f x) (concat (map ?g (ownedAttribute f e @ ownedOperation f e)))"
    by (simp only: map_append concat_append attrs ops) (auto simp: leaf_copy_def list_all_iff)
  ultimately show ?thesis by simp
qed

text \<open>Claim C22: On a well-typed model, copying an association yields the association followed by a copy of each member end, in order.\<close>
theorem copy_association_ids:
  assumes "copy_typed f" and "elements f e = Some Association"
  shows "copy (Suc (Suc n)) f e = Some ((e, copy_named_element f e) # map (leaf_copy f) (memberEnd f e))"
proof -
  have "\<And>m. m \<in> set (memberEnd f e) \<Longrightarrow> copy (Suc n) f m = Some [leaf_copy f m]"
    using assms(1) by (intro copy_typed_leaf) (auto simp: copy_typed_def list_all_iff)
  then have "concat_options (map (copy (Suc n) f) (memberEnd f e))
             = Some (concat (map (\<lambda>m. [leaf_copy f m]) (memberEnd f e)))"
    by (rule concat_options_all_Some)
  with assms(2) show ?thesis by (simp add: copy_association_def concat_map_singleton)
qed

lemma copy_example_typed: "copy_typed copy_example"
  by (simp add: copy_typed_def copy_example_def)

theorem copy_class_ids_example: "copy 3 copy_example 1 = Some [(1, Some Class, Some ''Car''), (2, Some Property, Some ''wheels''),
  (3, Some Operation, Some ''drive''), (4, Some Parameter, Some ''speed'')]"
  by (simp add: copy_example_def numeral_3_eq_3 copy_class_def copy_operation_def copy_named_element_def)

theorem copy_class_out_of_fuel: "copy 2 copy_example 1 = None"
  by (simp add: copy_example_def numeral_2_eq_2 copy_class_def copy_operation_def copy_named_element_def)

theorem copy_class_ids_witness:
  "\<exists>r. copy 3 copy_example 1 = Some r \<and> map fst r = [1, 2, 3, 4]
     \<and> list_all (\<lambda>(x, c). c = copy_named_element copy_example x) r"
proof -
  have h: "elements copy_example 1 = Some Class \<or> elements copy_example 1 = Some Interface
      \<or> elements copy_example 1 = Some Component"
    by (simp add: copy_example_def)
  show ?thesis using copy_class_ids[OF copy_example_typed h, of 0]
    by (simp add: numeral_3_eq_3 copy_example_def)
qed

theorem copy_association_ids_witness:
  "copy 2 copy_example 5 = Some [(5, Some Association, None), (2, Some Property, Some ''wheels''),
     (6, Some Property, Some ''car'')]"
proof -
  have h: "elements copy_example 5 = Some Association" by (simp add: copy_example_def)
  show ?thesis using copy_association_ids[OF copy_example_typed h, of 0]
    by (simp add: numeral_2_eq_2 leaf_copy_def copy_named_element_def copy_example_def)
qed

end
