(* ===== verification/Folding.thy ===== *)
theory Folding
  imports Prelude
begin

text \<open>
  The folding state machine of the interface item (specification, section 4.4). An
  interface item is drawn unfolded (\<open>NONE\<close>), as a socket (\<open>REQUIRED\<close>), as a ball
  (\<open>PROVIDED\<close>) or as both (\<open>ASSEMBLY\<close>); setting \<open>folded\<close> also sets the
  \<open>connectable\<close> flag of its four ports (one per side). The state is recomputed after
  every connect or disconnect of a line touching the item, as a function of the roles of
  the lines attached to it. This theory holds the item and the abstract machine over the
  list of attached lines; \<open>Assembly\<close> shows that the connector operations on the full
  model refine it.
\<close>

datatype folded = NONE | REQUIRED | PROVIDED | ASSEMBLY

datatype side = N | E | S | W

fun side_index :: "side \<Rightarrow> nat" where
  "side_index N = 0"
| "side_index E = 1"
| "side_index S = 2"
| "side_index W = 3"

text \<open>The role a line plays for the interface: a realization line (and a connector whose
  component realizes the interface) produces the provided side, a usage dependency (and a
  connector whose component uses the interface) the required side.\<close>

datatype role = Providing | Requiring

definition fold_of :: "role list \<Rightarrow> folded" where
  "fold_of rs =
     (if Providing \<in> set rs \<and> Requiring \<in> set rs then ASSEMBLY
      else if Providing \<in> set rs then PROVIDED
      else if Requiring \<in> set rs then REQUIRED
      else NONE)"

text \<open>Ports are numbered by side (\<open>N, E, S, W\<close>). A folded item exposes the port of its
  side; an assembly exposes in addition the required port on the opposite side.\<close>

definition provided_port :: "side \<Rightarrow> nat" where
  "provided_port sd = side_index sd"

definition required_port :: "folded \<Rightarrow> side \<Rightarrow> nat" where
  "required_port f sd = (if f = ASSEMBLY then (side_index sd + 2) mod 4 else side_index sd)"

definition port_active :: "folded \<Rightarrow> side \<Rightarrow> nat \<Rightarrow> bool" where
  "port_active f sd i =
     (case f of
        NONE \<Rightarrow> True
      | PROVIDED \<Rightarrow> i = provided_port sd
      | REQUIRED \<Rightarrow> i = required_port f sd
      | ASSEMBLY \<Rightarrow> i = provided_port sd \<or> i = required_port f sd)"

record iface_item =
  folded :: folded
  side :: side
  connectable :: "bool list"

text \<open>The \<open>folded\<close> setter of the item: it updates the ports' \<open>connectable\<close> flags.\<close>

definition set_folded :: "folded \<Rightarrow> iface_item \<Rightarrow> iface_item" where
  "set_folded f it = it\<lparr>folded := f, connectable := map (port_active f (side it)) [0..<4]\<rparr>"

definition role_port :: "folded \<Rightarrow> side \<Rightarrow> role \<Rightarrow> nat" where
  "role_port f sd r = (case r of Providing \<Rightarrow> provided_port sd | Requiring \<Rightarrow> required_port f sd)"

text \<open>The glue test of a connector line on the item: on an unfolded item any port; on a
  folded one only a connectable port, and the port of the line's role when its component
  has one.\<close>

definition connector_glue :: "iface_item \<Rightarrow> nat \<Rightarrow> role option \<Rightarrow> bool" where
  "connector_glue it p r \<longleftrightarrow>
     p < 4 \<and> (folded it = NONE \<or>
              (connectable it ! p \<and> (case r of None \<Rightarrow> True | Some r' \<Rightarrow> p = role_port (folded it) (side it) r')))"

subsection \<open>The abstract machine\<close>

text \<open>The lines attached to the item with the role each produces (\<open>None\<close>: a connector
  line whose component declares no role).\<close>

type_synonym attachment = "(iid \<times> role option) list"

definition roles :: "attachment \<Rightarrow> role list" where
  "roles a = List.map_filter snd a"

record fold_state =
  attached :: attachment
  iface :: iface_item

definition refold :: "fold_state \<Rightarrow> fold_state" where
  "refold s = s\<lparr>iface := set_folded (fold_of (roles (attached s))) (iface s)\<rparr>"

definition fold_attach :: "iid \<Rightarrow> role option \<Rightarrow> fold_state \<Rightarrow> fold_state" where
  "fold_attach l r s = refold (s\<lparr>attached := filter (\<lambda>a. fst a \<noteq> l) (attached s) @ [(l, r)]\<rparr>)"

definition fold_detach :: "iid \<Rightarrow> fold_state \<Rightarrow> fold_state" where
  "fold_detach l s = refold (s\<lparr>attached := filter (\<lambda>a. fst a \<noteq> l) (attached s)\<rparr>)"

text \<open>The editor (and the tests) may also set \<open>folded\<close> directly.\<close>

definition fold_preset :: "folded \<Rightarrow> fold_state \<Rightarrow> fold_state" where
  "fold_preset f s = s\<lparr>iface := set_folded f (iface s)\<rparr>"

definition new_iface_item :: "side \<Rightarrow> iface_item" where
  "new_iface_item sd = \<lparr>folded = NONE, side = sd, connectable = replicate 4 True\<rparr>"

datatype fold_event = Attach iid "role option" | Detach iid | Preset folded

fun fold_event_step :: "fold_event \<Rightarrow> fold_state \<Rightarrow> fold_state" where
  "fold_event_step (Attach l r) s = fold_attach l r s"
| "fold_event_step (Detach l) s = fold_detach l s"
| "fold_event_step (Preset f) s = fold_preset f s"

definition fold_run :: "fold_event list \<Rightarrow> fold_state \<Rightarrow> fold_state" where
  "fold_run es s = fold (\<lambda>e. fold_event_step e) es s"

fun recomputes :: "fold_event \<Rightarrow> bool" where
  "recomputes (Preset f) = False"
| "recomputes _ = True"

inductive fold_reach :: "fold_state \<Rightarrow> bool" where
  init: "fold_reach \<lparr>attached = [], iface = new_iface_item sd\<rparr>"
| attach: "fold_reach s \<Longrightarrow> fold_reach (fold_attach l r s)"
| detach: "fold_reach s \<Longrightarrow> fold_reach (fold_detach l s)"
| preset: "fold_reach s \<Longrightarrow> fold_reach (fold_preset f s)"

text \<open>The invariant: ports agree with the fold state, and a line is attached once.\<close>

definition ports_agree :: "iface_item \<Rightarrow> bool" where
  "ports_agree it \<longleftrightarrow> connectable it = map (port_active (folded it) (side it)) [0..<4]"

definition fold_wf :: "fold_state \<Rightarrow> bool" where
  "fold_wf s \<longleftrightarrow> ports_agree (iface s) \<and> distinct (map fst (attached s))"

declare fold_of_def [model_defs] provided_port_def [model_defs] required_port_def [model_defs]
  port_active_def [model_defs] set_folded_def [model_defs] role_port_def [model_defs]
  connector_glue_def [model_defs] roles_def [model_defs] refold_def [model_defs]
  fold_attach_def [model_defs] fold_detach_def [model_defs] fold_preset_def [model_defs]
  new_iface_item_def [model_defs] ports_agree_def [model_defs] fold_wf_def [model_defs]

subsection \<open>Lemmas\<close>

inductive_cases fold_reach_initE: "fold_reach \<lparr>attached = [], iface = it\<rparr>"

lemma side_index_lt [simp]: "side_index sd < 4"
  by (cases sd) simp_all

lemma port_active_NONE [simp]: "port_active NONE sd = (\<lambda>_. True)"
  by (simp add: port_active_def fun_eq_iff)

lemma side_set_folded [simp]: "side (set_folded f it) = side it"
  by (simp add: set_folded_def)

lemma folded_set_folded [simp]: "folded (set_folded f it) = f"
  by (simp add: set_folded_def)

lemma ports_agree_set_folded [simp]: "ports_agree (set_folded f it)"
  by (simp add: ports_agree_def set_folded_def)

lemma set_folded_set_folded [simp]: "set_folded f (set_folded g it) = set_folded f it"
  by (simp add: set_folded_def)

lemma attached_fold_attach [simp]:
  "attached (fold_attach l r s) = filter (\<lambda>a. fst a \<noteq> l) (attached s) @ [(l, r)]"
  by (simp add: fold_attach_def refold_def)

lemma attached_fold_detach [simp]:
  "attached (fold_detach l s) = filter (\<lambda>a. fst a \<noteq> l) (attached s)"
  by (simp add: fold_detach_def refold_def)

lemma iface_fold_attach [simp]:
  "iface (fold_attach l r s) = set_folded (fold_of (roles (filter (\<lambda>a. fst a \<noteq> l) (attached s) @ [(l, r)]))) (iface s)"
  by (simp add: fold_attach_def refold_def)

lemma iface_fold_detach [simp]:
  "iface (fold_detach l s) = set_folded (fold_of (roles (filter (\<lambda>a. fst a \<noteq> l) (attached s)))) (iface s)"
  by (simp add: fold_detach_def refold_def)

lemma set_roles: "set (roles a) = {r. (\<exists>l. (l, Some r) \<in> set a)}"
  by (force simp: roles_def List.map_filter_def)

lemma fold_of_set: "set rs = set rs' \<Longrightarrow> fold_of rs = fold_of rs'"
  by (simp add: fold_of_def)

lemma all_connectable_NONE: "list_all id (connectable (set_folded NONE it))"
  by (simp add: set_folded_def list_all_iff)

lemma set_folded_side_eq: "side it = side it' \<Longrightarrow> set_folded f it = set_folded f it'"
  by (simp add: set_folded_def)

lemma distinct_filter_snoc:
  "distinct (map fst xs) \<Longrightarrow> distinct (map fst (filter (\<lambda>a. fst a \<noteq> l) xs @ [(l, r)]))"
  by (induction xs) auto

lemma fold_wf_step: "fold_wf s \<Longrightarrow> fold_wf (fold_event_step e s)"
  by (cases e) (auto simp: fold_wf_def fold_preset_def distinct_map_filter distinct_filter_snoc)

lemma side_fold_event_step [simp]: "side (iface (fold_event_step e s)) = side (iface s)"
  by (cases e) (simp_all add: fold_preset_def)

lemma side_fold_run [simp]: "side (iface (fold_run es s)) = side (iface s)"
  by (induction es arbitrary: s) (simp_all add: fold_run_def)

lemma fold_run_snoc [simp]: "fold_run (es @ [e]) s = fold_event_step e (fold_run es s)"
  by (simp add: fold_run_def)

lemma recomputes_iface:
  "recomputes e \<Longrightarrow> iface (fold_event_step e s) = set_folded (fold_of (roles (attached (fold_event_step e s)))) (iface s)"
  by (cases e) simp_all

lemma fold_reach_wf: "fold_reach s \<Longrightarrow> fold_wf s"
proof (induction rule: fold_reach.induct)
  case (init sd)
  then show ?case by (simp add: fold_wf_def ports_agree_def new_iface_item_def map_replicate_const)
next
  case (attach s l r)
  then show ?case using fold_wf_step[of s "Attach l r"] by simp
next
  case (detach s l)
  then show ?case using fold_wf_step[of s "Detach l"] by simp
next
  case (preset s f)
  then show ?case using fold_wf_step[of s "Preset f"] by simp
qed

theorem fold_history_independent:
  assumes "es \<noteq> []" "recomputes (last es)" "es' \<noteq> []" "recomputes (last es')"
    and "set (roles (attached (fold_run es s))) = set (roles (attached (fold_run es' s')))"
    and "side (iface s) = side (iface s')"
  shows "iface (fold_run es s) = iface (fold_run es' s')"
proof -
  obtain fs e where es: "es = fs @ [e]" using assms(1) by (metis append_butlast_last_id)
  obtain fs' e' where es': "es' = fs' @ [e']" using assms(3) by (metis append_butlast_last_id)
  have "iface (fold_run es s) = set_folded (fold_of (roles (attached (fold_run es s)))) (iface (fold_run fs s))"
    using assms(2) recomputes_iface[of e] by (simp add: es)
  moreover have "iface (fold_run es' s') = set_folded (fold_of (roles (attached (fold_run es' s')))) (iface (fold_run fs' s'))"
    using assms(4) recomputes_iface[of e'] by (simp add: es')
  ultimately show ?thesis
    using assms(5,6) fold_of_set set_folded_side_eq by (metis side_fold_run)
qed

theorem fold_detach_all:
  assumes "attached (fold_detach l s) = []"
  shows "folded (iface (fold_detach l s)) = NONE \<and> list_all id (connectable (iface (fold_detach l s)))"
  using assms all_connectable_NONE by (simp add: roles_def List.map_filter_def fold_of_def)

theorem connector_glue_active:
  assumes "fold_wf s" and "connector_glue (iface s) p r"
  shows "port_active (folded (iface s)) (side (iface s)) p"
  using assms by (auto simp: fold_wf_def ports_agree_def connector_glue_def port_active_def)

end
