(* ===== verification/Assembly.thy ===== *)
theory Assembly
  imports Connections Domain Folding
begin

text \<open>
  The assembly connector (specification, section 4.5) and the connector glue on
  components and interfaces (section 4.4): connector lines that join components to one
  folded interface share one \<open>Connector\<close> of kind \<open>assembly\<close> with one
  \<open>ConnectorEnd\<close> (and one domain \<open>Port\<close>) per component; the roles come from the
  components' interface realizations and usages. Every connect and disconnect of a line
  recomputes the fold state of the interface items it touches.
\<close>

subsection \<open>The component domain\<close>

text \<open>
  The parts of the UML model the connector reads and writes: a component's interface
  realizations (with their contract and implementing classifier) and client dependencies (with their suppliers), a
  connector's kind and ends, an end's role and port, a component's owned ports, and the
  factory's supply of fresh identities.
\<close>

record comp_factory = element_factory +
  interfaceRealization :: "eid \<Rightarrow> eid list"
  contract :: "eid \<Rightarrow> eid option"
  implementatingClassifier :: "eid \<Rightarrow> eid option"
  clientDependency :: "eid \<Rightarrow> eid list"
  supplier :: "eid \<Rightarrow> eid list"
  conn_kind :: "eid \<Rightarrow> string option"
  conn_end :: "eid \<Rightarrow> eid list"
  end_role :: "eid \<Rightarrow> eid option"
  partWithPort :: "eid \<Rightarrow> eid option"
  ownedPort :: "eid \<Rightarrow> eid list"
  next_eid :: eid

definition create_element :: "etype \<Rightarrow> comp_factory \<Rightarrow> eid \<times> comp_factory" where
  "create_element t f = (next_eid f, f\<lparr>elements := (elements f)(next_eid f \<mapsto> t), next_eid := Suc (next_eid f)\<rparr>)"

definition provides :: "comp_factory \<Rightarrow> eid \<Rightarrow> eid \<Rightarrow> bool" where
  "provides f c i \<longleftrightarrow> list_ex (\<lambda>r. contract f r = Some i) (interfaceRealization f c)"

definition requires :: "comp_factory \<Rightarrow> eid \<Rightarrow> eid \<Rightarrow> bool" where
  "requires f c i \<longleftrightarrow> list_ex (\<lambda>u. i \<in> set (supplier f u)) (clientDependency f c)"

definition component_role :: "comp_factory \<Rightarrow> eid \<Rightarrow> eid \<Rightarrow> role option" where
  "component_role f c i =
     (if provides f c i then Some Providing else if requires f c i then Some Requiring else None)"

text \<open>The ends of a connector that belong to a component: their port is one of the
  component's owned ports.\<close>

definition end_of :: "comp_factory \<Rightarrow> eid \<Rightarrow> eid \<Rightarrow> bool" where
  "end_of f c e \<longleftrightarrow> (case partWithPort f e of Some p \<Rightarrow> p \<in> set (ownedPort f c) | None \<Rightarrow> False)"

definition add_end :: "eid \<Rightarrow> eid \<Rightarrow> eid \<Rightarrow> comp_factory \<Rightarrow> comp_factory" where
  "add_end a c i f =
     (if list_ex (end_of f c) (conn_end f a) then f
      else (let (e, f1) = create_element ConnectorEnd f;
                (p, f2) = create_element Port f1
            in f2\<lparr>conn_end := (conn_end f2)(a := conn_end f2 a @ [e]),
                  end_role := (end_role f2)(e \<mapsto> i),
                  partWithPort := (partWithPort f2)(e \<mapsto> p),
                  ownedPort := (ownedPort f2)(c := ownedPort f2 c @ [p])\<rparr>))"

definition new_assembly :: "eid \<Rightarrow> eid \<Rightarrow> comp_factory \<Rightarrow> eid \<times> comp_factory" where
  "new_assembly c i f =
     (let (a, f1) = create_element Connector f
      in (a, add_end a c i (f1\<lparr>conn_kind := (conn_kind f1)(a \<mapsto> ''assembly'')\<rparr>)))"

definition unlink_port :: "eid \<Rightarrow> comp_factory \<Rightarrow> comp_factory" where
  "unlink_port p f = f\<lparr>elements := (elements f)(p := None), ownedPort := (\<lambda>c. removeAll p (ownedPort f c))\<rparr>"

definition unlink_end :: "eid \<Rightarrow> comp_factory \<Rightarrow> comp_factory" where
  "unlink_end e f =
     f\<lparr>elements := (elements f)(e := None), conn_end := (\<lambda>a. removeAll e (conn_end f a)),
       end_role := (end_role f)(e := None), partWithPort := (partWithPort f)(e := None)\<rparr>"

text \<open>Destroying an end destroys the port created to host it.\<close>

definition drop_end :: "eid \<Rightarrow> comp_factory \<Rightarrow> comp_factory" where
  "drop_end e f = unlink_end e (case partWithPort f e of Some p \<Rightarrow> unlink_port p f | None \<Rightarrow> f)"

definition unlink_connector :: "eid \<Rightarrow> comp_factory \<Rightarrow> comp_factory" where
  "unlink_connector a f =
     f\<lparr>elements := (elements f)(a := None), conn_kind := (conn_kind f)(a := None), conn_end := (conn_end f)(a := [])\<rparr>"

subsection \<open>The diagram with interface items\<close>

record asm_model = diagram_state +
  dom :: comp_factory
  ifaces :: "iid \<Rightarrow> iface_item"

definition ends_at :: "'a diagram_state_scheme \<Rightarrow> iid \<Rightarrow> item_kind \<Rightarrow> iid option" where
  "ends_at s l k = find (\<lambda>c. kind (items s c) = k) (List.map_filter (get_connected s l) [Head, Tail])"

text \<open>\<open>ConnectorConnectBase.get_component\<close> and the interface at the other end.\<close>

definition get_component :: "'a diagram_state_scheme \<Rightarrow> iid \<Rightarrow> iid option" where
  "get_component s l = ends_at s l ComponentItem"

definition get_interface :: "'a diagram_state_scheme \<Rightarrow> iid \<Rightarrow> iid option" where
  "get_interface s l = ends_at s l InterfaceItem"

definition touched :: "'a diagram_state_scheme \<Rightarrow> iid \<Rightarrow> iid list" where
  "touched s l = List.map_filter (get_connected s l) [Head, Tail]"

text \<open>The role a line attached to interface item \<open>i\<close> produces.\<close>

definition line_role :: "asm_model \<Rightarrow> iid \<Rightarrow> iid \<Rightarrow> role option" where
  "line_role m i l =
     (case kind (items m l) of
        DependencyItem \<Rightarrow> Some Requiring
      | InterfaceRealizationItem \<Rightarrow> Some Providing
      | ConnectorItem \<Rightarrow>
          (case (get_component m l, subject (items m i)) of
             (Some c, Some isub) \<Rightarrow>
               (case subject (items m c) of Some csub \<Rightarrow> component_role (dom m) csub isub | None \<Rightarrow> None)
           | _ \<Rightarrow> None)
      | _ \<Rightarrow> None)"

definition attachment :: "asm_model \<Rightarrow> iid \<Rightarrow> attachment" where
  "attachment m i = map (\<lambda>c. (line c, line_role m i (line c))) (get_connections m i)"

definition refold_iface :: "iid \<Rightarrow> asm_model \<Rightarrow> asm_model" where
  "refold_iface i m =
     (if kind (items m i) = InterfaceItem
      then m\<lparr>ifaces := (ifaces m)(i := set_folded (fold_of (roles (attachment m i))) (ifaces m i))\<rparr>
      else m)"

definition refold_all :: "iid list \<Rightarrow> asm_model \<Rightarrow> asm_model" where
  "refold_all is m = fold refold_iface is m"

definition set_subject :: "iid \<Rightarrow> eid option \<Rightarrow> asm_model \<Rightarrow> asm_model" where
  "set_subject l x m = m\<lparr>items := (items m)(l := (items m l)\<lparr>subject := x\<rparr>)\<rparr>"

definition clear_subjects :: "eid \<Rightarrow> asm_model \<Rightarrow> asm_model" where
  "clear_subjects a m =
     m\<lparr>items := (\<lambda>j. if kind (items m j) = ConnectorItem \<and> subject (items m j) = Some a
                      then (items m j)\<lparr>subject := None\<rparr> else items m j)\<rparr>"

text \<open>The relationship already referenced by a connector line attached to the interface.\<close>

definition shared_assembly :: "asm_model \<Rightarrow> iid \<Rightarrow> eid option" where
  "shared_assembly m i =
     (case List.map_filter (\<lambda>l. if kind (items m l) = ConnectorItem then subject (items m l) else None)
             (map line (get_connections m i)) of
        [] \<Rightarrow> None
      | a # _ \<Rightarrow> Some a)"

subsection \<open>Connect and disconnect\<close>

text \<open>The subject a connect assigns and the domain after it: \<open>None\<close> when an end is
  missing or the component has no role for the interface (the visual edge stays, with no
  subject).\<close>

definition link_target :: "asm_model \<Rightarrow> iid \<Rightarrow> (eid \<times> comp_factory) option" where
  "link_target m l =
     (case (get_interface m l, get_component m l) of
        (Some i, Some c) \<Rightarrow>
          (case (subject (items m i), subject (items m c)) of
             (Some isub, Some csub) \<Rightarrow>
               if component_role (dom m) csub isub = None then None
               else (case shared_assembly m i of
                       Some a \<Rightarrow> Some (a, add_end a csub isub (dom m))
                     | None \<Rightarrow> Some (new_assembly csub isub (dom m)))
           | _ \<Rightarrow> None)
      | _ \<Rightarrow> None)"

definition assembly_link :: "asm_model \<Rightarrow> iid \<Rightarrow> asm_model" where
  "assembly_link m l =
     (case link_target m l of
        None \<Rightarrow> m
      | Some (a, f) \<Rightarrow> set_subject l (Some a) (m\<lparr>dom := f\<rparr>))"

text \<open>Connect records the connection, links the subject, and recomputes the fold state of
  every interface item the line touched before or touches now.\<close>

definition assembly_connect :: "asm_model \<Rightarrow> iid \<Rightarrow> iid \<Rightarrow> handle \<Rightarrow> nat \<Rightarrow> asm_model" where
  "assembly_connect m element l h p =
     (let m1 = assembly_link (connect_item m l h element p) l in refold_all (touched m l @ touched m1 l) m1)"

text \<open>The ends of relationship \<open>a\<close> that belong to the component of line \<open>l\<close>.\<close>

definition line_ends :: "asm_model \<Rightarrow> iid \<Rightarrow> eid \<Rightarrow> eid list" where
  "line_ends m l a =
     (case get_component m l of
        Some c \<Rightarrow> (case subject (items m c) of
                     Some csub \<Rightarrow> filter (end_of (dom m) csub) (conn_end (dom m) a)
                   | None \<Rightarrow> [])
      | None \<Rightarrow> [])"

text \<open>Destroying a relationship destroys its remaining ends and their ports.\<close>

definition teardown :: "eid \<Rightarrow> comp_factory \<Rightarrow> comp_factory" where
  "teardown a f = unlink_connector a (fold drop_end (conn_end f a) f)"

definition assembly_unlink :: "asm_model \<Rightarrow> iid \<Rightarrow> asm_model" where
  "assembly_unlink m l =
     (case subject (items m l) of
        None \<Rightarrow> m
      | Some a \<Rightarrow>
          (let f1 = fold drop_end (line_ends m l a) (dom m)
           in if length (conn_end f1 a) < 2
              then clear_subjects a (m\<lparr>dom := teardown a f1\<rparr>)
              else set_subject l None (m\<lparr>dom := f1\<rparr>)))"

definition assembly_disconnect :: "asm_model \<Rightarrow> iid \<Rightarrow> handle \<Rightarrow> asm_model" where
  "assembly_disconnect m l h =
     (if get_connection m l h = None then m
      else refold_all (touched m l) (disconnect_item (assembly_unlink m l) l h))"

text \<open>The glue test: a connector may not join two components; on an interface item the
  fold state decides (\<open>connector_glue\<close>), with the role of the component at the other
  end.\<close>

definition prospective_role :: "asm_model \<Rightarrow> iid \<Rightarrow> iid \<Rightarrow> handle \<Rightarrow> role option" where
  "prospective_role m i l h =
     (case get_connected m l (opposite h) of
        Some c \<Rightarrow>
          (case (subject (items m c), subject (items m i)) of
             (Some csub, Some isub) \<Rightarrow> if kind (items m c) = ComponentItem then component_role (dom m) csub isub else None
           | _ \<Rightarrow> None)
      | None \<Rightarrow> None)"

definition assembly_allow :: "asm_model \<Rightarrow> iid \<Rightarrow> iid \<Rightarrow> handle \<Rightarrow> nat \<Rightarrow> bool" where
  "assembly_allow m element l h p =
     (case kind (items m element) of
        ComponentItem \<Rightarrow>
          (case get_connected m l (opposite h) of
             Some other \<Rightarrow> kind (items m other) \<noteq> ComponentItem
           | None \<Rightarrow> True)
      | InterfaceItem \<Rightarrow> connector_glue (ifaces m element) p (prospective_role m element l h)
      | _ \<Rightarrow> False)"

text \<open>The abstraction of the model at interface item \<open>i\<close> into the fold machine of
  \<open>Folding\<close>: the attached lines with their roles, and the item.\<close>

definition fold_abs :: "asm_model \<Rightarrow> iid \<Rightarrow> fold_state" where
  "fold_abs m i = \<lparr>attached = attachment m i, iface = ifaces m i\<rparr>"

text \<open>Every connection record joins a line and an item of the diagram that holds it.\<close>

definition conn_diagrams :: "'a diagram_state_scheme \<Rightarrow> bool" where
  "conn_diagrams s \<longleftrightarrow>
     (\<forall>d. \<forall>c \<in> set (connections s d). diagram (items s (connected c)) = d \<and> diagram (items s (line c)) = d)"

declare create_element_def [model_defs] provides_def [model_defs] requires_def [model_defs]
  component_role_def [model_defs] end_of_def [model_defs] add_end_def [model_defs]
  new_assembly_def [model_defs] unlink_port_def [model_defs] unlink_end_def [model_defs]
  drop_end_def [model_defs] unlink_connector_def [model_defs] ends_at_def [model_defs]
  get_component_def [model_defs] get_interface_def [model_defs] touched_def [model_defs]
  line_role_def [model_defs] attachment_def [model_defs] refold_iface_def [model_defs]
  refold_all_def [model_defs] set_subject_def [model_defs] clear_subjects_def [model_defs]
  shared_assembly_def [model_defs] link_target_def [model_defs] assembly_link_def [model_defs]
  assembly_connect_def [model_defs] line_ends_def [model_defs] teardown_def [model_defs]
  assembly_unlink_def [model_defs] assembly_disconnect_def [model_defs] prospective_role_def
  [model_defs] assembly_allow_def [model_defs]

subsection \<open>Frame lemmas\<close>

text \<open>Recomputing a fold state touches only the interface items; the domain operations
  touch only the domain and the subjects of lines.\<close>

lemma refold_iface_frame [simp]:
  "items (refold_iface i m) = items m" "connections (refold_iface i m) = connections m"
  "dom (refold_iface i m) = dom m" "item_order (refold_iface i m) = item_order m"
  by (simp_all add: refold_iface_def)

lemma refold_all_frame [simp]:
  "items (refold_all is m) = items m" "connections (refold_all is m) = connections m"
  "dom (refold_all is m) = dom m"
  by (induction "is" arbitrary: m) (simp_all add: refold_all_def)

lemma set_subject_frame [simp]:
  "connections (set_subject l x m) = connections m" "dom (set_subject l x m) = dom m"
  "ifaces (set_subject l x m) = ifaces m"
  "kind (items (set_subject l x m) j) = kind (items m j)"
  "diagram (items (set_subject l x m) j) = diagram (items m j)"
  by (simp_all add: set_subject_def)

lemma clear_subjects_frame [simp]:
  "connections (clear_subjects a m) = connections m" "dom (clear_subjects a m) = dom m"
  "ifaces (clear_subjects a m) = ifaces m"
  "kind (items (clear_subjects a m) j) = kind (items m j)"
  "diagram (items (clear_subjects a m) j) = diagram (items m j)"
  by (simp_all add: clear_subjects_def)

lemma assembly_link_frame [simp]:
  "connections (assembly_link m l) = connections m" "ifaces (assembly_link m l) = ifaces m"
  "kind (items (assembly_link m l) j) = kind (items m j)"
  "diagram (items (assembly_link m l) j) = diagram (items m j)"
  unfolding assembly_link_def by (cases "link_target m l"; auto)+

lemma assembly_unlink_frame [simp]:
  "connections (assembly_unlink m l) = connections m" "ifaces (assembly_unlink m l) = ifaces m"
  "kind (items (assembly_unlink m l) j) = kind (items m j)"
  "diagram (items (assembly_unlink m l) j) = diagram (items m j)"
  unfolding assembly_unlink_def Let_def by (cases "subject (items m l)"; simp)+

lemma connect_item_items [simp]:
  "ifaces (connect_item m l h t p) = ifaces m" "dom (connect_item m l h t p) = dom m"
  by (simp_all add: connect_item_def Let_def)

lemma disconnect_item_items [simp]:
  "ifaces (disconnect_item m l h) = ifaces m" "dom (disconnect_item m l h) = dom m"
  by (simp_all add: disconnect_item_def Let_def)

text \<open>Which lines are connected where depends only on the connection records and the
  diagrams of the items.\<close>

lemma get_connection_cong:
  assumes "connections s' = connections s" "\<And>j. diagram (items s' j) = diagram (items s j)"
  shows "get_connection s' l h = get_connection s l h"
  using assms by (simp add: get_connection_def line_connections_def)

lemma get_connections_cong:
  assumes "connections s' = connections s" "\<And>j. diagram (items s' j) = diagram (items s j)"
  shows "get_connections s' i = get_connections s i"
  using assms by (simp add: get_connections_def)

subsection \<open>Connection records stay unique\<close>

lemma conn_unique_cong:
  "connections s' = connections s \<Longrightarrow> conn_unique s' = conn_unique s"
  by (simp add: conn_unique_def)

theorem conn_unique_assembly_connect:
  "conn_unique m \<Longrightarrow> conn_unique (assembly_connect m e l h p)"
  unfolding assembly_connect_def Let_def
  by (subst conn_unique_cong[where s = "connect_item m l h e p"]) (simp_all add: conn_unique_connect_item)

theorem conn_unique_assembly_disconnect:
  "conn_unique m \<Longrightarrow> conn_unique (assembly_disconnect m l h)"
proof -
  assume "conn_unique m"
  then have "conn_unique (disconnect_item (assembly_unlink m l) l h)"
    by (simp add: conn_unique_disconnect_item conn_unique_cong[of "assembly_unlink m l" m])
  then show ?thesis
    unfolding assembly_disconnect_def using \<open>conn_unique m\<close>
    by (simp add: conn_unique_cong[of "refold_all _ (disconnect_item (assembly_unlink m l) l h)"])
qed

subsection \<open>The domain operations keep the roles\<close>

text \<open>Creating and destroying connectors, ends and ports never changes which interfaces
  a component realizes or uses.\<close>

definition same_roles :: "comp_factory \<Rightarrow> comp_factory \<Rightarrow> bool" where
  "same_roles f' f \<longleftrightarrow> interfaceRealization f' = interfaceRealization f \<and> contract f' = contract f
     \<and> clientDependency f' = clientDependency f \<and> supplier f' = supplier f"

lemma same_roles_refl [simp]: "same_roles f f"
  by (simp add: same_roles_def)

lemma same_roles_trans: "same_roles f'' f' \<Longrightarrow> same_roles f' f \<Longrightarrow> same_roles f'' f"
  by (simp add: same_roles_def)

lemma component_role_same_roles: "same_roles f' f \<Longrightarrow> component_role f' = component_role f"
  by (simp add: same_roles_def component_role_def provides_def requires_def fun_eq_iff)

lemma same_roles_create_element [simp]: "same_roles (snd (create_element t f)) f"
  by (simp add: same_roles_def create_element_def)

lemma same_roles_add_end [simp]: "same_roles (add_end a c i f) f"
  by (simp add: add_end_def same_roles_def create_element_def Let_def)

lemma same_roles_new_assembly [simp]: "same_roles (snd (new_assembly c i f)) f"
  by (simp add: new_assembly_def same_roles_def create_element_def Let_def add_end_def)

lemma same_roles_drop_end [simp]: "same_roles (drop_end e f) f"
  by (simp add: drop_end_def same_roles_def unlink_end_def unlink_port_def split: option.split)

lemma same_roles_fold_drop_end [simp]: "same_roles (fold drop_end es f) f"
proof (induction es arbitrary: f)
  case (Cons e es)
  show ?case using Cons.IH[of "drop_end e f"] same_roles_drop_end[of e f]
    by (simp add: same_roles_trans[of _ "drop_end e f"])
qed simp

lemma same_roles_teardown [simp]: "same_roles (teardown a f) f"
  using same_roles_fold_drop_end[of "conn_end f a" f]
  by (simp add: teardown_def same_roles_def unlink_connector_def)

lemma link_target_same_roles: "link_target m l = Some (a, f) \<Longrightarrow> same_roles f (dom m)"
  by (auto simp: link_target_def split: option.splits if_splits) (metis same_roles_new_assembly snd_conv)

subsection \<open>Which lines are attached where\<close>

lemma handle_other: "h' \<noteq> h \<Longrightarrow> h' = opposite h"
  by (cases h; cases h') simp_all

lemma get_connected_cong:
  assumes "connections s' = connections s" "\<And>j. diagram (items s' j) = diagram (items s j)"
  shows "get_connected s' l h = get_connected s l h"
  using get_connection_cong[OF assms] by (simp add: get_connected_def)

lemma ends_at_cong:
  assumes "\<And>h. get_connected s' l h = get_connected s l h" "\<And>j. kind (items s' j) = kind (items s j)"
  shows "ends_at s' l k = ends_at s l k"
proof -
  have "get_connected s' l = get_connected s l" using assms(1) by (rule ext)
  moreover have "(\<lambda>c. kind (items s' c) = k) = (\<lambda>c. kind (items s c) = k)" using assms(2) by simp
  ultimately show ?thesis by (simp add: ends_at_def)
qed

lemma get_component_kind: "get_component s l = Some c \<Longrightarrow> kind (items s c) = ComponentItem"
  by (auto simp: get_component_def ends_at_def dest: find_Some_in_set)

lemma get_connections_connect_item:
  assumes "get_connection s l h = None" "diagram (items s t) = diagram (items s l)"
  shows "get_connections (connect_item s l h t p) t = get_connections s t @ [\<lparr>line = l, handle = h, connected = t, port = p\<rparr>]"
proof -
  let ?cs = "connections s (diagram (items s l))"
  have none: "\<And>c. c \<in> set ?cs \<Longrightarrow> \<not> on_handle l h c"
    using assms(1) by (simp add: get_connection_def line_connections_def find_None_iff)
  have "\<lparr>line = l, handle = h, connected = t, port = p\<rparr> \<notin> set ?cs"
  proof
    assume "\<lparr>line = l, handle = h, connected = t, port = p\<rparr> \<in> set ?cs"
    from none[OF this] show False by (simp add: on_handle_def)
  qed
  moreover have "filter (Not \<circ> on_handle l h) ?cs = ?cs"
    using none by (simp add: filter_id_conv)
  ultimately show ?thesis
    using assms(2) by (simp add: connect_item_def get_connections_def Let_def)
qed

text \<open>With unique records, a line attached to \<open>i\<close> by a record of another handle than
  \<open>h\<close> is connected to \<open>i\<close> by that handle.\<close>

lemma attached_handle:
  assumes "conn_unique s" "get_connected s l (opposite h) \<noteq> Some i"
    and "diagram (items s i) = diagram (items s l)"
    and "c \<in> set (get_connections s i)" "line c = l"
  shows "handle c = h"
proof (rule ccontr)
  assume "handle c \<noteq> h"
  then have oh: "handle c = opposite h" by (rule handle_other)
  have c: "c \<in> set (connections s (diagram (items s l)))" "connected c = i"
    using assms(3,4) by (auto simp: get_connections_def)
  have "find (on_handle l (opposite h)) (connections s (diagram (items s l))) = Some c"
    by (rule find_unique_key[where k = "\<lambda>c. (line c, handle c)"])
       (use assms(1,5) c oh in \<open>auto simp: conn_unique_def on_handle_def\<close>)
  then show False using assms(2) c
    by (simp add: get_connected_def get_connection_def line_connections_def)
qed

lemma line_not_attached:
  assumes "conn_unique s" "get_connection s l h = None" "get_connected s l (opposite h) \<noteq> Some i"
    and "diagram (items s i) = diagram (items s l)"
  shows "l \<notin> line ` set (get_connections s i)"
proof
  assume "l \<in> line ` set (get_connections s i)"
  then obtain c where c: "c \<in> set (get_connections s i)" "line c = l" by auto
  then have "handle c = h" by (rule attached_handle[OF assms(1,3,4)])
  with c assms(2,4) show False
    by (auto simp: get_connection_def line_connections_def find_None_iff on_handle_def get_connections_def)
qed

lemma get_connections_disconnect_item:
  assumes "diagram (items s t) = diagram (items s l)"
  shows "get_connections (disconnect_item s l h) t = filter (Not \<circ> on_handle l h) (get_connections s t)"
  using assms by (simp add: disconnect_item_def get_connections_def Let_def filter_filter conj_commute)

subsection \<open>Roles of attached lines\<close>

lemma line_role_frame:
  "items m' = items m \<Longrightarrow> connections m' = connections m \<Longrightarrow> dom m' = dom m \<Longrightarrow> line_role m' = line_role m"
proof -
  assume a: "items m' = items m" "connections m' = connections m" "dom m' = dom m"
  then have "get_connected m' x h = get_connected m x h" for x h
    by (intro get_connected_cong) simp_all
  then have "get_component m' = get_component m"
    unfolding get_component_def using a(1) by (intro ext ends_at_cong) simp_all
  with a show ?thesis by (intro ext) (simp add: line_role_def split: item_kind.split option.split)
qed

lemma attachment_frame:
  "items m' = items m \<Longrightarrow> connections m' = connections m \<Longrightarrow> dom m' = dom m \<Longrightarrow> attachment m' = attachment m"
proof -
  assume a: "items m' = items m" "connections m' = connections m" "dom m' = dom m"
  then have "line_role m' = line_role m" by (rule line_role_frame)
  with a show ?thesis by (intro ext) (simp add: attachment_def get_connections_def)
qed

lemma line_role_cong:
  assumes "\<And>j. kind (items m' j) = kind (items m j)" "get_component m' l = get_component m l"
    and "subject (items m' i) = subject (items m i)"
    and "\<And>c. kind (items m c) = ComponentItem \<Longrightarrow> subject (items m' c) = subject (items m c)"
    and "same_roles (dom m') (dom m)"
  shows "line_role m' i l = line_role m i l"
proof (cases "get_component m l")
  case None
  then show ?thesis using assms(1-3) by (simp add: line_role_def split: item_kind.split)
next
  case (Some c)
  then have "subject (items m' c) = subject (items m c)" using assms(4) get_component_kind by blast
  then show ?thesis using Some assms(1-3) component_role_same_roles[OF assms(5)]
    by (simp add: line_role_def split: item_kind.split option.split)
qed

lemma refold_all_at:
  "ifaces (refold_all is m) i =
     (if i \<in> set is \<and> kind (items m i) = InterfaceItem
      then set_folded (fold_of (roles (attachment m i))) (ifaces m i) else ifaces m i)"
proof (induction "is" arbitrary: m)
  case Nil
  then show ?case by (simp add: refold_all_def)
next
  case (Cons j "is")
  have r: "refold_all (j # is) m = refold_all is (refold_iface j m)" by (simp add: refold_all_def)
  have a: "attachment (refold_iface j m) = attachment m" by (rule attachment_frame) simp_all
  show ?case
    unfolding r Cons.IH a by (auto simp: refold_iface_def)
qed

lemma assembly_link_subject_other:
  "j \<noteq> l \<Longrightarrow> subject (items (assembly_link m l) j) = subject (items m j)"
  unfolding assembly_link_def by (cases "link_target m l") (auto simp: set_subject_def)

lemma same_roles_assembly_link: "same_roles (dom (assembly_link m l)) (dom m)"
  unfolding assembly_link_def
  by (cases "link_target m l") (auto simp: set_subject_def dest: link_target_same_roles)

lemma get_component_connect_item_other:
  assumes "l' \<noteq> l"
  shows "get_component (assembly_link (connect_item m l h t p) l) l' = get_component m l'"
proof -
  have "get_connected (assembly_link (connect_item m l h t p) l) l' h' = get_connected m l' h'" for h'
  proof -
    have "get_connected (assembly_link (connect_item m l h t p) l) l' h' = get_connected (connect_item m l h t p) l' h'"
      by (rule get_connected_cong) simp_all
    also have "\<dots> = get_connected m l' h'"
      using assms by (simp add: get_connected_def get_connection_connect_item_other)
    finally show ?thesis .
  qed
  then show ?thesis unfolding get_component_def by (intro ends_at_cong) simp_all
qed

text \<open>Connecting a connector line to an interface item refines the fold machine: the
  abstraction of the new model is the abstract attach of the line, with the role the
  line now plays.\<close>

theorem assembly_connect_refines_attach:
  assumes "conn_unique m" and "kind (items m l) = ConnectorItem" and "kind (items m i) = InterfaceItem"
    and "diagram (items m i) = diagram (items m l)"
    and "get_connection m l h = None" and "get_connected m l (opposite h) \<noteq> Some i"
  shows "fold_abs (assembly_connect m i l h p) i
         = fold_attach l (line_role (assembly_connect m i l h p) i l) (fold_abs m i)"
proof -
  define m1 where "m1 = connect_item m l h i p"
  define m2 where "m2 = assembly_link m1 l"
  define ci where "ci = \<lparr>line = l, handle = h, connected = i, port = p\<rparr>"
  have m': "assembly_connect m i l h p = refold_all (touched m l @ touched m2 l) m2"
    by (simp add: assembly_connect_def m1_def m2_def Let_def)
  have il: "i \<noteq> l" using assms(2,3) by auto
  have gc: "get_connections m2 i = get_connections m i @ [ci]"
  proof -
    have "get_connections m2 i = get_connections m1 i"
      unfolding m2_def by (rule get_connections_cong) simp_all
    then show ?thesis using get_connections_connect_item[OF assms(5,4)] by (simp add: m1_def ci_def)
  qed
  have notin: "l \<notin> line ` set (get_connections m i)"
    by (rule line_not_attached[OF assms(1,5,6,4)])
  have roles_same: "line_role m2 i (line c) = line_role m i (line c)" if "c \<in> set (get_connections m i)" for c
  proof (rule line_role_cong)
    show "get_component m2 (line c) = get_component m (line c)"
      unfolding m2_def m1_def using notin that by (intro get_component_connect_item_other) auto
    show "subject (items m2 i) = subject (items m i)"
      using il by (simp add: m2_def m1_def assembly_link_subject_other)
    show "subject (items m2 c') = subject (items m c')" if "kind (items m c') = ComponentItem" for c'
    proof -
      have "c' \<noteq> l" using that assms(2) by auto
      then show ?thesis by (simp add: m2_def m1_def assembly_link_subject_other)
    qed
    show "same_roles (dom m2) (dom m)"
      using same_roles_assembly_link[of m1 l] by (simp add: m2_def m1_def)
  qed (simp add: m2_def m1_def)
  have att2: "attachment m2 i = attachment m i @ [(l, line_role m2 i l)]"
    using roles_same by (simp add: attachment_def gc ci_def)
  have att': "attachment (assembly_connect m i l h p) i = attachment m2 i"
    unfolding m' using attachment_frame[of "refold_all (touched m l @ touched m2 l) m2" m2] by simp
  have lr': "line_role (assembly_connect m i l h p) = line_role m2"
    unfolding m' using line_role_frame[of "refold_all (touched m l @ touched m2 l) m2" m2] by simp
  have touched: "i \<in> set (touched m2 l)"
  proof -
    have "get_connected m1 l h = Some i"
      using assms(1) by (simp add: m1_def get_connected_def get_connection_connect_item)
    moreover have "get_connected m2 l h = get_connected m1 l h"
      unfolding m2_def by (rule get_connected_cong) simp_all
    ultimately show ?thesis by (cases h) (auto simp: touched_def List.map_filter_def)
  qed
  have if2: "ifaces m2 i = ifaces m i" by (simp add: m2_def m1_def)
  have filt: "filter (\<lambda>a. fst a \<noteq> l) (attachment m i) = attachment m i"
    using notin by (auto simp: attachment_def filter_id_conv)
  show ?thesis
    unfolding fold_abs_def
  proof (rule fold_state.equality)
    show "attached \<lparr>attached = attachment (assembly_connect m i l h p) i, iface = ifaces (assembly_connect m i l h p) i\<rparr>
        = attached (fold_attach l (line_role (assembly_connect m i l h p) i l) \<lparr>attached = attachment m i, iface = ifaces m i\<rparr>)"
      using att' att2 lr' filt by simp
    show "iface \<lparr>attached = attachment (assembly_connect m i l h p) i, iface = ifaces (assembly_connect m i l h p) i\<rparr>
        = iface (fold_attach l (line_role (assembly_connect m i l h p) i l) \<lparr>attached = attachment m i, iface = ifaces m i\<rparr>)"
      using att2 lr' filt touched if2 assms(3) by (simp add: m' refold_all_at m2_def m1_def)
  qed simp
qed

lemma assembly_unlink_subject_other:
  assumes "j \<noteq> l" "kind (items m j) \<noteq> ConnectorItem"
  shows "subject (items (assembly_unlink m l) j) = subject (items m j)"
  using assms unfolding assembly_unlink_def Let_def
  by (cases "subject (items m l)") (auto simp: set_subject_def clear_subjects_def)

lemma same_roles_assembly_unlink: "same_roles (dom (assembly_unlink m l)) (dom m)"
proof (cases "subject (items m l)")
  case (Some a)
  let ?f1 = "fold drop_end (line_ends m l a) (dom m)"
  have "same_roles (teardown a ?f1) (dom m)" "same_roles ?f1 (dom m)"
    by (auto intro: same_roles_trans[OF same_roles_teardown])
  with Some show ?thesis
    by (simp add: assembly_unlink_def Let_def set_subject_def clear_subjects_def)
qed (simp add: assembly_unlink_def)

lemma get_component_unlink_disconnect_other:
  assumes "l' \<noteq> l"
  shows "get_component (disconnect_item (assembly_unlink m l) l h) l' = get_component m l'"
proof -
  have "get_connected (disconnect_item (assembly_unlink m l) l h) l' h' = get_connected m l' h'" for h'
  proof -
    have "get_connected (disconnect_item (assembly_unlink m l) l h) l' h'
          = get_connected (assembly_unlink m l) l' h'"
      using assms by (simp add: get_connected_def get_connection_disconnect_item_other)
    also have "\<dots> = get_connected m l' h'"
      by (rule get_connected_cong) simp_all
    finally show ?thesis .
  qed
  then show ?thesis unfolding get_component_def by (intro ends_at_cong) simp_all
qed

text \<open>Disconnecting a connector line from an interface item refines the abstract detach.\<close>

theorem assembly_disconnect_refines_detach:
  assumes "conn_unique m" and "kind (items m l) = ConnectorItem" and "kind (items m i) = InterfaceItem"
    and "diagram (items m i) = diagram (items m l)"
    and "get_connected m l h = Some i" and "get_connected m l (opposite h) \<noteq> Some i"
  shows "fold_abs (assembly_disconnect m l h) i = fold_detach l (fold_abs m i)"
proof -
  define m2 where "m2 = disconnect_item (assembly_unlink m l) l h"
  have conn: "get_connection m l h \<noteq> None" using assms(5) by (auto simp: get_connected_def)
  have m': "assembly_disconnect m l h = refold_all (touched m l) m2"
    unfolding assembly_disconnect_def m2_def using conn by (simp only: if_False)
  have il: "i \<noteq> l" using assms(2,3) by auto
  have gc: "get_connections m2 i = filter (\<lambda>c. line c \<noteq> l) (get_connections m i)"
  proof -
    have "get_connections m2 i = filter (Not \<circ> on_handle l h) (get_connections (assembly_unlink m l) i)"
      unfolding m2_def by (rule get_connections_disconnect_item) (simp add: assms(4))
    also have "get_connections (assembly_unlink m l) i = get_connections m i"
      by (rule get_connections_cong) simp_all
    also have "filter (Not \<circ> on_handle l h) (get_connections m i) = filter (\<lambda>c. line c \<noteq> l) (get_connections m i)"
      using attached_handle[OF assms(1,6,4)] by (auto simp: on_handle_def intro: filter_cong)
    finally show ?thesis .
  qed
  have roles_same: "line_role m2 i (line c) = line_role m i (line c)" if "line c \<noteq> l" for c
  proof (rule line_role_cong)
    show "get_component m2 (line c) = get_component m (line c)"
      unfolding m2_def using that by (rule get_component_unlink_disconnect_other)
    show "subject (items m2 i) = subject (items m i)"
      using il assms(3) by (simp add: m2_def assembly_unlink_subject_other)
    show "subject (items m2 c') = subject (items m c')" if "kind (items m c') = ComponentItem" for c'
    proof -
      have "c' \<noteq> l" using that assms(2) by auto
      with that show ?thesis by (simp add: m2_def assembly_unlink_subject_other)
    qed
    show "same_roles (dom m2) (dom m)"
      using same_roles_assembly_unlink[of m l] by (simp add: m2_def)
  qed (simp add: m2_def)
  have att2: "attachment m2 i = filter (\<lambda>a. fst a \<noteq> l) (attachment m i)"
    using roles_same by (simp add: attachment_def gc filter_map comp_def) blast
  have att': "attachment (assembly_disconnect m l h) i = attachment m2 i"
    unfolding m' using attachment_frame[of "refold_all (touched m l) m2" m2] by simp
  have touched: "i \<in> set (touched m l)"
    using assms(5) by (cases h) (auto simp: touched_def List.map_filter_def)
  have if2: "ifaces m2 i = ifaces m i" by (simp add: m2_def)
  show ?thesis
    unfolding fold_abs_def
  proof (rule fold_state.equality)
    show "attached \<lparr>attached = attachment (assembly_disconnect m l h) i, iface = ifaces (assembly_disconnect m l h) i\<rparr>
        = attached (fold_detach l \<lparr>attached = attachment m i, iface = ifaces m i\<rparr>)"
      using att' att2 by simp
    show "iface \<lparr>attached = attachment (assembly_disconnect m l h) i, iface = ifaces (assembly_disconnect m l h) i\<rparr>
        = iface (fold_detach l \<lparr>attached = attachment m i, iface = ifaces m i\<rparr>)"
      using att2 touched if2 assms(3) by (simp add: m' refold_all_at m2_def)
  qed simp
qed

subsection \<open>Teardown\<close>

lemma elements_drop_end_None: "elements f x = None \<Longrightarrow> elements (drop_end e f) x = None"
  by (simp add: drop_end_def unlink_end_def unlink_port_def split: option.split)

lemma elements_fold_drop_end_None:
  "elements f x = None \<Longrightarrow> elements (fold drop_end es f) x = None"
  by (induction es arbitrary: f) (simp_all add: elements_drop_end_None)

lemma elements_fold_drop_end_dropped:
  "e \<in> set es \<Longrightarrow> elements (fold drop_end es f) e = None"
proof (induction es arbitrary: f)
  case (Cons e' es)
  show ?case
  proof (cases "e = e'")
    case True
    have "elements (drop_end e f) e = None"
      by (simp add: drop_end_def unlink_end_def)
    then show ?thesis using True by (simp add: elements_fold_drop_end_None)
  next
    case False
    then show ?thesis using Cons by simp
  qed
qed simp

lemma partWithPort_drop_end_other: "e \<noteq> e' \<Longrightarrow> partWithPort (drop_end e' f) e = partWithPort f e"
  by (simp add: drop_end_def unlink_end_def unlink_port_def split: option.split)

lemma partWithPort_fold_drop_end_other:
  "e \<notin> set es \<Longrightarrow> partWithPort (fold drop_end es f) e = partWithPort f e"
  by (induction es arbitrary: f) (simp_all add: partWithPort_drop_end_other)

lemma port_fold_drop_end_dropped:
  "e \<in> set es \<Longrightarrow> partWithPort f e = Some p \<Longrightarrow> elements (fold drop_end es f) p = None"
proof (induction es arbitrary: f)
  case (Cons e' es)
  show ?case
  proof (cases "e = e'")
    case True
    have "elements (drop_end e f) p = None"
      using Cons.prems(2) by (simp add: drop_end_def unlink_end_def unlink_port_def)
    then show ?thesis using True by (simp add: elements_fold_drop_end_None)
  next
    case False
    then have "e \<in> set es" "partWithPort (drop_end e' f) e = Some p"
      using Cons.prems by (simp_all add: partWithPort_drop_end_other)
    then show ?thesis using Cons.IH by simp
  qed
qed simp

lemma conn_end_fold_drop_end:
  "conn_end (fold drop_end es f) a = filter (\<lambda>x. x \<notin> set es) (conn_end f a)"
proof (induction es arbitrary: f)
  case (Cons e es)
  have "conn_end (drop_end e f) a = removeAll e (conn_end f a)"
    by (simp add: drop_end_def unlink_end_def unlink_port_def split: option.split)
  then show ?case using Cons.IH by (auto simp: removeAll_filter_not_eq filter_filter intro!: filter_cong)
qed simp

text \<open>When the disconnected line leaves fewer than two ends, the relationship, all its
  ends and the ports created for them are destroyed, and no connector line refers to
  it any more.\<close>

theorem assembly_unlink_teardown:
  assumes "subject (items m l) = Some a"
    and "length (conn_end (fold drop_end (line_ends m l a) (dom m)) a) < 2"
  shows "elements (dom (assembly_unlink m l)) a = None
       \<and> (\<forall>e \<in> set (conn_end (dom m) a). elements (dom (assembly_unlink m l)) e = None
            \<and> (\<forall>p. partWithPort (dom m) e = Some p \<longrightarrow> elements (dom (assembly_unlink m l)) p = None))
       \<and> (\<forall>j. kind (items (assembly_unlink m l) j) = ConnectorItem \<longrightarrow> subject (items (assembly_unlink m l) j) \<noteq> Some a)"
proof -
  define es where "es = line_ends m l a"
  define f1 where "f1 = fold drop_end es (dom m)"
  define rest where "rest = conn_end f1 a"
  have m': "assembly_unlink m l = clear_subjects a (m\<lparr>dom := teardown a f1\<rparr>)"
    using assms by (simp add: assembly_unlink_def es_def f1_def)
  have d: "dom (assembly_unlink m l) = unlink_connector a (fold drop_end rest f1)"
    by (simp add: m' teardown_def rest_def)
  have rest: "rest = filter (\<lambda>x. x \<notin> set es) (conn_end (dom m) a)"
    by (simp add: rest_def f1_def conn_end_fold_drop_end)
  have gone: "elements (unlink_connector a (fold drop_end rest f1)) x = None"
    if "x \<noteq> a \<Longrightarrow> elements (fold drop_end rest f1) x = None" for x
    using that by (cases "x = a") (simp_all add: unlink_connector_def)
  have ends: "elements (dom (assembly_unlink m l)) e = None
              \<and> (\<forall>p. partWithPort (dom m) e = Some p \<longrightarrow> elements (dom (assembly_unlink m l)) p = None)"
    if e: "e \<in> set (conn_end (dom m) a)" for e
  proof (cases "e \<in> set es")
    case True
    have "elements f1 e = None" using True by (simp add: f1_def elements_fold_drop_end_dropped)
    moreover have "elements f1 p = None" if "partWithPort (dom m) e = Some p" for p
      using True that by (simp add: f1_def port_fold_drop_end_dropped)
    ultimately show ?thesis unfolding d by (auto intro!: gone elements_fold_drop_end_None)
  next
    case False
    then have r: "e \<in> set rest" using e rest by simp
    have pw: "partWithPort f1 e = partWithPort (dom m) e"
      using False by (simp add: f1_def partWithPort_fold_drop_end_other)
    have "elements (fold drop_end rest f1) e = None" using r by (rule elements_fold_drop_end_dropped)
    moreover have "elements (fold drop_end rest f1) p = None" if "partWithPort (dom m) e = Some p" for p
      using r that pw by (simp add: port_fold_drop_end_dropped)
    ultimately show ?thesis unfolding d using gone by blast
  qed
  have "elements (dom (assembly_unlink m l)) a = None" by (simp add: d unlink_connector_def)
  moreover have "\<forall>j. kind (items (assembly_unlink m l) j) = ConnectorItem \<longrightarrow> subject (items (assembly_unlink m l) j) \<noteq> Some a"
    by (simp add: m' clear_subjects_def)
  ultimately show ?thesis using ends by blast
qed

subsection \<open>Connecting twice\<close>

lemma refold_all_eq:
  "refold_all is m = m\<lparr>ifaces := (\<lambda>i. if i \<in> set is \<and> kind (items m i) = InterfaceItem
      then set_folded (fold_of (roles (attachment m i))) (ifaces m i) else ifaces m i)\<rparr>"
proof (induction "is" arbitrary: m)
  case Nil
  then show ?case by (simp add: refold_all_def)
next
  case (Cons j "is")
  have r: "refold_all (j # is) m = refold_all is (refold_iface j m)" by (simp add: refold_all_def)
  have a: "attachment (refold_iface j m) = attachment m" by (rule attachment_frame) simp_all
  show ?case unfolding r Cons.IH a by (auto simp: refold_iface_def fun_eq_iff)
qed

lemma refold_all_absorb: "set is' \<subseteq> set is \<Longrightarrow> refold_all is' (refold_all is m) = refold_all is m"
proof -
  assume sub: "set is' \<subseteq> set is"
  have att: "attachment (refold_all is m) = attachment m" by (rule attachment_frame) simp_all
  have "(\<lambda>i. if i \<in> set is' \<and> kind (items (refold_all is m) i) = InterfaceItem
             then set_folded (fold_of (roles (attachment (refold_all is m) i))) (ifaces (refold_all is m) i)
             else ifaces (refold_all is m) i) = ifaces (refold_all is m)"
    using sub by (auto simp: fun_eq_iff att refold_all_at)
  then show ?thesis by (simp only: refold_all_eq[of is' "refold_all is m"]) simp
qed

lemma set_subject_same: "subject (items m l) = x \<Longrightarrow> set_subject l x m = m"
proof -
  assume "subject (items m l) = x"
  then have "items m l\<lparr>subject := x\<rparr> = items m l" by (cases "items m l") simp
  then show ?thesis by (simp add: set_subject_def)
qed

lemma end_of_add_end: "list_ex (end_of (add_end a c i f) c) (conn_end (add_end a c i f) a)"
  by (auto simp: add_end_def create_element_def end_of_def Let_def list_ex_iff)

lemma add_end_present: "list_ex (end_of f c) (conn_end f a) \<Longrightarrow> add_end a c i f = f"
  by (simp add: add_end_def)

lemma new_assembly_has_end:
  "new_assembly c i f = (a, f') \<Longrightarrow> list_ex (end_of f' c) (conn_end f' a)"
  by (auto simp: new_assembly_def create_element_def Let_def end_of_add_end)

lemma first_subject_update:
  assumes "l \<in> set xs" "\<And>x. x \<noteq> l \<Longrightarrow> g' x = g x" "g' l = Some a"
    and "(case List.map_filter g xs of [] \<Rightarrow> None | b # _ \<Rightarrow> Some b) \<in> {None, Some a}"
  shows "(case List.map_filter g' xs of [] \<Rightarrow> None | b # _ \<Rightarrow> Some b) = Some a"
  using assms
proof (induction xs)
  case (Cons x xs)
  show ?case
  proof (cases "x = l")
    case True
    then show ?thesis using Cons.prems(3) by (simp add: List.map_filter_def)
  next
    case False
    then have l: "l \<in> set xs" using Cons.prems(1) by simp
    show ?thesis
    proof (cases "g x")
      case None
      then show ?thesis using Cons.IH[OF l Cons.prems(2,3)] Cons.prems(2,4) False
        by (simp add: List.map_filter_def)
    next
      case (Some b)
      then show ?thesis using Cons.prems(2,4) False by (simp add: List.map_filter_def)
    qed
  qed
qed simp

lemma ends_at_connected:
  "ends_at s l k = Some i \<Longrightarrow> \<exists>h. get_connected s l h = Some i \<and> kind (items s i) = k"
  by (cases "get_connected s l Head"; cases "get_connected s l Tail")
     (auto simp: ends_at_def List.map_filter_def split: if_splits)

lemma get_interface_attached:
  assumes "conn_diagrams s" "get_interface s l = Some i"
  shows "l \<in> line ` set (get_connections s i) \<and> kind (items s i) = InterfaceItem"
proof -
  obtain h where h: "get_connected s l h = Some i" and k: "kind (items s i) = InterfaceItem"
    using assms(2) ends_at_connected unfolding get_interface_def by blast
  then obtain c where c: "find (on_handle l h) (connections s (diagram (items s l))) = Some c" "connected c = i"
    by (auto simp: get_connected_def get_connection_def line_connections_def)
  then have "c \<in> set (connections s (diagram (items s l)))" "line c = l"
    by (auto dest: find_Some_in_set simp: on_handle_def)
  moreover have "diagram (items s i) = diagram (items s l)"
    using assms(1) calculation(1) c(2) by (auto simp: conn_diagrams_def)
  ultimately show ?thesis using c(2) k by (force simp: get_connections_def)
qed

lemma conn_diagrams_connect_item:
  assumes "conn_diagrams s" "diagram (items s t) = diagram (items s l)"
  shows "conn_diagrams (connect_item s l h t p)"
proof -
  let ?d = "diagram (items s l)"
  have "\<forall>c \<in> set (filter (Not \<circ> on_handle l h) (connections s ?d) @ [\<lparr>line = l, handle = h, connected = t, port = p\<rparr>]).
          diagram (items s (connected c)) = ?d \<and> diagram (items s (line c)) = ?d"
    using assms by (auto simp: conn_diagrams_def)
  then show ?thesis using assms(1) unfolding conn_diagrams_def connect_item_def Let_def
    by (simp split: if_split)
qed

lemma get_connected_frame:
  "items m' = items m \<Longrightarrow> connections m' = connections m \<Longrightarrow> get_connected m' = get_connected m"
  by (intro ext) (simp add: get_connected_def get_connection_def line_connections_def)

lemma ends_at_frame:
  assumes "items m' = items m" "connections m' = connections m"
  shows "ends_at m' = ends_at m"
  using get_connected_frame[OF assms] assms(1) by (intro ext) (simp add: ends_at_def)

lemma link_target_frame:
  assumes "items m' = items m" "connections m' = connections m" "dom m' = dom m"
  shows "link_target m' l = link_target m l"
proof -
  have "shared_assembly m' = shared_assembly m"
    using assms(1,2) by (intro ext) (simp add: shared_assembly_def get_connections_def cong: if_cong)
  then show ?thesis using assms ends_at_frame[OF assms(1,2)]
    by (simp add: link_target_def get_interface_def get_component_def
        cong: option.case_cong prod.case_cong if_cong)
qed

lemma link_target_Some:
  "link_target m l = Some (a, f) \<Longrightarrow>
     \<exists>i c isub csub. get_interface m l = Some i \<and> get_component m l = Some c
       \<and> subject (items m i) = Some isub \<and> subject (items m c) = Some csub
       \<and> component_role (dom m) csub isub \<noteq> None
       \<and> ((shared_assembly m i = Some a \<and> f = add_end a csub isub (dom m))
          \<or> (shared_assembly m i = None \<and> new_assembly csub isub (dom m) = (a, f)))"
  by (auto simp: link_target_def split: option.splits if_splits)

lemma link_target_linked:
  assumes "kind (items m l) = ConnectorItem" "conn_diagrams m" "link_target m l = Some (a, f)"
  shows "link_target (set_subject l (Some a) (m\<lparr>dom := f\<rparr>)) l = Some (a, f)"
proof -
  define m2 where "m2 = set_subject l (Some a) (m\<lparr>dom := f\<rparr>)"
  obtain i c isub csub where gi: "get_interface m l = Some i" and gc: "get_component m l = Some c"
    and si: "subject (items m i) = Some isub" and sc: "subject (items m c) = Some csub"
    and role: "component_role (dom m) csub isub \<noteq> None"
    and br: "(shared_assembly m i = Some a \<and> f = add_end a csub isub (dom m))
             \<or> (shared_assembly m i = None \<and> new_assembly csub isub (dom m) = (a, f))"
    using link_target_Some[OF assms(3)] by blast
  have att: "l \<in> line ` set (get_connections m i)" and ki: "kind (items m i) = InterfaceItem"
    using get_interface_attached[OF assms(2) gi] by auto
  have kc: "kind (items m c) = ComponentItem" using gc by (rule get_component_kind)
  have il: "i \<noteq> l" and cl: "c \<noteq> l" using ki kc assms(1) by auto
  have conn: "get_connected m2 = get_connected m"
    by (intro ext get_connected_cong) (simp_all add: m2_def)
  have ends: "ends_at m2 l = ends_at m l"
    using conn by (intro ext ends_at_cong) (simp_all add: m2_def)
  have gcs: "get_connections m2 i = get_connections m i"
    by (rule get_connections_cong) (simp_all add: m2_def)
  have shared: "shared_assembly m2 i = Some a"
    unfolding shared_assembly_def gcs
  proof (rule first_subject_update)
    show "l \<in> set (map line (get_connections m i))" using att by simp
    show "(\<lambda>l'. if kind (items m2 l') = ConnectorItem then subject (items m2 l') else None) x
        = (\<lambda>l'. if kind (items m l') = ConnectorItem then subject (items m l') else None) x" if "x \<noteq> l" for x
      using that by (simp add: m2_def set_subject_def)
    show "(\<lambda>l'. if kind (items m2 l') = ConnectorItem then subject (items m2 l') else None) l = Some a"
      using assms(1) by (simp add: m2_def set_subject_def)
    show "(case List.map_filter (\<lambda>l'. if kind (items m l') = ConnectorItem then subject (items m l') else None)
             (map line (get_connections m i)) of [] \<Rightarrow> None | b # _ \<Rightarrow> Some b) \<in> {None, Some a}"
      using br by (auto simp: shared_assembly_def)
  qed
  have has: "add_end a csub isub f = f"
    using br by (auto intro: add_end_present end_of_add_end new_assembly_has_end)
  have "component_role f csub isub = component_role (dom m) csub isub"
    using component_role_same_roles[OF link_target_same_roles[OF assms(3)]] by simp
  then have role2: "component_role (dom m2) csub isub \<noteq> None" using role by (simp add: m2_def)
  have gi2: "get_interface m2 l = Some i" using gi ends by (simp add: get_interface_def)
  have gc2: "get_component m2 l = Some c" using gc ends by (simp add: get_component_def)
  have si2: "subject (items m2 i) = Some isub" using si il by (simp add: m2_def set_subject_def)
  have sc2: "subject (items m2 c) = Some csub" using sc cl by (simp add: m2_def set_subject_def)
  have d2: "dom m2 = f" by (simp add: m2_def)
  have "link_target m2 l = Some (a, add_end a csub isub (dom m2))"
    unfolding link_target_def using gi2 gc2 si2 sc2 role2 shared by simp
  then show ?thesis using has d2 by (simp add: m2_def)
qed

text \<open>Connecting a handle of a connector line to the item it is already connected to is a
  no-op: the record, the subject, the domain and the fold states are unchanged.\<close>

theorem assembly_connect_idem:
  assumes "kind (items m l) = ConnectorItem" "conn_diagrams m" "diagram (items m e) = diagram (items m l)"
  shows "assembly_connect (assembly_connect m e l h p) e l h p = assembly_connect m e l h p"
proof -
  define m1 where "m1 = connect_item m l h e p"
  define m2 where "m2 = assembly_link m1 l"
  define m3 where "m3 = refold_all (touched m l @ touched m2 l) m2"
  have m3: "assembly_connect m e l h p = m3"
    by (simp add: assembly_connect_def Let_def m1_def m2_def m3_def)
  have cd1: "conn_diagrams m1" unfolding m1_def using assms(2,3) by (rule conn_diagrams_connect_item)
  have k1: "kind (items m1 l) = ConnectorItem" using assms(1) by (simp add: m1_def)
  have items3: "items m3 = items m2" and conns3: "connections m3 = connections m2" and dom3: "dom m3 = dom m2"
    by (simp_all add: m3_def)
  have c3: "connect_item m3 l h e p = m3"
  proof (rule connect_item_present)
    have "\<lparr>line = l, handle = h, connected = e, port = p\<rparr> \<in> set (connections m1 (diagram (items m l)))"
      unfolding m1_def by (rule cinfo_in_connect_item)
    then show "\<lparr>line = l, handle = h, connected = e, port = p\<rparr> \<in> set (connections m3 (diagram (items m3 l)))"
      by (simp add: m3_def m2_def m1_def)
  qed
  have lt3: "link_target m3 l = link_target m2 l"
    using items3 conns3 dom3 by (rule link_target_frame)
  have l3: "assembly_link m3 l = m3"
  proof (cases "link_target m1 l")
    case None
    then have "link_target m2 l = None" by (simp add: m2_def assembly_link_def)
    then show ?thesis using lt3 by (simp add: assembly_link_def)
  next
    case (Some af)
    then obtain a f where af: "link_target m1 l = Some (a, f)" by (cases af) auto
    then have m2: "m2 = set_subject l (Some a) (m1\<lparr>dom := f\<rparr>)" by (simp add: m2_def assembly_link_def)
    have "link_target m2 l = Some (a, f)" unfolding m2 using k1 cd1 af by (rule link_target_linked)
    moreover have "subject (items m3 l) = Some a" using items3 by (simp add: m2 set_subject_def)
    moreover have "dom m3 = f" using dom3 by (simp add: m2 set_subject_def)
    ultimately show ?thesis using lt3 by (simp add: assembly_link_def set_subject_same)
  qed
  have t3: "touched m3 l = touched m2 l"
    using get_connected_frame[OF items3 conns3] by (simp add: touched_def)
  have "assembly_connect m3 e l h p = refold_all (touched m3 l @ touched m3 l) m3"
    by (simp only: assembly_connect_def Let_def c3 l3)
  also have "\<dots> = m3"
    unfolding t3 unfolding m3_def by (rule refold_all_absorb) auto
  finally show ?thesis using m3 by simp
qed

end
