(* ===== verification/Realization.thy ===== *)
theory Realization
  imports Assembly
begin

text \<open>
  The interface-realization connector (specification, sections 4.2 and 4.4, exercised by
  \<open>UML/classes/tests/test_realizationconnect.py\<close>): the head of an
  \<open>InterfaceRealizationItem\<close> docks on an interface item, the tail on a classifier item;
  once both ends are connected the line's subject is an \<open>InterfaceRealization\<close> whose
  \<open>contract\<close> is the interface and whose \<open>implementatingClassifier\<close> is the classifier,
  kept on both ends of \<open>BehavioredClassifier.interfaceRealization\<close>. Connecting an end
  that is already linked moves the relationship and keeps its identity; disconnecting
  reverses the relationship. The line is a providing line for the fold state.
\<close>

definition realization_allow :: "asm_model \<Rightarrow> iid \<Rightarrow> iid \<Rightarrow> handle \<Rightarrow> nat \<Rightarrow> bool" where
  "realization_allow m element l h p =
     (case h of
        Head \<Rightarrow> kind (items m element) = InterfaceItem
      | Tail \<Rightarrow> kind (items m element) \<in> {ClassItem, ComponentItem})"

text \<open>Setting both ends of realization \<open>r\<close>: the classifier's list of realizations holds
  \<open>r\<close> exactly when \<open>r\<close> names it as implementing classifier.\<close>

definition realize :: "eid \<Rightarrow> eid \<Rightarrow> eid \<Rightarrow> comp_factory \<Rightarrow> comp_factory" where
  "realize r i c f =
     f\<lparr>contract := (contract f)(r \<mapsto> i),
       implementatingClassifier := (implementatingClassifier f)(r \<mapsto> c),
       interfaceRealization := (\<lambda>x. if x = c then add_unique r (interfaceRealization f x)
                                    else removeAll r (interfaceRealization f x))\<rparr>"

definition unrealize :: "eid \<Rightarrow> comp_factory \<Rightarrow> comp_factory" where
  "unrealize r f =
     f\<lparr>elements := (elements f)(r := None), contract := (contract f)(r := None),
       implementatingClassifier := (implementatingClassifier f)(r := None),
       interfaceRealization := (\<lambda>x. removeAll r (interfaceRealization f x))\<rparr>"

definition realization_link :: "asm_model \<Rightarrow> iid \<Rightarrow> asm_model" where
  "realization_link m l =
     (case (get_connected m l Head, get_connected m l Tail) of
        (Some i, Some c) \<Rightarrow>
          (case (subject (items m i), subject (items m c)) of
             (Some isub, Some csub) \<Rightarrow>
               (case subject (items m l) of
                  Some r \<Rightarrow> m\<lparr>dom := realize r isub csub (dom m)\<rparr>
                | None \<Rightarrow> (let (r, f) = create_element InterfaceRealization (dom m)
                           in set_subject l (Some r) (m\<lparr>dom := realize r isub csub f\<rparr>)))
           | _ \<Rightarrow> m)
      | _ \<Rightarrow> m)"

definition realization_connect :: "asm_model \<Rightarrow> iid \<Rightarrow> iid \<Rightarrow> handle \<Rightarrow> nat \<Rightarrow> asm_model" where
  "realization_connect m element l h p =
     (let m1 = realization_link (connect_item m l h element p) l in refold_all (touched m l @ touched m1 l) m1)"

definition realization_unlink :: "asm_model \<Rightarrow> iid \<Rightarrow> asm_model" where
  "realization_unlink m l =
     (case subject (items m l) of
        None \<Rightarrow> m
      | Some r \<Rightarrow> set_subject l None (m\<lparr>dom := unrealize r (dom m)\<rparr>))"

definition realization_disconnect :: "asm_model \<Rightarrow> iid \<Rightarrow> handle \<Rightarrow> asm_model" where
  "realization_disconnect m l h =
     (if get_connection m l h = None then m
      else refold_all (touched m l) (disconnect_item (realization_unlink m l) l h))"

text \<open>A dependency (usage) line: as far as the interface item is concerned, connecting
  and disconnecting it records the connection and recomputes the fold states it touches.\<close>

definition dependency_connect :: "asm_model \<Rightarrow> iid \<Rightarrow> iid \<Rightarrow> handle \<Rightarrow> nat \<Rightarrow> asm_model" where
  "dependency_connect m element l h p =
     (let m1 = connect_item m l h element p in refold_all (touched m l @ touched m1 l) m1)"

definition dependency_disconnect :: "asm_model \<Rightarrow> iid \<Rightarrow> handle \<Rightarrow> asm_model" where
  "dependency_disconnect m l h =
     (if get_connection m l h = None then m else refold_all (touched m l) (disconnect_item m l h))"

text \<open>The two ends of the association \<open>interfaceRealization\<close>/\<open>implementatingClassifier\<close>
  agree.\<close>

definition realization_sync :: "comp_factory \<Rightarrow> bool" where
  "realization_sync f \<longleftrightarrow>
     (\<forall>c. distinct (interfaceRealization f c)
        \<and> (\<forall>r \<in> set (interfaceRealization f c). implementatingClassifier f r = Some c))
     \<and> (\<forall>r c. implementatingClassifier f r = Some c \<longrightarrow> r \<in> set (interfaceRealization f c))"

declare realization_allow_def [model_defs] realize_def [model_defs] unrealize_def [model_defs]
  realization_link_def [model_defs] realization_connect_def [model_defs] realization_unlink_def
  [model_defs] realization_disconnect_def [model_defs] dependency_connect_def [model_defs]
  dependency_disconnect_def [model_defs]

subsection \<open>Lemmas\<close>

lemma realization_syncD:
  assumes "realization_sync f"
  shows "distinct (interfaceRealization f x)"
    and "r \<in> set (interfaceRealization f x) \<Longrightarrow> implementatingClassifier f r = Some x"
    and "implementatingClassifier f r = Some x \<Longrightarrow> r \<in> set (interfaceRealization f x)"
  using assms unfolding realization_sync_def by blast+

lemma realization_syncI:
  assumes "\<And>x. distinct (interfaceRealization f x)"
    and "\<And>x r. r \<in> set (interfaceRealization f x) \<Longrightarrow> implementatingClassifier f r = Some x"
    and "\<And>x r. implementatingClassifier f r = Some x \<Longrightarrow> r \<in> set (interfaceRealization f x)"
  shows "realization_sync f"
  unfolding realization_sync_def using assms by blast

lemma realization_sync_realize:
  assumes "realization_sync f"
  shows "realization_sync (realize r i c f)"
proof (rule realization_syncI)
  fix x
  show "distinct (interfaceRealization (realize r i c f) x)"
    using realization_syncD(1)[OF assms] by (simp add: realize_def distinct_removeAll)
next
  fix x r'
  assume a: "r' \<in> set (interfaceRealization (realize r i c f) x)"
  show "implementatingClassifier (realize r i c f) r' = Some x"
  proof (cases "r' = r")
    case True
    then have "x = c" using a by (auto simp: realize_def split: if_splits)
    then show ?thesis using True by (simp add: realize_def)
  next
    case False
    then have "r' \<in> set (interfaceRealization f x)" using a by (auto simp: realize_def split: if_splits)
    then show ?thesis using False realization_syncD(2)[OF assms] by (simp add: realize_def)
  qed
next
  fix x r'
  assume a: "implementatingClassifier (realize r i c f) r' = Some x"
  show "r' \<in> set (interfaceRealization (realize r i c f) x)"
  proof (cases "r' = r")
    case True
    then show ?thesis using a by (simp add: realize_def)
  next
    case False
    then have "r' \<in> set (interfaceRealization f x)"
      using a realization_syncD(3)[OF assms] by (simp add: realize_def)
    then show ?thesis using False by (cases "x = c") (simp_all add: realize_def)
  qed
qed

lemma realization_sync_unrealize:
  assumes "realization_sync f"
  shows "realization_sync (unrealize r f)"
proof (rule realization_syncI)
  fix x
  show "distinct (interfaceRealization (unrealize r f) x)"
    using realization_syncD(1)[OF assms] by (simp add: unrealize_def distinct_removeAll)
next
  fix x r'
  assume "r' \<in> set (interfaceRealization (unrealize r f) x)"
  then have "r' \<in> set (interfaceRealization f x)" "r' \<noteq> r" by (simp_all add: unrealize_def)
  then show "implementatingClassifier (unrealize r f) r' = Some x"
    using realization_syncD(2)[OF assms, of r' x] by (simp add: unrealize_def)
next
  fix x r'
  assume a: "implementatingClassifier (unrealize r f) r' = Some x"
  then have "r' \<noteq> r" by (auto simp: unrealize_def)
  with a have "implementatingClassifier f r' = Some x" by (simp add: unrealize_def)
  then have "r' \<in> set (interfaceRealization f x)" by (rule realization_syncD(3)[OF assms])
  with \<open>r' \<noteq> r\<close> show "r' \<in> set (interfaceRealization (unrealize r f) x)" by (simp add: unrealize_def)
qed

lemma realization_sync_create [simp]:
  "realization_sync (f\<lparr>elements := x, next_eid := y\<rparr>) = realization_sync f"
  by (simp add: realization_sync_def)

lemma realization_sync_realization_link:
  "realization_sync (dom m) \<Longrightarrow> realization_sync (dom (realization_link m l))"
  unfolding realization_link_def
  by (auto simp: set_subject_def create_element_def Let_def intro: realization_sync_realize
      split: option.split prod.split)

lemma realization_link_frame [simp]:
  "connections (realization_link m l) = connections m" "ifaces (realization_link m l) = ifaces m"
  "kind (items (realization_link m l) j) = kind (items m j)"
  "diagram (items (realization_link m l) j) = diagram (items m j)"
  unfolding realization_link_def
  by (auto simp: set_subject_def Let_def split: option.split prod.split)

lemma realization_unlink_frame [simp]:
  "connections (realization_unlink m l) = connections m"
  "kind (items (realization_unlink m l) j) = kind (items m j)"
  "diagram (items (realization_unlink m l) j) = diagram (items m j)"
  unfolding realization_unlink_def by (auto simp: set_subject_def split: option.split)

lemma provides_realize: "provides (realize r i c f) c i"
  by (simp add: provides_def realize_def list_ex_iff)

text \<open>Connect keeps the association mirrored; disconnect too.\<close>

theorem realization_sync_connect:
  "realization_sync (dom m) \<Longrightarrow> realization_sync (dom (realization_connect m e l h p))"
  by (simp add: realization_connect_def Let_def realization_sync_realization_link)

theorem realization_sync_disconnect:
  "realization_sync (dom m) \<Longrightarrow> realization_sync (dom (realization_disconnect m l h))"
  by (simp add: realization_disconnect_def realization_unlink_def set_subject_def
      realization_sync_unrealize split: option.split)

text \<open>Once both ends of a realization line are connected, its subject realizes the
  interface by the classifier, the classifier provides the interface (the role an
  assembly reads), and a subject the line already had keeps its identity.\<close>

theorem realization_link_links:
  assumes "get_connected m l Head = Some i" "get_connected m l Tail = Some c"
    and "subject (items m i) = Some isub" "subject (items m c) = Some csub"
    and "i \<noteq> l" "c \<noteq> l"
  shows "\<exists>r. subject (items (realization_link m l) l) = Some r
            \<and> contract (dom (realization_link m l)) r = Some isub
            \<and> implementatingClassifier (dom (realization_link m l)) r = Some csub
            \<and> provides (dom (realization_link m l)) csub isub
            \<and> (\<forall>r0. subject (items m l) = Some r0 \<longrightarrow> r = r0)"
proof (cases "subject (items m l)")
  case None
  obtain r f where cr: "create_element InterfaceRealization (dom m) = (r, f)" by fastforce
  then show ?thesis using assms None
    by (simp add: realization_link_def set_subject_def provides_realize) (simp add: realize_def)
next
  case (Some r)
  then show ?thesis using assms
    by (simp add: realization_link_def provides_realize) (simp add: realize_def)
qed

end
