(* ===== verification/ComponentTests.thy ===== *)
theory ComponentTests
  imports Realization
begin

text \<open>
  The tests of \<open>UML/components/tests/test_connect.py\<close> and
  \<open>UML/classes/tests/test_realizationconnect.py\<close> as definitions. The test fixture
  (\<open>gaphor.tests.TestCase\<close>: a fresh element factory and diagram, \<open>create\<close>,
  \<open>connect\<close>, \<open>disconnect\<close>, \<open>allow\<close>, \<open>kindof\<close>) comes first, and the editor model
  shares it; each test method is then a script of fixture calls (\<open>run_test\<close>) and a
  predicate of its assertions. A test is one run on a fixed input, so no theorem of the
  development is stated about these scripts: they record what the repository's tests
  expect of the component connectors, which are modelled from the specification, and
  four of them expect fold states the specified transition rule does not produce (the
  findings of \<open>PROJECT.json\<close>).
\<close>

subsection \<open>The test fixture\<close>

definition empty_factory :: comp_factory where
  "empty_factory = \<lparr>elements = Map.empty, name = Map.empty, body = Map.empty, namespace = Map.empty,
     annotatedElement = (\<lambda>_. []), comment = (\<lambda>_. []),
     interfaceRealization = (\<lambda>_. []), contract = Map.empty, implementatingClassifier = Map.empty,
     clientDependency = (\<lambda>_. []), supplier = (\<lambda>_. []), conn_kind = Map.empty, conn_end = (\<lambda>_. []),
     end_role = Map.empty, partWithPort = Map.empty, ownedPort = (\<lambda>_. []), next_eid = 0\<rparr>"

definition empty_model :: asm_model where
  "empty_model = \<lparr>items = (\<lambda>_. \<lparr>kind = Presentation, subject = None, diagram = 0\<rparr>), item_order = [],
     connections = (\<lambda>_. []), dom = empty_factory, ifaces = (\<lambda>_. new_iface_item N)\<rparr>"

text \<open>\<open>create(item_class, subject_class)\<close>: a new item on the diagram, with a new subject
  when a subject class is given.\<close>

definition create_item :: "item_kind \<Rightarrow> etype option \<Rightarrow> asm_model \<Rightarrow> iid \<times> asm_model" where
  "create_item k t m =
     (let i = length (item_order m);
          (s, f) = (case t of None \<Rightarrow> (None, dom m)
                    | Some ty \<Rightarrow> (let (e, f) = create_element ty (dom m) in (Some e, f)))
      in (i, m\<lparr>items := (items m)(i := \<lparr>kind = k, subject = s, diagram = 0\<rparr>),
               item_order := item_order m @ [i], dom := f\<rparr>))"

text \<open>\<open>connect\<close>, \<open>disconnect\<close> and \<open>allow\<close> go through the connector registered for the
  line's class; the port defaults to the item's first port.\<close>

definition test_connect :: "asm_model \<Rightarrow> iid \<Rightarrow> handle \<Rightarrow> iid \<Rightarrow> nat \<Rightarrow> asm_model" where
  "test_connect m l h item p =
     (case kind (items m l) of
        ConnectorItem \<Rightarrow> assembly_connect m item l h p
      | InterfaceRealizationItem \<Rightarrow> realization_connect m item l h p
      | _ \<Rightarrow> dependency_connect m item l h p)"

definition test_disconnect :: "asm_model \<Rightarrow> iid \<Rightarrow> handle \<Rightarrow> asm_model" where
  "test_disconnect m l h =
     (case kind (items m l) of
        ConnectorItem \<Rightarrow> assembly_disconnect m l h
      | InterfaceRealizationItem \<Rightarrow> realization_disconnect m l h
      | _ \<Rightarrow> dependency_disconnect m l h)"

definition test_allow :: "asm_model \<Rightarrow> iid \<Rightarrow> handle \<Rightarrow> iid \<Rightarrow> nat \<Rightarrow> bool" where
  "test_allow m l h item p =
     (case kind (items m l) of
        ConnectorItem \<Rightarrow> assembly_allow m item l h p
      | InterfaceRealizationItem \<Rightarrow> realization_allow m item l h p
      | _ \<Rightarrow> True)"

text \<open>\<open>item.folded = f\<close> on an interface item.\<close>

definition set_item_folded :: "iid \<Rightarrow> folded \<Rightarrow> asm_model \<Rightarrow> asm_model" where
  "set_item_folded i f m = m\<lparr>ifaces := (ifaces m)(i := set_folded f (ifaces m i))\<rparr>"

definition kindof :: "etype \<Rightarrow> asm_model \<Rightarrow> eid list" where
  "kindof t m = filter (\<lambda>e. elements (dom m) e = Some t) [0..<next_eid (dom m)]"

declare add_unique_def [model_defs]
declare empty_factory_def [model_defs] empty_model_def [model_defs] create_item_def [model_defs]
  test_connect_def [model_defs] test_disconnect_def [model_defs] test_allow_def [model_defs]
  set_item_folded_def [model_defs] kindof_def [model_defs]

subsection \<open>Helpers of \<open>AssemblyConnectorTestCase\<close>\<close>

text \<open>\<open>component.interfaceRealization = impl\<close> also sets the opposite end
  \<open>impl.implementatingClassifier\<close>; with \<open>impl.contract = interface\<close> this is
  \<open>realize\<close> on the new realization.\<close>

definition provide :: "eid \<Rightarrow> eid \<Rightarrow> asm_model \<Rightarrow> asm_model" where
  "provide component interface m =
     (let (impl, f) = create_element InterfaceRealization (dom m)
      in m\<lparr>dom := realize impl interface component f\<rparr>)"

definition require :: "eid \<Rightarrow> eid \<Rightarrow> asm_model \<Rightarrow> asm_model" where
  "require component interface m =
     (let (usage, f) = create_element Usage (dom m);
          f = f\<lparr>clientDependency := (clientDependency f)(component := add_unique usage (clientDependency f component))\<rparr>;
          f = f\<lparr>supplier := (supplier f)(usage := add_unique interface (supplier f usage))\<rparr>
      in m\<lparr>dom := f\<rparr>)"

definition the_subject :: "asm_model \<Rightarrow> iid \<Rightarrow> eid" where
  "the_subject m i = (case subject (items m i) of Some e \<Rightarrow> e | None \<Rightarrow> 0)"

declare provide_def [model_defs] require_def [model_defs] the_subject_def [model_defs]

subsection \<open>Test scripts\<close>

text \<open>A test method is a sequence of fixture calls. \<open>Create\<close> numbers the new item by
  creation order (the first item of a test is item 0); \<open>Provide c i\<close> and
  \<open>Require c i\<close> are \<open>self.provide(c.subject, i.subject)\<close> and
  \<open>self.require(c.subject, i.subject)\<close>; \<open>SetFolded i f\<close> is \<open>i.folded = f\<close>.\<close>

datatype test_action =
    Create item_kind "etype option"
  | Connect iid handle iid nat
  | Disconnect iid handle
  | SetFolded iid folded
  | Provide iid iid
  | Require iid iid

fun test_step :: "test_action \<Rightarrow> asm_model \<Rightarrow> asm_model" where
  "test_step (Create k t) m = snd (create_item k t m)"
| "test_step (Connect l h item p) m = test_connect m l h item p"
| "test_step (Disconnect l h) m = test_disconnect m l h"
| "test_step (SetFolded i f) m = set_item_folded i f m"
| "test_step (Provide c i) m = provide (the_subject m c) (the_subject m i) m"
| "test_step (Require c i) m = require (the_subject m c) (the_subject m i) m"

definition run_test :: "test_action list \<Rightarrow> asm_model" where
  "run_test acts = fold test_step acts empty_model"

declare run_test_def [model_defs]

subsection \<open>\<open>ComponentConnectTestCase\<close>\<close>

text \<open>\<open>test_glue\<close>: component 0, connector 1.\<close>

definition test_glue_actions :: "test_action list" where
  "test_glue_actions = [Create ComponentItem (Some Component), Create ConnectorItem None]"

definition test_glue_asserts :: "asm_model \<Rightarrow> bool" where
  "test_glue_asserts m \<longleftrightarrow> test_allow m 1 Head 0 0"

text \<open>\<open>test_connection\<close>: component 0, connector 1.\<close>

definition test_component_connection_actions :: "test_action list" where
  "test_component_connection_actions =
     [Create ComponentItem (Some Component), Create ConnectorItem None, Connect 1 Head 0 0]"

definition test_component_connection_asserts :: "asm_model \<Rightarrow> bool" where
  "test_component_connection_asserts m \<longleftrightarrow> subject (items m 1) = None"

text \<open>\<open>test_glue_both\<close>: components 0 and 1, connector 2.\<close>

definition test_glue_both_actions :: "test_action list" where
  "test_glue_both_actions =
     [Create ComponentItem (Some Component), Create ComponentItem (Some Component),
      Create ConnectorItem None, Connect 2 Head 0 0]"

definition test_glue_both_asserts :: "asm_model \<Rightarrow> bool" where
  "test_glue_both_asserts m \<longleftrightarrow> \<not> test_allow m 2 Tail 1 0"

subsection \<open>\<open>InterfaceConnectTestCase\<close>\<close>

text \<open>\<open>test_non_folded_glue\<close>, \<open>test_folded_glue\<close>: interface item 0 (with a
  \<open>Component\<close> subject, as in the test), connector 1.\<close>

definition test_non_folded_glue_actions :: "test_action list" where
  "test_non_folded_glue_actions = [Create InterfaceItem (Some Component), Create ConnectorItem None]"

definition test_folded_glue_actions :: "test_action list" where
  "test_folded_glue_actions =
     [Create InterfaceItem (Some Component), Create ConnectorItem None, SetFolded 0 REQUIRED]"

definition test_iface_glue_asserts :: "asm_model \<Rightarrow> bool" where
  "test_iface_glue_asserts m \<longleftrightarrow> test_allow m 1 Head 0 0"

text \<open>\<open>test_glue_when_dependency_connected\<close> and
  \<open>test_glue_when_implementation_connected\<close>: interface item 0, dependency (or
  realization) line 1, connector 2.\<close>

definition test_glue_when_dependency_connected_actions :: "test_action list" where
  "test_glue_when_dependency_connected_actions =
     [Create InterfaceItem (Some Component), Create DependencyItem None, Create ConnectorItem None,
      Connect 1 Head 0 0, SetFolded 0 REQUIRED]"

definition test_glue_when_implementation_connected_actions :: "test_action list" where
  "test_glue_when_implementation_connected_actions =
     [Create InterfaceItem (Some Component), Create InterfaceRealizationItem None, Create ConnectorItem None,
      Connect 1 Head 0 0, SetFolded 0 REQUIRED]"

definition test_glue_line_connected_asserts :: "asm_model \<Rightarrow> bool" where
  "test_glue_line_connected_asserts m \<longleftrightarrow> test_allow m 2 Head 0 0"

text \<open>\<open>test_glue_when_connector_connected\<close>: interface item 0, component 1,
  connectors 2 and 3.\<close>

definition test_glue_when_connector_connected_actions :: "test_action list" where
  "test_glue_when_connector_connected_actions =
     [Create InterfaceItem (Some Interface), Create ComponentItem (Some Component), SetFolded 0 REQUIRED,
      Create ConnectorItem None, Create ConnectorItem None, Connect 2 Tail 1 0, Connect 2 Head 0 0]"

definition test_glue_when_connector_connected_asserts :: "asm_model \<Rightarrow> bool" where
  "test_glue_when_connector_connected_asserts m \<longleftrightarrow>
     folded (ifaces m 0) = PROVIDED \<and> test_allow m 3 Head 0 0"

text \<open>\<open>test_simple_connection\<close>: interface item 0, component 1, connector 2.\<close>

definition test_simple_connection_actions :: "test_action list" where
  "test_simple_connection_actions =
     [Create InterfaceItem (Some Interface), Create ComponentItem (Some Component), Create ConnectorItem None,
      Connect 2 Head 0 0, Connect 2 Tail 1 0]"

definition test_simple_connection_asserts :: "asm_model \<Rightarrow> bool" where
  "test_simple_connection_asserts m \<longleftrightarrow> folded (ifaces m 0) = PROVIDED \<and> subject (items m 2) \<noteq> None"

text \<open>\<open>test_simple_disconnection\<close>: interface item 0, connector 1.\<close>

definition test_simple_disconnection_actions :: "test_action list" where
  "test_simple_disconnection_actions =
     [Create InterfaceItem (Some Component), Create ConnectorItem None, SetFolded 0 PROVIDED,
      Connect 1 Head 0 0, Disconnect 1 Head]"

definition test_simple_disconnection_asserts :: "asm_model \<Rightarrow> bool" where
  "test_simple_disconnection_asserts m \<longleftrightarrow>
     folded (ifaces m 0) = PROVIDED \<and> side (ifaces m 0) = N \<and> list_all id (connectable (ifaces m 0))"

subsection \<open>\<open>AssemblyConnectorTestCase\<close>\<close>

text \<open>\<open>test_getting_component\<close>: connectors 0 and 1, components 2 and 3.\<close>

definition test_getting_component_actions :: "test_action list" where
  "test_getting_component_actions =
     [Create ConnectorItem None, Create ConnectorItem None,
      Create ComponentItem (Some Component), Create ComponentItem (Some Component),
      Connect 0 Tail 2 0, Connect 1 Head 3 0]"

definition test_getting_component_asserts :: "asm_model \<Rightarrow> bool" where
  "test_getting_component_asserts m \<longleftrightarrow> get_component m 0 = Some 2 \<and> get_component m 1 = Some 3"

text \<open>The common start of \<open>test_connection\<close>, \<open>test_required_port_glue\<close> and
  \<open>test_disconnection\<close>: connectors 0 and 1, components 2 and 3, interface item 4 folded
  to \<open>ASSEMBLY\<close>; component 2 provides the interface and component 3 requires it; both
  connectors docked on their component by the head.\<close>

definition assembly_setup_actions :: "test_action list" where
  "assembly_setup_actions =
     [Create ConnectorItem None, Create ConnectorItem None,
      Create ComponentItem (Some Component), Create ComponentItem (Some Component),
      Create InterfaceItem (Some Interface), SetFolded 4 ASSEMBLY,
      Provide 2 4, Require 3 4, Connect 0 Head 2 0, Connect 1 Head 3 0]"

definition test_assembly_connection_actions :: "test_action list" where
  "test_assembly_connection_actions = assembly_setup_actions @ [Connect 0 Tail 4 0, Connect 1 Tail 4 0]"

definition test_assembly_connection_asserts :: "asm_model \<Rightarrow> bool" where
  "test_assembly_connection_asserts m \<longleftrightarrow>
     subject (items m 0) = subject (items m 1)
     \<and> (case subject (items m 0) of
          Some a \<Rightarrow> elements (dom m) a = Some Connector \<and> conn_kind (dom m) a = Some ''assembly''
                    \<and> length (conn_end (dom m) a) = 2
        | None \<Rightarrow> False)"

definition test_required_port_glue_actions :: "test_action list" where
  "test_required_port_glue_actions = assembly_setup_actions @ [Connect 0 Tail 4 0]"

definition test_required_port_glue_asserts :: "asm_model \<Rightarrow> bool" where
  "test_required_port_glue_asserts m \<longleftrightarrow> test_allow m 1 Tail 4 2"

text \<open>\<open>test_connection_order\<close>: as the setup, but the interface is not folded and both
  components provide it.\<close>

definition test_connection_order_actions :: "test_action list" where
  "test_connection_order_actions =
     [Create ConnectorItem None, Create ConnectorItem None,
      Create ComponentItem (Some Component), Create ComponentItem (Some Component),
      Create InterfaceItem (Some Interface), Provide 2 4, Provide 3 4,
      Connect 0 Head 2 0, Connect 1 Head 3 0, Connect 0 Tail 4 0, Connect 1 Tail 4 0]"

definition test_connection_order_asserts :: "asm_model \<Rightarrow> bool" where
  "test_connection_order_asserts m \<longleftrightarrow> subject (items m 0) \<noteq> None \<and> subject (items m 1) \<noteq> None"

text \<open>\<open>test_addtional_connections\<close>: connectors 0, 1, 2, components 3, 4, 5, interface
  item 6; component 3 provides, 4 and 5 require.\<close>

definition addtional_roles_setup :: "test_action list" where
  "addtional_roles_setup =
     [Create ConnectorItem None, Create ConnectorItem None, Create ConnectorItem None,
      Create ComponentItem (Some Component), Create ComponentItem (Some Component),
      Create ComponentItem (Some Component), Create InterfaceItem (Some Interface), SetFolded 6 ASSEMBLY,
      Provide 3 6, Require 4 6, Require 5 6, Connect 0 Head 3 0, Connect 1 Head 4 0, Connect 2 Head 5 0]"

definition test_addtional_connections_setup :: "test_action list" where
  "test_addtional_connections_setup = addtional_roles_setup @ [Connect 0 Tail 6 0, Connect 1 Tail 6 0]"

definition test_addtional_connections_actions :: "test_action list" where
  "test_addtional_connections_actions = test_addtional_connections_setup @ [Connect 2 Tail 6 0]"

definition test_addtional_connections_precondition :: "asm_model \<Rightarrow> bool" where
  "test_addtional_connections_precondition m \<longleftrightarrow> subject (items m 0) \<noteq> None \<and> subject (items m 1) \<noteq> None"

definition test_addtional_connections_asserts :: "asm_model \<Rightarrow> bool" where
  "test_addtional_connections_asserts m \<longleftrightarrow>
     subject (items m 2) = subject (items m 0)
     \<and> (case subject (items m 0) of Some a \<Rightarrow> length (conn_end (dom m) a) = 3 | None \<Rightarrow> False)"

text \<open>\<open>test_disconnection\<close>: the actions of \<open>test_connection\<close>, then the head of
  connector 0 leaves its component.\<close>

definition test_disconnection_actions :: "test_action list" where
  "test_disconnection_actions = test_assembly_connection_actions @ [Disconnect 0 Head]"

definition test_disconnection_precondition :: "asm_model \<Rightarrow> bool" where
  "test_disconnection_precondition m \<longleftrightarrow> subject (items m 0) = subject (items m 1)"

definition test_disconnection_asserts :: "asm_model \<Rightarrow> bool" where
  "test_disconnection_asserts m \<longleftrightarrow>
     subject (items m 0) = None \<and> subject (items m 1) = None
     \<and> kindof Connector m = [] \<and> kindof ConnectorEnd m = [] \<and> kindof Port m = []"

subsection \<open>\<open>InterfaceRealizationTestCase\<close>\<close>

text \<open>\<open>test_non_interface_glue\<close>, \<open>test_classifier_glue\<close>: realization 0, class 1;
  \<open>test_interface_glue\<close>: interface item 0, realization 1.\<close>

definition test_realization_class_actions :: "test_action list" where
  "test_realization_class_actions = [Create InterfaceRealizationItem None, Create ClassItem (Some Class)]"

definition test_non_interface_glue_asserts :: "asm_model \<Rightarrow> bool" where
  "test_non_interface_glue_asserts m \<longleftrightarrow> \<not> test_allow m 0 Head 1 0"

definition test_classifier_glue_asserts :: "asm_model \<Rightarrow> bool" where
  "test_classifier_glue_asserts m \<longleftrightarrow> test_allow m 0 Tail 1 0"

definition test_interface_glue_actions :: "test_action list" where
  "test_interface_glue_actions = [Create InterfaceItem (Some Interface), Create InterfaceRealizationItem None]"

definition test_interface_glue_asserts :: "asm_model \<Rightarrow> bool" where
  "test_interface_glue_asserts m \<longleftrightarrow> test_allow m 1 Head 0 0"

text \<open>\<open>test_connection\<close>: interface item 0, realization 1, class 2.\<close>

definition test_realization_connection_actions :: "test_action list" where
  "test_realization_connection_actions =
     [Create InterfaceItem (Some Interface), Create InterfaceRealizationItem None, Create ClassItem (Some Class),
      Connect 1 Head 0 0, Connect 1 Tail 2 0]"

definition test_realization_connection_asserts :: "asm_model \<Rightarrow> bool" where
  "test_realization_connection_asserts m \<longleftrightarrow>
     (case subject (items m 1) of
        Some r \<Rightarrow> elements (dom m) r = Some InterfaceRealization \<and> get_connected m 1 Head = Some 0
                  \<and> contract (dom m) r = subject (items m 0)
                  \<and> implementatingClassifier (dom m) r = subject (items m 2)
      | None \<Rightarrow> False)"

text \<open>\<open>test_reconnection\<close>: interface item 0, classes 1 and 2, realization 3.\<close>

definition test_reconnection_setup :: "test_action list" where
  "test_reconnection_setup =
     [Create InterfaceItem (Some Interface), Create ClassItem (Some Class), Create ClassItem (Some Class),
      Create InterfaceRealizationItem None, Connect 3 Head 0 0, Connect 3 Tail 1 0]"

definition test_reconnection_actions :: "test_action list" where
  "test_reconnection_actions = test_reconnection_setup @ [Connect 3 Tail 2 0]"

definition test_reconnection_asserts :: "eid option \<Rightarrow> asm_model \<Rightarrow> bool" where
  "test_reconnection_asserts s m \<longleftrightarrow>
     s = subject (items m 3)
     \<and> (case subject (items m 3) of
          Some r \<Rightarrow> subject (items m 0) = contract (dom m) r
                    \<and> subject (items m 2) = implementatingClassifier (dom m) r
                    \<and> subject (items m 1) \<noteq> implementatingClassifier (dom m) r
        | None \<Rightarrow> False)"

text \<open>Section 8 of the specification: the connector lines of a set of components with
  declared roles share one relationship, with one end per component.\<close>

definition one_assembly :: "iid list \<Rightarrow> asm_model \<Rightarrow> bool" where
  "one_assembly ls m \<longleftrightarrow>
     (\<exists>a. list_all (\<lambda>l. subject (items m l) = Some a) ls \<and> length (conn_end (dom m) a) = length ls
          \<and> kindof Connector m = [a])"

end
