(* ===== verification/Editor.thy ===== *)
theory Editor
  imports ComponentTests CommentLine Registry
begin

text \<open>
  The editor's use of the connectors (specification, section 2, control flow, and
  section 5): every gesture goes through the registry. A drop of a line handle on an
  item asks \<open>Registry.dispatch(target, line)\<close> for a connector, calls its \<open>allow\<close>
  and, when it allows, its \<open>connect\<close>; removing a connected handle dispatches on the
  item it is docked to and calls \<open>disconnect\<close>. The comment-line connector of
  \<open>src/gaphor/diagram/general/connectors.py\<close> and the assembly, realization and
  dependency connectors act on one shared state: the diagram, the connection index,
  the interface items and one element factory. Between gestures the user creates items
  and declares interface realizations and usages, or withdraws a usage.
\<close>

subsection \<open>One registry for all connectors\<close>

datatype connector_impl =
    CommentConnector connector_class
  | AssemblyConnector
  | RealizationConnector
  | DependencyConnector

text \<open>The four registrations of \<open>connectors.py\<close> and one registration for each of the
  component connectors on every element item (their \<open>allow\<close> decides which element
  classes they glue to).\<close>

definition editor_registrations :: "connector_impl registry" where
  "editor_registrations =
     map (\<lambda>(pair, c). (pair, CommentConnector c)) registrations @
     [((ElementPresentation, ConnectorItem), AssemblyConnector),
      ((ElementPresentation, InterfaceRealizationItem), RealizationConnector),
      ((ElementPresentation, DependencyItem), DependencyConnector)]"

text \<open>The dispatch as an explicit table (specification, section 9).\<close>

definition editor_connector :: "item_kind \<Rightarrow> item_kind \<Rightarrow> py_error + connector_impl option" where
  "editor_connector t l =
     (if l = CommentLineItem then
        (if t = CommentLineItem then Inl AmbiguousLookupError
         else if t = Presentation then Inr None
         else Inr (Some (CommentConnector CommentLinePresentationConnect)))
      else if t = CommentLineItem \<and> is_line l then Inr (Some (CommentConnector InverseCommentLineLineConnect))
      else if isinstance t ElementPresentation then
        (case l of
           ConnectorItem \<Rightarrow> Inr (Some AssemblyConnector)
         | InterfaceRealizationItem \<Rightarrow> Inr (Some RealizationConnector)
         | DependencyItem \<Rightarrow> Inr (Some DependencyConnector)
         | _ \<Rightarrow> Inr None)
      else Inr None)"

subsection \<open>The comment connector on the shared state\<close>

text \<open>The comment-line connector reads and writes the diagram, the connection index and
  the \<open>annotatedElement\<close>/\<open>comment\<close> ends of the element factory; its state is the
  corresponding part of the shared state.\<close>

definition comment_view :: "asm_model \<Rightarrow> model" where
  "comment_view m =
     \<lparr>items = items m, item_order = item_order m, connections = connections m,
      factory = \<lparr>elements = elements (dom m), name = name (dom m), body = body (dom m),
                 namespace = namespace (dom m), annotatedElement = annotatedElement (dom m),
                 comment = comment (dom m)\<rparr>\<rparr>"

definition comment_update :: "asm_model \<Rightarrow> model \<Rightarrow> asm_model" where
  "comment_update m c =
     m\<lparr>items := items c, item_order := item_order c, connections := connections c,
       dom := (dom m)\<lparr>elements := elements (factory c), name := name (factory c),
                      body := body (factory c), namespace := namespace (factory c),
                      annotatedElement := annotatedElement (factory c),
                      comment := comment (factory c)\<rparr>\<rparr>"

subsection \<open>Connector calls\<close>

text \<open>A connector class instantiated on \<open>(target, line)\<close>: the comment classes build
  their (element, line) pair with \<open>connector_instance\<close> and act on the comment view.\<close>

fun connector_allow :: "connector_impl \<Rightarrow> asm_model \<Rightarrow> iid \<Rightarrow> iid \<Rightarrow> handle \<Rightarrow> nat \<Rightarrow> bool" where
  "connector_allow (CommentConnector c) m t l h p =
     (case connector_instance c t l of (e, ln) \<Rightarrow> comment_allow (comment_view m) e ln h p)"
| "connector_allow AssemblyConnector m t l h p = assembly_allow m t l h p"
| "connector_allow RealizationConnector m t l h p = realization_allow m t l h p"
| "connector_allow DependencyConnector m t l h p = base_allow m l h p"

fun connector_connect ::
  "connector_impl \<Rightarrow> asm_model \<Rightarrow> iid \<Rightarrow> iid \<Rightarrow> handle \<Rightarrow> nat \<Rightarrow> py_error + asm_model" where
  "connector_connect (CommentConnector c) m t l h p =
     (case connector_instance c t l of
        (e, ln) \<Rightarrow> map_sum id (comment_update m) (comment_connect (comment_view m) e ln h p))"
| "connector_connect AssemblyConnector m t l h p = Inr (assembly_connect m t l h p)"
| "connector_connect RealizationConnector m t l h p = Inr (realization_connect m t l h p)"
| "connector_connect DependencyConnector m t l h p = Inr (dependency_connect m t l h p)"

fun connector_disconnect ::
  "connector_impl \<Rightarrow> asm_model \<Rightarrow> iid \<Rightarrow> iid \<Rightarrow> handle \<Rightarrow> py_error + asm_model" where
  "connector_disconnect (CommentConnector c) m t l h =
     (case connector_instance c t l of
        (e, ln) \<Rightarrow> map_sum id (comment_update m) (comment_disconnect (comment_view m) e ln h))"
| "connector_disconnect AssemblyConnector m t l h = Inr (assembly_disconnect m l h)"
| "connector_disconnect RealizationConnector m t l h = Inr (realization_disconnect m l h)"
| "connector_disconnect DependencyConnector m t l h = Inr (dependency_disconnect m l h)"

subsection \<open>Gestures\<close>

text \<open>Dropping handle \<open>h\<close> of line \<open>l\<close> on port \<open>p\<close> of item \<open>t\<close>: no connector means
  the drop is refused, a connector that does not allow it leaves the state as it was,
  an ambiguous registry is an error.\<close>

definition editor_drop :: "asm_model \<Rightarrow> iid \<Rightarrow> handle \<Rightarrow> iid \<Rightarrow> nat \<Rightarrow> py_error + asm_model" where
  "editor_drop m l h t p =
     (case dispatch editor_registrations (kind (items m t)) (kind (items m l)) of
        Inl err \<Rightarrow> Inl err
      | Inr None \<Rightarrow> Inr m
      | Inr (Some c) \<Rightarrow> if connector_allow c m t l h p then connector_connect c m t l h p else Inr m)"

text \<open>Removing handle \<open>h\<close> of line \<open>l\<close>: the connector of the item the handle is docked
  to disconnects it; a handle that is not connected is left alone.\<close>

definition editor_remove :: "asm_model \<Rightarrow> iid \<Rightarrow> handle \<Rightarrow> py_error + asm_model" where
  "editor_remove m l h =
     (case get_connected m l h of
        None \<Rightarrow> Inr m
      | Some t \<Rightarrow>
          (case dispatch editor_registrations (kind (items m t)) (kind (items m l)) of
             Inl err \<Rightarrow> Inl err
           | Inr None \<Rightarrow> Inr m
           | Inr (Some c) \<Rightarrow> connector_disconnect c m t l h))"

text \<open>The class of the subject an item of each class presents; a new element item gets
  a new subject of that class, a new line gets its subject from its connector.\<close>

fun subject_class :: "item_kind \<Rightarrow> etype option" where
  "subject_class CommentItem = Some Comment"
| "subject_class ComponentItem = Some Component"
| "subject_class InterfaceItem = Some Interface"
| "subject_class ClassItem = Some Class"
| "subject_class ConnectorItem = Some Connector"
| "subject_class InterfaceRealizationItem = Some InterfaceRealization"
| "subject_class _ = None"

definition new_item_subject :: "item_kind \<Rightarrow> etype option" where
  "new_item_subject k = (if is_line k then None else subject_class k)"

text \<open>A component stops using an interface (specification, sections 7 and 9): each of its
  client dependencies that is a \<open>Usage\<close> with the interface among its suppliers is
  unlinked, which removes it from the component's \<open>clientDependency\<close>, empties its
  \<open>supplier\<close> and destroys it. Connector ends that relied on the role are left as they
  are; they are only revisited when a line connects or disconnects.\<close>

definition unuse :: "eid \<Rightarrow> asm_model \<Rightarrow> asm_model" where
  "unuse u m =
     m\<lparr>dom := (dom m)\<lparr>elements := (elements (dom m))(u := None),
                      clientDependency := (\<lambda>c. removeAll u (clientDependency (dom m) c)),
                      supplier := (supplier (dom m))(u := [])\<rparr>\<rparr>"

definition unrequire :: "eid \<Rightarrow> eid \<Rightarrow> asm_model \<Rightarrow> asm_model" where
  "unrequire component interface m =
     fold unuse (filter (\<lambda>u. elements (dom m) u = Some Usage \<and> interface \<in> set (supplier (dom m) u))
                   (clientDependency (dom m) component)) m"

datatype editor_event =
    NewItem item_kind
  | Drop iid handle iid nat
  | Remove iid handle
  | FoldItem iid folded
  | AddRealization iid iid
  | AddUsage iid iid
  | RemoveUsage iid iid

text \<open>\<open>AddRealization c i\<close> and \<open>AddUsage c i\<close> declare, on the subjects of items \<open>c\<close>
  and \<open>i\<close>, that the component realizes or uses the interface; \<open>RemoveUsage c i\<close>
  withdraws the usage.\<close>

fun editor_step :: "editor_event \<Rightarrow> asm_model \<Rightarrow> py_error + asm_model" where
  "editor_step (NewItem k) m = Inr (snd (create_item k (new_item_subject k) m))"
| "editor_step (Drop l h t p) m = editor_drop m l h t p"
| "editor_step (Remove l h) m = editor_remove m l h"
| "editor_step (FoldItem i f) m =
     Inr (if kind (items m i) = InterfaceItem then set_item_folded i f m else m)"
| "editor_step (AddRealization c i) m =
     Inr (case (subject (items m c), subject (items m i)) of
            (Some cs, Some is) \<Rightarrow> provide cs is m
          | _ \<Rightarrow> m)"
| "editor_step (AddUsage c i) m =
     Inr (case (subject (items m c), subject (items m i)) of
            (Some cs, Some is) \<Rightarrow> require cs is m
          | _ \<Rightarrow> m)"
| "editor_step (RemoveUsage c i) m =
     Inr (case (subject (items m c), subject (items m i)) of
            (Some cs, Some is) \<Rightarrow> unrequire cs is m
          | _ \<Rightarrow> m)"

fun editor_run :: "editor_event list \<Rightarrow> asm_model \<Rightarrow> py_error + asm_model" where
  "editor_run [] m = Inr m"
| "editor_run (e # es) m = (case editor_step e m of Inl err \<Rightarrow> Inl err | Inr m' \<Rightarrow> editor_run es m')"

text \<open>The states the editor reaches from an empty diagram and factory.\<close>

inductive editor_reach :: "asm_model \<Rightarrow> bool" where
  init: "editor_reach empty_model"
| step: "editor_reach m \<Longrightarrow> editor_step e m = Inr m' \<Longrightarrow> editor_reach m'"

declare unuse_def [model_defs] unrequire_def [model_defs]
declare editor_registrations_def [model_defs] editor_connector_def [model_defs]
  comment_view_def [model_defs] comment_update_def [model_defs] editor_drop_def [model_defs]
  editor_remove_def [model_defs] new_item_subject_def [model_defs]

subsection \<open>The comment view\<close>

lemma comment_view_frame [simp]:
  "items (comment_view m) = items m" "item_order (comment_view m) = item_order m"
  "connections (comment_view m) = connections m"
  "annotatedElement (factory (comment_view m)) = annotatedElement (dom m)"
  "comment (factory (comment_view m)) = comment (dom m)"
  "is_comment (factory (comment_view m)) = is_comment (dom m)"
  by (simp_all add: comment_view_def is_comment_def fun_eq_iff)

lemma get_connected_comment_view [simp]:
  "get_connected (comment_view m) l h = get_connected m l h"
  "get_connection (comment_view m) l h = get_connection m l h"
  by (simp_all add: get_connected_def get_connection_def line_connections_def)

lemma comment_update_connect_item:
  "comment_update m (connect_item (comment_view m) l h t p) = connect_item m l h t p"
  by (simp add: comment_update_def comment_view_def connect_item_def Let_def)

lemma comment_update_annotate_connect_item:
  "comment_update m (annotate (connect_item (comment_view m) l h t p) c e) =
     (connect_item m l h t p)\<lparr>dom := set_annotatedElement (dom m) c e\<rparr>"
  by (simp add: comment_update_def comment_view_def connect_item_def annotate_def
      set_annotatedElement_def Let_def)

lemma comment_update_disconnect_item:
  "comment_update m (disconnect_item (comment_view m) l h) = disconnect_item m l h"
  by (simp add: comment_update_def comment_view_def disconnect_item_def Let_def)

lemma comment_update_unannotate_disconnect_item:
  "comment_update m (disconnect_item (unannotate (comment_view m) c e) l h) =
     (disconnect_item m l h)\<lparr>dom := del_annotatedElement (dom m) c e\<rparr>"
  by (simp add: comment_update_def comment_view_def disconnect_item_def unannotate_def
      del_annotatedElement_def Let_def)

lemma comment_update_view: "comment_update m (comment_view m) = m"
  by (simp add: comment_update_def comment_view_def)

text \<open>The states a lifted comment connect or disconnect produces.\<close>

lemma lifted_comment_connect_cases:
  assumes "comment_connect (comment_view m) e l h p = Inr c"
  obtains (plain) "comment_update m c = connect_item m l h e p"
    | (annot) x y where "comment_update m c = (connect_item m l h e p)\<lparr>dom := set_annotatedElement (dom m) x y\<rparr>"
  using assms unfolding comment_connect_eq
  by (cases rule: comment_link_cases)
     (simp_all add: comment_update_connect_item comment_update_annotate_connect_item)

lemma lifted_comment_disconnect_cases:
  assumes "comment_disconnect (comment_view m) e l h = Inr c"
  obtains (kept) "comment_update m c = m"
    | (removed) x y where "comment_update m c = (disconnect_item m l h)\<lparr>dom := del_annotatedElement (dom m) x y\<rparr>"
    | (plain) "comment_update m c = disconnect_item m l h"
  using assms
  by (cases rule: comment_disconnect_cases)
     (simp_all add: comment_update_view comment_update_disconnect_item
      comment_update_unannotate_disconnect_item)

lemma editor_connector_dispatch: "dispatch editor_registrations t l = editor_connector t l"
  by (cases t; cases l) (simp_all add: editor_registrations_def editor_connector_def dispatch_def
      registrations_def matches_def more_specific_def isinstance_def is_line_def)

end
