(* ===== verification/EditorSafety.thy ===== *)
theory EditorSafety
  imports Editor
begin

text \<open>
  The invariants of the editor's shared state and their preservation by every gesture:
  the connection index stays unique per handle, every bidirectional association stays
  mirrored, every subject exists with the class its item presents, and the connection
  records and comment lines stay in the shape the registry and \<open>allow\<close> admit.
\<close>

subsection \<open>The invariants\<close>

text \<open>The registry dispatches a record's pair to the connector of its own line (never to
  the inverse connector).\<close>

definition direct_pair :: "item_kind \<Rightarrow> item_kind \<Rightarrow> bool" where
  "direct_pair t l \<longleftrightarrow>
     (l = CommentLineItem \<and> t \<noteq> CommentLineItem \<and> t \<noteq> Presentation) \<or>
     (l \<in> {ConnectorItem, InterfaceRealizationItem, DependencyItem} \<and> isinstance t ElementPresentation)"

definition records_direct :: "asm_model \<Rightarrow> bool" where
  "records_direct m \<longleftrightarrow>
     (\<forall>d. \<forall>c \<in> set (connections m d). direct_pair (kind (items m (connected c))) (kind (items m (line c))))"

text \<open>Identities beyond the created items are not items yet.\<close>

definition unused_items :: "asm_model \<Rightarrow> bool" where
  "unused_items m \<longleftrightarrow> (\<forall>i. length (item_order m) \<le> i \<longrightarrow> kind (items m i) = Presentation)"

text \<open>A comment line docked at both ends joins a \<open>CommentItem\<close> and an item of another class.\<close>

definition comment_lines_ok :: "asm_model \<Rightarrow> bool" where
  "comment_lines_ok m \<longleftrightarrow>
     (\<forall>l c1 c2. kind (items m l) = CommentLineItem \<longrightarrow> get_connected m l Head = Some c1 \<longrightarrow>
        get_connected m l Tail = Some c2 \<longrightarrow>
        (kind (items m c1) = CommentItem \<longleftrightarrow> kind (items m c2) \<noteq> CommentItem))"

definition diag_inv :: "asm_model \<Rightarrow> bool" where
  "diag_inv m \<longleftrightarrow> conn_unique m \<and> unused_items m \<and> records_direct m \<and> comment_lines_ok m"

text \<open>The factory hands out fresh identities.\<close>

definition fresh_dom :: "comp_factory \<Rightarrow> bool" where
  "fresh_dom f \<longleftrightarrow> (\<forall>e. next_eid f \<le> e \<longrightarrow> elements f e = None)"

text \<open>Every subject exists and has the class its item presents.\<close>

definition subjects_typed :: "asm_model \<Rightarrow> bool" where
  "subjects_typed m \<longleftrightarrow>
     (\<forall>i e. subject (items m i) = Some e \<longrightarrow>
        subject_class (kind (items m i)) \<noteq> None \<and> elements (dom m) e = subject_class (kind (items m i)))"

text \<open>Connector ends are \<open>ConnectorEnd\<close>s, the port of an end is a \<open>Port\<close> (or already
  destroyed), and a classifier's interface realizations are \<open>InterfaceRealization\<close>s.\<close>

definition parts_typed :: "comp_factory \<Rightarrow> bool" where
  "parts_typed f \<longleftrightarrow>
     (\<forall>a. \<forall>e \<in> set (conn_end f a). elements f e = Some ConnectorEnd) \<and>
     (\<forall>e p. partWithPort f e = Some p \<longrightarrow> p < next_eid f \<and> elements f p \<in> {None, Some Port}) \<and>
     (\<forall>c. \<forall>r \<in> set (interfaceRealization f c). elements f r = Some InterfaceRealization)"

text \<open>An interface realization is the subject of one line only.\<close>

definition realizations_unique :: "asm_model \<Rightarrow> bool" where
  "realizations_unique m \<longleftrightarrow>
     (\<forall>i j r. kind (items m i) = InterfaceRealizationItem \<longrightarrow> subject (items m i) = Some r \<longrightarrow>
        subject (items m j) = Some r \<longrightarrow> j = i)"

definition well_typed :: "asm_model \<Rightarrow> bool" where
  "well_typed m \<longleftrightarrow> fresh_dom (dom m) \<and> subjects_typed m \<and> parts_typed (dom m) \<and> realizations_unique m"

definition dom_inv :: "asm_model \<Rightarrow> bool" where
  "dom_inv m \<longleftrightarrow> association_sync (dom m) \<and> realization_sync (dom m) \<and> well_typed m"

definition editor_inv :: "asm_model \<Rightarrow> bool" where
  "editor_inv m \<longleftrightarrow> diag_inv m \<and> dom_inv m"

text \<open>Two states with the same items' classes and diagrams, creation order and
  connection records.\<close>

definition same_shape :: "asm_model \<Rightarrow> asm_model \<Rightarrow> bool" where
  "same_shape m' m \<longleftrightarrow>
     connections m' = connections m \<and> item_order m' = item_order m \<and>
     (\<forall>j. kind (items m' j) = kind (items m j) \<and> diagram (items m' j) = diagram (items m j))"

text \<open>A comment line may dock its handle where the other end is free or docked on an item
  of the other kind (a \<open>CommentItem\<close> against any other class).\<close>

definition comment_end_ok :: "asm_model \<Rightarrow> iid \<Rightarrow> handle \<Rightarrow> iid \<Rightarrow> bool" where
  "comment_end_ok m l h t \<longleftrightarrow>
     (case get_connected m l (opposite h) of
        None \<Rightarrow> True
      | Some c \<Rightarrow> (kind (items m c) = CommentItem \<longleftrightarrow> kind (items m t) \<noteq> CommentItem))"

text \<open>A factory \<open>f'\<close> that extends \<open>f\<close> with fresh elements only, keeping the
  comment and realization associations.\<close>

definition extends_dom :: "comp_factory \<Rightarrow> comp_factory \<Rightarrow> bool" where
  "extends_dom f' f \<longleftrightarrow>
     next_eid f \<le> next_eid f' \<and> (\<forall>x. x < next_eid f \<longrightarrow> elements f' x = elements f x) \<and>
     annotatedElement f' = annotatedElement f \<and> comment f' = comment f \<and>
     interfaceRealization f' = interfaceRealization f \<and> implementatingClassifier f' = implementatingClassifier f"

text \<open>A factory \<open>f'\<close> obtained from \<open>f\<close> by destroying connector ends and ports only.\<close>

definition shrinks_dom :: "comp_factory \<Rightarrow> comp_factory \<Rightarrow> bool" where
  "shrinks_dom f' f \<longleftrightarrow>
     next_eid f' = next_eid f \<and> (\<forall>x. elements f' x = None \<or> elements f' x = elements f x) \<and>
     (\<forall>x t. elements f x = Some t \<longrightarrow> t \<noteq> ConnectorEnd \<longrightarrow> t \<noteq> Port \<longrightarrow> elements f' x = Some t) \<and>
     annotatedElement f' = annotatedElement f \<and> comment f' = comment f \<and>
     interfaceRealization f' = interfaceRealization f \<and> implementatingClassifier f' = implementatingClassifier f"

definition typed_dom :: "comp_factory \<Rightarrow> bool" where
  "typed_dom f \<longleftrightarrow> fresh_dom f \<and> parts_typed f"

subsection \<open>The diagram invariant\<close>

lemma same_shape_refl [simp]: "same_shape m m"
  by (simp add: same_shape_def)

lemma same_shape_trans: "same_shape m'' m' \<Longrightarrow> same_shape m' m \<Longrightarrow> same_shape m'' m"
  by (simp add: same_shape_def)

lemma same_shape_get_connected:
  "same_shape m' m \<Longrightarrow> get_connected m' l h = get_connected m l h"
  unfolding same_shape_def get_connected_def by (simp add: get_connection_cong[of m' m])

lemma diag_inv_shape:
  assumes "diag_inv m" and "same_shape m' m"
  shows "diag_inv m'"
proof -
  have k: "\<And>j. kind (items m' j) = kind (items m j)" and c: "connections m' = connections m"
    and o: "item_order m' = item_order m"
    using assms(2) by (simp_all add: same_shape_def)
  show ?thesis
    using assms(1)
    by (simp add: diag_inv_def conn_unique_def unused_items_def records_direct_def comment_lines_ok_def
        k c o same_shape_get_connected[OF assms(2)])
qed

lemma item_order_subjects [simp]:
  "item_order (set_subject l x m) = item_order m"
  "item_order (clear_subjects a m) = item_order m"
  "item_order (refold_all is m) = item_order m"
  by (simp_all add: set_subject_def clear_subjects_def refold_all_def)
     (induction "is" arbitrary: m; simp)

lemma item_order_link [simp]:
  "item_order (assembly_link m l) = item_order m"
  "item_order (assembly_unlink m l) = item_order m"
  unfolding assembly_link_def assembly_unlink_def Let_def
  by (simp_all split: option.split prod.split)

lemma same_shape_refold_all [simp]: "same_shape (refold_all is m) m"
  by (simp add: same_shape_def)

lemma same_shape_set_subject [simp]: "same_shape (set_subject l x m) m"
  by (simp add: same_shape_def)

lemma same_shape_clear_subjects [simp]: "same_shape (clear_subjects a m) m"
  by (simp add: same_shape_def)

lemma same_shape_dom [simp]: "same_shape (m\<lparr>dom := f\<rparr>) m"
  by (simp add: same_shape_def)

lemma same_shape_assembly_link [simp]: "same_shape (assembly_link m l) m"
  by (simp add: same_shape_def)

lemma same_shape_assembly_unlink [simp]: "same_shape (assembly_unlink m l) m"
  by (simp add: same_shape_def)

lemma same_shape_realization_link [simp]: "same_shape (realization_link m l) m"
  unfolding realization_link_def
  by (simp add: same_shape_def Let_def split: option.split prod.split)

lemma same_shape_realization_unlink [simp]: "same_shape (realization_unlink m l) m"
  unfolding realization_unlink_def
  by (simp add: same_shape_def split: option.split)

lemma direct_pair_created: "direct_pair t l \<Longrightarrow> t \<noteq> Presentation \<and> l \<noteq> Presentation"
  by (auto simp: direct_pair_def isinstance_def)

lemma get_connected_record:
  "get_connected m l h = Some c \<Longrightarrow>
   \<exists>r \<in> set (connections m (diagram (items m l))). line r = l \<and> connected r = c"
  by (auto simp: get_connected_def get_connection_def line_connections_def on_handle_def
      dest!: find_Some_in_set)

lemma records_created:
  assumes "records_direct m" "unused_items m" "r \<in> set (connections m d)"
  shows "line r < length (item_order m) \<and> connected r < length (item_order m)"
  using assms direct_pair_created unfolding records_direct_def unused_items_def
  by (meson not_le)

lemma get_connected_created:
  assumes "records_direct m" "unused_items m" "get_connected m l h = Some c"
  shows "l < length (item_order m) \<and> c < length (item_order m)"
  using get_connected_record[OF assms(3)] records_created[OF assms(1,2)] by blast

lemma get_connected_disconnect_item:
  "get_connected (disconnect_item m l h) l' h' = (if (l', h') = (l, h) then None else get_connected m l' h')"
  by (simp add: get_connected_def get_connection_disconnect_item get_connection_disconnect_item_other)

lemma get_connected_connect_item:
  "conn_unique m \<Longrightarrow>
   get_connected (connect_item m l h t p) l' h' = (if (l', h') = (l, h) then Some t else get_connected m l' h')"
  by (simp add: get_connected_def get_connection_connect_item get_connection_connect_item_other)

lemma connections_connect_item:
  "c \<in> set (connections (connect_item m l h t p) d) \<Longrightarrow>
   c \<in> set (connections m d) \<or> c = \<lparr>line = l, handle = h, connected = t, port = p\<rparr>"
  by (auto simp: connect_item_def Let_def split: if_splits)

lemma connections_disconnect_item:
  "c \<in> set (connections (disconnect_item m l h) d) \<Longrightarrow> c \<in> set (connections m d)"
  by (auto simp: disconnect_item_def Let_def split: if_splits)

lemma diag_inv_disconnect_item:
  assumes "diag_inv m"
  shows "diag_inv (disconnect_item m l h)"
proof -
  have "comment_lines_ok (disconnect_item m l h)"
    using assms unfolding diag_inv_def comment_lines_ok_def
    by (simp add: get_connected_disconnect_item)
  moreover have "records_direct (disconnect_item m l h)"
    using assms unfolding diag_inv_def records_direct_def by (auto dest: connections_disconnect_item)
  ultimately show ?thesis
    using assms by (simp add: diag_inv_def conn_unique_disconnect_item unused_items_def)
qed

lemma diag_inv_connect_item:
  assumes inv: "diag_inv m" and pair: "direct_pair (kind (items m t)) (kind (items m l))"
    and ends: "kind (items m l) = CommentLineItem \<Longrightarrow> comment_end_ok m l h t"
  shows "diag_inv (connect_item m l h t p)"
proof -
  have u: "conn_unique m" using inv by (simp add: diag_inv_def)
  have "comment_lines_ok (connect_item m l h t p)"
    unfolding comment_lines_ok_def
  proof (intro allI impI)
    fix l' c1 c2
    assume k: "kind (items (connect_item m l h t p) l') = CommentLineItem"
      and c1: "get_connected (connect_item m l h t p) l' Head = Some c1"
      and c2: "get_connected (connect_item m l h t p) l' Tail = Some c2"
    show "(kind (items (connect_item m l h t p) c1) = CommentItem) =
          (kind (items (connect_item m l h t p) c2) \<noteq> CommentItem)"
    proof (cases "l' = l")
      case True
      with k ends have ok: "comment_end_ok m l h t" by simp
      show ?thesis
        using True c1 c2 ok u by (cases h) (auto simp: get_connected_connect_item comment_end_ok_def)
    next
      case False
      with c1 c2 k inv show ?thesis
        by (simp add: get_connected_connect_item[OF u] diag_inv_def comment_lines_ok_def)
    qed
  qed
  moreover have "records_direct (connect_item m l h t p)"
    using inv pair unfolding diag_inv_def records_direct_def by (auto dest: connections_connect_item)
  ultimately show ?thesis
    using inv by (simp add: diag_inv_def conn_unique_connect_item unused_items_def)
qed

subsection \<open>The factory under the connector operations\<close>

lemma subject_class_cases [simp]:
  "subject_class k = Some Connector \<longleftrightarrow> k = ConnectorItem"
  "subject_class k = Some InterfaceRealization \<longleftrightarrow> k = InterfaceRealizationItem"
  "subject_class k \<noteq> Some ConnectorEnd" "subject_class k \<noteq> Some Port"
  by (cases k; simp)+

lemma fresh_domD: "fresh_dom f \<Longrightarrow> elements f x = Some t \<Longrightarrow> x < next_eid f"
  unfolding fresh_dom_def by (metis not_le option.distinct(1))

lemma extends_dom_refl [simp]: "extends_dom f f"
  by (simp add: extends_dom_def)

lemma extends_dom_trans: "extends_dom f'' f' \<Longrightarrow> extends_dom f' f \<Longrightarrow> extends_dom f'' f"
  unfolding extends_dom_def by auto

lemma extends_dom_elements:
  "extends_dom f' f \<Longrightarrow> fresh_dom f \<Longrightarrow> elements f x = Some t \<Longrightarrow> elements f' x = Some t"
  unfolding extends_dom_def by (auto dest: fresh_domD)

lemma typed_dom_grow:
  assumes "typed_dom f" "extends_dom f' f" "fresh_dom f'"
    and "conn_end f' = conn_end f" "partWithPort f' = partWithPort f"
  shows "typed_dom f'"
proof -
  have el: "\<And>x t. elements f x = Some t \<Longrightarrow> elements f' x = Some t"
    using assms(1,2) by (simp add: typed_dom_def extends_dom_elements)
  have ports: "elements f' p \<in> {None, Some Port}" "p < next_eid f'"
    if "partWithPort f e = Some p" for e p
  proof -
    from that assms(1) have "p < next_eid f" "elements f p \<in> {None, Some Port}"
      by (auto simp: typed_dom_def parts_typed_def)
    with assms(2) show "elements f' p \<in> {None, Some Port}" "p < next_eid f'"
      by (auto simp: extends_dom_def)
  qed
  show ?thesis
    using assms(1,2,3,4,5) el ports
    by (auto simp: typed_dom_def parts_typed_def extends_dom_def)
qed

lemma create_element_dom:
  assumes "typed_dom f" "create_element t f = (e, f')"
  shows "typed_dom f'" "extends_dom f' f" "elements f' e = Some t" "e = next_eid f"
    "next_eid f' = Suc (next_eid f)"
proof -
  show ext: "extends_dom f' f" using assms(2) by (auto simp: create_element_def extends_dom_def)
  have "fresh_dom f'" using assms by (auto simp: create_element_def fresh_dom_def typed_dom_def)
  with assms(1) ext show "typed_dom f'"
    by (rule typed_dom_grow) (use assms(2) in \<open>auto simp: create_element_def\<close>)
  show "elements f' e = Some t" "e = next_eid f" "next_eid f' = Suc (next_eid f)"
    using assms(2) by (auto simp: create_element_def)
qed

lemma add_end_dom:
  assumes "typed_dom f"
  shows "typed_dom (add_end a c i f) \<and> extends_dom (add_end a c i f) f"
proof (cases "list_ex (end_of f c) (conn_end f a)")
  case True
  then show ?thesis using assms by (simp add: add_end_def)
next
  case False
  obtain e f1 where c1: "create_element ConnectorEnd f = (e, f1)"
    by (cases "create_element ConnectorEnd f")
  obtain p f2 where c2: "create_element Port f1 = (p, f2)"
    by (cases "create_element Port f1")
  note d1 = create_element_dom[OF assms c1]
  note d2 = create_element_dom[OF d1(1) c2]
  let ?f3 = "f2\<lparr>conn_end := (conn_end f2)(a := conn_end f2 a @ [e]),
                 end_role := (end_role f2)(e \<mapsto> i),
                 partWithPort := (partWithPort f2)(e \<mapsto> p),
                 ownedPort := (ownedPort f2)(c := ownedPort f2 c @ [p])\<rparr>"
  have eq: "add_end a c i f = ?f3" using False c1 c2 by (simp add: add_end_def)
  have ext: "extends_dom ?f3 f"
    using extends_dom_trans[OF d2(2) d1(2)] by (simp add: extends_dom_def)
  have e2: "elements f2 e = Some ConnectorEnd"
    using extends_dom_elements[OF d2(2) _ d1(3)] d1(1) by (simp add: typed_dom_def)
  have "typed_dom ?f3"
    using d2(1) e2 d2(3,4,5) by (auto simp: typed_dom_def parts_typed_def fresh_dom_def)
  with ext eq show ?thesis by simp
qed

lemma new_assembly_dom:
  assumes "typed_dom f" "new_assembly c i f = (a, f')"
  shows "typed_dom f' \<and> extends_dom f' f \<and> elements f' a = Some Connector"
proof -
  obtain a1 f1 where c1: "create_element Connector f = (a1, f1)"
    by (cases "create_element Connector f")
  note d1 = create_element_dom[OF assms(1) c1]
  let ?f2 = "f1\<lparr>conn_kind := (conn_kind f1)(a1 \<mapsto> ''assembly'')\<rparr>"
  have a: "a = a1" and f': "f' = add_end a1 c i ?f2"
    using assms(2) c1 by (auto simp: new_assembly_def)
  have t2: "typed_dom ?f2" and x2: "extends_dom ?f2 f"
    using d1(1,2) by (simp_all add: typed_dom_def fresh_dom_def parts_typed_def extends_dom_def)
  note d3 = add_end_dom[OF t2, of a1 c i]
  have "elements f' a = Some Connector"
    using extends_dom_elements[of f' ?f2 a Connector] d3 t2 d1(3) a f' by (simp add: typed_dom_def)
  with d3 x2 f' show ?thesis by (blast intro: extends_dom_trans)
qed

lemma association_sync_cong:
  "annotatedElement f = annotatedElement g \<Longrightarrow> comment f = comment g \<Longrightarrow>
   association_sync f = association_sync g"
  unfolding association_sync_def by simp

lemma realization_sync_cong:
  "interfaceRealization f = interfaceRealization g \<Longrightarrow>
   implementatingClassifier f = implementatingClassifier g \<Longrightarrow> realization_sync f = realization_sync g"
  unfolding realization_sync_def by simp

subsection \<open>The domain invariant under subject and factory updates\<close>

lemma dom_inv_cong: "items m' = items m \<Longrightarrow> dom m' = dom m \<Longrightarrow> dom_inv m' = dom_inv m"
  by (simp add: dom_inv_def well_typed_def subjects_typed_def realizations_unique_def)

lemma dom_inv_extend:
  assumes "dom_inv m" "typed_dom f" "extends_dom f (dom m)"
  shows "dom_inv (m\<lparr>dom := f\<rparr>)"
proof -
  have fresh: "fresh_dom (dom m)" using assms(1) by (simp add: dom_inv_def well_typed_def)
  note el = extends_dom_elements[OF assms(3) fresh]
  have "subjects_typed (m\<lparr>dom := f\<rparr>)"
    unfolding subjects_typed_def
  proof (intro allI impI)
    fix i e
    assume "subject (items (m\<lparr>dom := f\<rparr>) i) = Some e"
    then have "subject (items m i) = Some e" by simp
    with assms(1) obtain t where "subject_class (kind (items m i)) = Some t" "elements (dom m) e = Some t"
      by (auto simp: dom_inv_def well_typed_def subjects_typed_def)
    with el show "subject_class (kind (items (m\<lparr>dom := f\<rparr>) i)) \<noteq> None \<and>
        elements (dom (m\<lparr>dom := f\<rparr>)) e = subject_class (kind (items (m\<lparr>dom := f\<rparr>) i))"
      by simp
  qed
  moreover have "association_sync f" "realization_sync f"
    using assms(1,3) association_sync_cong[of f "dom m"] realization_sync_cong[of f "dom m"]
    by (simp_all add: dom_inv_def extends_dom_def)
  moreover have "realizations_unique (m\<lparr>dom := f\<rparr>)"
    using assms(1) by (simp add: dom_inv_def well_typed_def realizations_unique_def)
  ultimately show ?thesis
    using assms(2) by (simp add: dom_inv_def well_typed_def typed_dom_def)
qed

lemma dom_inv_set_subject_Some:
  assumes inv: "dom_inv m" and cls: "subject_class (kind (items m l)) = Some t"
    and el: "elements (dom m) a = Some t"
    and uniq: "kind (items m l) = InterfaceRealizationItem \<Longrightarrow> \<forall>j. j \<noteq> l \<longrightarrow> subject (items m j) \<noteq> Some a"
  shows "dom_inv (set_subject l (Some a) m)"
proof -
  have st: "subjects_typed m" and ru: "realizations_unique m"
    using inv by (simp_all add: dom_inv_def well_typed_def)
  have "subjects_typed (set_subject l (Some a) m)"
    using st cls el by (auto simp: subjects_typed_def set_subject_def)
  moreover have "realizations_unique (set_subject l (Some a) m)"
    unfolding realizations_unique_def
  proof (intro allI impI)
    fix i j r
    assume ki: "kind (items (set_subject l (Some a) m) i) = InterfaceRealizationItem"
      and si: "subject (items (set_subject l (Some a) m) i) = Some r"
      and sj: "subject (items (set_subject l (Some a) m) j) = Some r"
    show "j = i"
    proof (cases "i = l")
      case True
      with ki si sj uniq show ?thesis by (auto simp: set_subject_def split: if_splits)
    next
      case False
      show ?thesis
      proof (cases "j = l")
        case True
        with False si sj have "subject (items m i) = Some a" by (simp add: set_subject_def)
        moreover have "kind (items m i) = InterfaceRealizationItem"
          using ki \<open>i \<noteq> l\<close> by (simp add: set_subject_def)
        ultimately have "elements (dom m) a = Some InterfaceRealization"
          using st by (force simp: subjects_typed_def)
        with el cls have "kind (items m l) = InterfaceRealizationItem" by simp
        with uniq False \<open>subject (items m i) = Some a\<close> show ?thesis by blast
      next
        case False
        with \<open>i \<noteq> l\<close> ki si sj ru show ?thesis by (simp add: set_subject_def realizations_unique_def)
      qed
    qed
  qed
  ultimately show ?thesis
    using inv by (simp add: dom_inv_def well_typed_def)
qed

lemma dom_inv_set_subject_None:
  assumes "dom_inv m"
  shows "dom_inv (set_subject l None m)"
proof -
  have "subjects_typed (set_subject l None m)"
    using assms unfolding dom_inv_def well_typed_def subjects_typed_def
    by (simp add: set_subject_def)
  moreover have "realizations_unique (set_subject l None m)"
    using assms unfolding dom_inv_def well_typed_def realizations_unique_def
    by (simp add: set_subject_def)
  ultimately show ?thesis using assms by (simp add: dom_inv_def well_typed_def)
qed

subsection \<open>The assembly connector keeps the invariants\<close>

lemma map_filter_in: "a \<in> set (List.map_filter f xs) \<Longrightarrow> \<exists>x \<in> set xs. f x = Some a"
  by (induction xs) (auto simp: List.map_filter_simps split: option.splits)

lemma shared_assembly_subject:
  assumes "shared_assembly m i = Some a"
  shows "\<exists>j. kind (items m j) = ConnectorItem \<and> subject (items m j) = Some a"
proof -
  let ?f = "\<lambda>l. if kind (items m l) = ConnectorItem then subject (items m l) else None"
  have "a \<in> set (List.map_filter ?f (map line (get_connections m i)))"
    using assms by (auto simp: shared_assembly_def split: list.splits)
  then show ?thesis by (auto dest!: map_filter_in split: if_splits)
qed

lemma subject_elements:
  "dom_inv m \<Longrightarrow> subject (items m j) = Some a \<Longrightarrow> elements (dom m) a = subject_class (kind (items m j))"
  by (simp add: dom_inv_def well_typed_def subjects_typed_def)

lemma link_target_dom:
  assumes inv: "dom_inv m" and lt: "link_target m l = Some (a, f)"
  shows "typed_dom f \<and> extends_dom f (dom m) \<and> elements f a = Some Connector"
proof -
  have td: "typed_dom (dom m)" using inv by (simp add: dom_inv_def well_typed_def typed_dom_def)
  obtain i isub csub where
    sel: "(shared_assembly m i = None \<and> new_assembly csub isub (dom m) = (a, f)) \<or>
          (shared_assembly m i = Some a \<and> f = add_end a csub isub (dom m))"
    using lt by (auto simp: link_target_def split: option.splits if_splits)
  show ?thesis
  proof (cases "shared_assembly m i")
    case None
    with sel have "new_assembly csub isub (dom m) = (a, f)" by simp
    with td show ?thesis by (rule new_assembly_dom)
  next
    case (Some a')
    with sel have a: "a' = a" and f: "f = add_end a csub isub (dom m)" by auto
    obtain j where "kind (items m j) = ConnectorItem" "subject (items m j) = Some a"
      using shared_assembly_subject[OF Some] a by blast
    with inv have "elements (dom m) a = Some Connector" by (simp add: subject_elements)
    moreover note add_end_dom[OF td, of a csub isub]
    ultimately show ?thesis
      using f td by (auto simp: typed_dom_def intro: extends_dom_elements)
  qed
qed

lemma dom_inv_assembly_link:
  assumes inv: "dom_inv m" and k: "kind (items m l) = ConnectorItem"
  shows "dom_inv (assembly_link m l)"
proof (cases "link_target m l")
  case None
  then show ?thesis using inv by (simp add: assembly_link_def)
next
  case (Some af)
  then obtain a f where lt: "link_target m l = Some (a, f)" by (cases af) auto
  note d = link_target_dom[OF inv lt]
  have "dom_inv (m\<lparr>dom := f\<rparr>)" using inv d by (simp add: dom_inv_extend)
  then have "dom_inv (set_subject l (Some a) (m\<lparr>dom := f\<rparr>))"
    by (rule dom_inv_set_subject_Some[where t = Connector]) (use k d in simp_all)
  with lt show ?thesis by (simp add: assembly_link_def)
qed

lemma shrinks_dom_refl [simp]: "shrinks_dom f f"
  by (simp add: shrinks_dom_def)

lemma shrinks_dom_trans: "shrinks_dom f'' f' \<Longrightarrow> shrinks_dom f' f \<Longrightarrow> shrinks_dom f'' f"
  unfolding shrinks_dom_def by metis

lemma drop_end_dom:
  assumes "typed_dom f" "elements f e \<in> {None, Some ConnectorEnd}"
  shows "typed_dom (drop_end e f) \<and> shrinks_dom (drop_end e f) f"
proof (cases "partWithPort f e")
  case None
  then show ?thesis
    using assms by (auto simp: drop_end_def unlink_end_def typed_dom_def fresh_dom_def
        parts_typed_def shrinks_dom_def)
next
  case (Some p)
  then have "elements f p = None \<or> elements f p = Some Port" using assms(1)
    by (auto simp: typed_dom_def parts_typed_def)
  then show ?thesis
    using assms Some
    by (elim disjE) (auto simp: drop_end_def unlink_end_def unlink_port_def typed_dom_def fresh_dom_def
        parts_typed_def shrinks_dom_def)
qed

lemma fold_drop_end_dom:
  assumes "typed_dom f" "\<forall>e \<in> set es. elements f e \<in> {None, Some ConnectorEnd}"
  shows "typed_dom (fold drop_end es f) \<and> shrinks_dom (fold drop_end es f) f"
  using assms
proof (induction es arbitrary: f)
  case Nil
  then show ?case by simp
next
  case (Cons e es)
  have d: "typed_dom (drop_end e f) \<and> shrinks_dom (drop_end e f) f"
    using Cons.prems by (simp add: drop_end_dom)
  then have "\<forall>e' \<in> set es. elements (drop_end e f) e' \<in> {None, Some ConnectorEnd}"
    using Cons.prems(2) unfolding shrinks_dom_def by (metis insert_iff list.set_intros(2))
  with d Cons.IH[of "drop_end e f"] show ?case by (auto intro: shrinks_dom_trans)
qed

lemma unlink_connector_dom:
  assumes "typed_dom g" "elements g a = Some Connector"
  shows "typed_dom (unlink_connector a g)"
proof -
  have "p \<noteq> a" if "partWithPort g e = Some p" for e p
  proof -
    have "elements g p = None \<or> elements g p = Some Port"
      using assms(1) that by (simp add: typed_dom_def parts_typed_def)
    with assms(2) show ?thesis by auto
  qed
  then show ?thesis
    using assms by (auto simp: unlink_connector_def typed_dom_def fresh_dom_def parts_typed_def)
qed

lemma line_ends_conn_end: "set (line_ends m l a) \<subseteq> set (conn_end (dom m) a)"
  by (auto simp: line_ends_def split: option.splits)

lemma ends_typed:
  "typed_dom f \<Longrightarrow> set es \<subseteq> set (conn_end f a) \<Longrightarrow> \<forall>e \<in> set es. elements f e \<in> {None, Some ConnectorEnd}"
  by (auto simp: typed_dom_def parts_typed_def)

lemma shrinks_dom_elements:
  "shrinks_dom f' f \<Longrightarrow> elements f x = Some t \<Longrightarrow> subject_class k = Some t \<Longrightarrow> elements f' x = Some t"
  unfolding shrinks_dom_def by (metis subject_class_cases(3,4))

lemma dom_inv_shrink:
  assumes "dom_inv m" "typed_dom f" "shrinks_dom f (dom m)"
  shows "dom_inv (m\<lparr>dom := f\<rparr>)"
proof -
  have "subjects_typed (m\<lparr>dom := f\<rparr>)"
    unfolding subjects_typed_def
  proof (intro allI impI)
    fix i e
    assume "subject (items (m\<lparr>dom := f\<rparr>) i) = Some e"
    then have "subject (items m i) = Some e" by simp
    with assms(1) obtain t where c: "subject_class (kind (items m i)) = Some t" and
      "elements (dom m) e = Some t"
      by (auto simp: dom_inv_def well_typed_def subjects_typed_def)
    with assms(3) have "elements f e = Some t" by (blast intro: shrinks_dom_elements)
    with c show "subject_class (kind (items (m\<lparr>dom := f\<rparr>) i)) \<noteq> None \<and>
        elements (dom (m\<lparr>dom := f\<rparr>)) e = subject_class (kind (items (m\<lparr>dom := f\<rparr>) i))"
      by simp
  qed
  moreover have "association_sync f" "realization_sync f"
    using assms(1,3) association_sync_cong[of f "dom m"] realization_sync_cong[of f "dom m"]
    by (simp_all add: dom_inv_def shrinks_dom_def)
  moreover have "realizations_unique (m\<lparr>dom := f\<rparr>)"
    using assms(1) by (simp add: dom_inv_def well_typed_def realizations_unique_def)
  ultimately show ?thesis
    using assms(2) by (simp add: dom_inv_def well_typed_def typed_dom_def)
qed

lemma dom_inv_clear_subjects:
  assumes inv: "dom_inv m" and td: "typed_dom (unlink_connector a g)" and sh: "shrinks_dom g (dom m)"
    and ea: "elements (dom m) a = Some Connector"
  shows "dom_inv (clear_subjects a (m\<lparr>dom := unlink_connector a g\<rparr>))"
proof -
  let ?m' = "clear_subjects a (m\<lparr>dom := unlink_connector a g\<rparr>)"
  have "subjects_typed ?m'"
    unfolding subjects_typed_def
  proof (intro allI impI)
    fix j x
    assume sx: "subject (items ?m' j) = Some x"
    then have old: "subject (items m j) = Some x" and keep: "\<not> (kind (items m j) = ConnectorItem \<and> x = a)"
      by (auto simp: clear_subjects_def split: if_splits)
    from inv old obtain t where c: "subject_class (kind (items m j)) = Some t" and
      e: "elements (dom m) x = Some t"
      by (auto simp: dom_inv_def well_typed_def subjects_typed_def)
    have "x \<noteq> a"
    proof
      assume "x = a"
      with c e ea have "kind (items m j) = ConnectorItem" by simp
      with keep \<open>x = a\<close> show False by simp
    qed
    moreover have "elements g x = Some t" using sh e c by (blast intro: shrinks_dom_elements)
    ultimately show "subject_class (kind (items ?m' j)) \<noteq> None \<and>
        elements (dom ?m') x = subject_class (kind (items ?m' j))"
      using c by (simp add: unlink_connector_def)
  qed
  moreover have "association_sync (unlink_connector a g)" "realization_sync (unlink_connector a g)"
    using inv sh association_sync_cong[of "unlink_connector a g" "dom m"]
      realization_sync_cong[of "unlink_connector a g" "dom m"]
    by (simp_all add: dom_inv_def shrinks_dom_def unlink_connector_def)
  moreover have "realizations_unique ?m'"
    using inv by (auto simp: dom_inv_def well_typed_def realizations_unique_def clear_subjects_def)
  ultimately show ?thesis
    using td by (simp add: dom_inv_def well_typed_def typed_dom_def)
qed

lemma dom_inv_assembly_unlink:
  assumes inv: "dom_inv m" and k: "kind (items m l) = ConnectorItem"
  shows "dom_inv (assembly_unlink m l)"
proof (cases "subject (items m l)")
  case None
  then show ?thesis using inv by (simp add: assembly_unlink_def)
next
  case (Some a)
  have td: "typed_dom (dom m)" using inv by (simp add: dom_inv_def well_typed_def typed_dom_def)
  have ea: "elements (dom m) a = Some Connector" using subject_elements[OF inv Some] k by simp
  let ?f1 = "fold drop_end (line_ends m l a) (dom m)"
  have d1: "typed_dom ?f1 \<and> shrinks_dom ?f1 (dom m)"
    by (rule fold_drop_end_dom[OF td ends_typed[OF td line_ends_conn_end]])
  show ?thesis
  proof (cases "length (conn_end ?f1 a) < 2")
    case False
    have "dom_inv (m\<lparr>dom := ?f1\<rparr>)" using inv d1 by (simp add: dom_inv_shrink)
    then have "dom_inv (set_subject l None (m\<lparr>dom := ?f1\<rparr>))" by (rule dom_inv_set_subject_None)
    with Some False show ?thesis by (simp add: assembly_unlink_def Let_def)
  next
    case True
    let ?g = "fold drop_end (conn_end ?f1 a) ?f1"
    have d2: "typed_dom ?g \<and> shrinks_dom ?g ?f1"
      using d1 by (intro fold_drop_end_dom ends_typed) auto
    have sh: "shrinks_dom ?g (dom m)" using d1 d2 by (blast intro: shrinks_dom_trans)
    have "elements ?g a = Some Connector"
      using shrinks_dom_elements[OF sh ea, of ConnectorItem] by simp
    with d2 have "typed_dom (unlink_connector a ?g)" by (simp add: unlink_connector_dom)
    then have "dom_inv (clear_subjects a (m\<lparr>dom := unlink_connector a ?g\<rparr>))"
      using inv sh ea by (intro dom_inv_clear_subjects)
    with Some True show ?thesis by (simp add: assembly_unlink_def Let_def teardown_def)
  qed
qed

subsection \<open>The realization connector and the fixture's declarations keep the invariants\<close>

lemma dom_inv_same_elements:
  assumes "dom_inv m" "typed_dom f" "elements f = elements (dom m)"
    "annotatedElement f = annotatedElement (dom m)" "comment f = comment (dom m)" "realization_sync f"
  shows "dom_inv (m\<lparr>dom := f\<rparr>)"
proof -
  have "association_sync f" using assms(1,4,5) association_sync_cong[of f "dom m"]
    by (simp add: dom_inv_def)
  with assms show ?thesis
    by (simp add: dom_inv_def well_typed_def typed_dom_def subjects_typed_def realizations_unique_def)
qed

lemma realize_dom:
  "typed_dom f \<Longrightarrow> elements f r = Some InterfaceRealization \<Longrightarrow> typed_dom (realize r i c f)"
  by (auto simp: realize_def typed_dom_def fresh_dom_def parts_typed_def)

lemma dom_inv_realize:
  assumes "dom_inv m" "elements (dom m) r = Some InterfaceRealization"
  shows "dom_inv (m\<lparr>dom := realize r i c (dom m)\<rparr>)"
proof -
  have "typed_dom (dom m)" using assms(1) by (simp add: dom_inv_def well_typed_def typed_dom_def)
  then have t: "typed_dom (realize r i c (dom m))" using assms(2) by (rule realize_dom)
  have rs: "realization_sync (realize r i c (dom m))"
    using assms(1) by (simp add: dom_inv_def realization_sync_realize)
  have "elements (realize r i c (dom m)) = elements (dom m)"
    "annotatedElement (realize r i c (dom m)) = annotatedElement (dom m)"
    "comment (realize r i c (dom m)) = comment (dom m)"
    by (simp_all add: realize_def)
  then show ?thesis by (rule dom_inv_same_elements[OF assms(1) t _ _ _ rs])
qed

lemma dom_inv_create:
  assumes "dom_inv m" "create_element t (dom m) = (e, f)"
  shows "dom_inv (m\<lparr>dom := f\<rparr>)" "elements f e = Some t" "\<forall>j. subject (items m j) \<noteq> Some e"
proof -
  have td: "typed_dom (dom m)" using assms(1) by (simp add: dom_inv_def well_typed_def typed_dom_def)
  note d = create_element_dom[OF td assms(2)]
  show "dom_inv (m\<lparr>dom := f\<rparr>)" using assms(1) d by (simp add: dom_inv_extend)
  show "elements f e = Some t" by (rule d(3))
  have none: "elements (dom m) e = None" using td d(4) by (simp add: typed_dom_def fresh_dom_def)
  show "\<forall>j. subject (items m j) \<noteq> Some e"
  proof (intro allI notI)
    fix j
    assume "subject (items m j) = Some e"
    then have "elements (dom m) e = subject_class (kind (items m j))" "subject_class (kind (items m j)) \<noteq> None"
      using assms(1) by (simp_all add: dom_inv_def well_typed_def subjects_typed_def)
    with none show False by simp
  qed
qed

lemma dom_inv_provide:
  assumes "dom_inv m"
  shows "dom_inv (provide c i m)"
proof -
  obtain r f where cr: "create_element InterfaceRealization (dom m) = (r, f)"
    by (cases "create_element InterfaceRealization (dom m)")
  note d = dom_inv_create[OF assms cr]
  have "dom_inv ((m\<lparr>dom := f\<rparr>)\<lparr>dom := realize r i c (dom (m\<lparr>dom := f\<rparr>))\<rparr>)"
    using d(1,2) by (intro dom_inv_realize) simp_all
  with cr show ?thesis by (simp add: provide_def)
qed

lemma dom_inv_require:
  assumes "dom_inv m"
  shows "dom_inv (require c i m)"
proof -
  obtain u f where cr: "create_element Usage (dom m) = (u, f)"
    by (cases "create_element Usage (dom m)")
  have td: "typed_dom (dom m)" using assms by (simp add: dom_inv_def well_typed_def typed_dom_def)
  note d = create_element_dom[OF td cr]
  let ?f = "f\<lparr>clientDependency := (clientDependency f)(c := add_unique u (clientDependency f c)),
               supplier := (supplier f)(u := add_unique i (supplier f u))\<rparr>"
  have "typed_dom ?f" "extends_dom ?f (dom m)"
    using d(1,2) by (simp_all add: typed_dom_def fresh_dom_def parts_typed_def extends_dom_def)
  with assms have "dom_inv (m\<lparr>dom := ?f\<rparr>)" by (simp add: dom_inv_extend)
  with cr show ?thesis by (simp add: require_def)
qed

lemma dom_inv_realization_link:
  assumes inv: "dom_inv m" and k: "kind (items m l) = InterfaceRealizationItem"
  shows "dom_inv (realization_link m l)"
proof -
  have "dom_inv (realization_link m l)"
    if c: "get_connected m l Head = Some i" "get_connected m l Tail = Some c"
      "subject (items m i) = Some isub" "subject (items m c) = Some csub" for i c isub csub
  proof (cases "subject (items m l)")
    case (Some r)
    have "elements (dom m) r = Some InterfaceRealization"
      using subject_elements[OF inv Some] k by simp
    with inv have "dom_inv (m\<lparr>dom := realize r isub csub (dom m)\<rparr>)" by (rule dom_inv_realize)
    with c Some show ?thesis by (simp add: realization_link_def)
  next
    case None
    obtain r f where cr: "create_element InterfaceRealization (dom m) = (r, f)"
      by (cases "create_element InterfaceRealization (dom m)")
    note d = dom_inv_create[OF inv cr]
    let ?m1 = "(m\<lparr>dom := f\<rparr>)\<lparr>dom := realize r isub csub (dom (m\<lparr>dom := f\<rparr>))\<rparr>"
    have m1: "dom_inv ?m1" using d(1,2) by (intro dom_inv_realize) simp_all
    have "dom_inv (set_subject l (Some r) ?m1)"
      by (rule dom_inv_set_subject_Some[OF m1, where t = InterfaceRealization])
         (use k d(2,3) in \<open>simp_all add: realize_def\<close>)
    with c None cr show ?thesis by (simp add: realization_link_def)
  qed
  then show ?thesis
    using inv by (auto simp: realization_link_def split: option.split)
qed

lemma unrealize_dom:
  assumes "typed_dom f" "elements f r = Some InterfaceRealization"
  shows "typed_dom (unrealize r f)"
proof -
  have "p \<noteq> r" if "partWithPort f e = Some p" for e p
  proof -
    have "elements f p = None \<or> elements f p = Some Port"
      using assms(1) that by (simp add: typed_dom_def parts_typed_def)
    with assms(2) show ?thesis by auto
  qed
  then show ?thesis
    using assms by (auto simp: unrealize_def typed_dom_def fresh_dom_def parts_typed_def)
qed

lemma dom_inv_realization_unlink:
  assumes inv: "dom_inv m" and k: "kind (items m l) = InterfaceRealizationItem"
  shows "dom_inv (realization_unlink m l)"
proof (cases "subject (items m l)")
  case None
  then show ?thesis using inv by (simp add: realization_unlink_def)
next
  case (Some r)
  have er: "elements (dom m) r = Some InterfaceRealization" using subject_elements[OF inv Some] k by simp
  let ?m' = "set_subject l None (m\<lparr>dom := unrealize r (dom m)\<rparr>)"
  have td: "typed_dom (unrealize r (dom m))"
    using inv er by (intro unrealize_dom) (simp_all add: dom_inv_def well_typed_def typed_dom_def)
  have "subjects_typed ?m'"
    unfolding subjects_typed_def
  proof (intro allI impI)
    fix j x
    assume sx: "subject (items ?m' j) = Some x"
    then have j: "j \<noteq> l" and old: "subject (items m j) = Some x" by (auto simp: set_subject_def split: if_splits)
    have "x \<noteq> r"
      using inv k Some old j by (auto simp: dom_inv_def well_typed_def realizations_unique_def)
    with old inv j show "subject_class (kind (items ?m' j)) \<noteq> None \<and>
        elements (dom ?m') x = subject_class (kind (items ?m' j))"
      by (simp add: dom_inv_def well_typed_def subjects_typed_def set_subject_def unrealize_def)
  qed
  moreover have "realizations_unique ?m'"
    using inv by (auto simp: dom_inv_def well_typed_def realizations_unique_def set_subject_def)
  moreover have "association_sync (unrealize r (dom m))"
    using inv association_sync_cong[of "unrealize r (dom m)" "dom m"]
    by (simp add: dom_inv_def unrealize_def)
  moreover have "realization_sync (unrealize r (dom m))"
    using inv by (simp add: dom_inv_def realization_sync_unrealize)
  ultimately have "dom_inv ?m'"
    using td by (simp add: dom_inv_def well_typed_def typed_dom_def)
  with Some show ?thesis by (simp add: realization_unlink_def)
qed

subsection \<open>Creating an item keeps the invariants\<close>

lemma diag_inv_new_item:
  assumes inv: "diag_inv m" and i: "i = length (item_order m)"
  shows "diag_inv (m\<lparr>items := (items m)(i := it), item_order := item_order m @ [i], dom := f\<rparr>)"
    (is "diag_inv ?m'")
proof -
  have rd: "records_direct m" and ui: "unused_items m" and cl: "comment_lines_ok m"
    using inv by (simp_all add: diag_inv_def)
  have created: "line r \<noteq> i \<and> connected r \<noteq> i" if "r \<in> set (connections m d)" for r d
    using records_created[OF rd ui that] i by simp
  have gc: "get_connected ?m' l h = get_connected m l h \<and> (\<forall>c. get_connected m l h = Some c \<longrightarrow> l \<noteq> i \<and> c \<noteq> i)"
    for l h
  proof (cases "l = i")
    case True
    have "get_connected ?m' l h = None"
    proof (rule ccontr)
      assume "get_connected ?m' l h \<noteq> None"
      then obtain c where "get_connected ?m' l h = Some c" by blast
      from get_connected_record[OF this] True created show False by auto
    qed
    moreover have "get_connected m l h = None"
    proof (rule ccontr)
      assume "get_connected m l h \<noteq> None"
      then obtain c where "get_connected m l h = Some c" by blast
      from get_connected_record[OF this] True created show False by auto
    qed
    ultimately show ?thesis by simp
  next
    case False
    then have "get_connected ?m' l h = get_connected m l h"
      by (simp add: get_connected_def get_connection_def line_connections_def)
    moreover have "c \<noteq> i" if "get_connected m l h = Some c" for c
      using get_connected_record[OF that] created by auto
    ultimately show ?thesis using False by simp
  qed
  have "comment_lines_ok ?m'"
    unfolding comment_lines_ok_def
  proof (intro allI impI)
    fix l c1 c2
    assume k: "kind (items ?m' l) = CommentLineItem" and h1: "get_connected ?m' l Head = Some c1"
      and h2: "get_connected ?m' l Tail = Some c2"
    then have "l \<noteq> i" "c1 \<noteq> i" "c2 \<noteq> i" "get_connected m l Head = Some c1" "get_connected m l Tail = Some c2"
      using gc[of l Head] gc[of l Tail] by auto
    with k cl show "(kind (items ?m' c1) = CommentItem) = (kind (items ?m' c2) \<noteq> CommentItem)"
      by (simp add: comment_lines_ok_def)
  qed
  moreover have "records_direct ?m'"
    using rd created unfolding records_direct_def by auto
  moreover have "unused_items ?m'" using ui i by (simp add: unused_items_def)
  ultimately show ?thesis using inv by (simp add: diag_inv_def conn_unique_def)
qed

lemma dom_inv_new_item:
  assumes inv: "dom_inv (m\<lparr>dom := f\<rparr>)"
    and s: "s = None \<or> (\<exists>e. s = Some e \<and> subject_class k \<noteq> None \<and> elements f e = subject_class k \<and>
                              (\<forall>j. subject (items m j) \<noteq> Some e))"
  shows "dom_inv (m\<lparr>items := (items m)(i := \<lparr>kind = k, subject = s, diagram = 0\<rparr>),
                    item_order := item_order m @ [i], dom := f\<rparr>)"
    (is "dom_inv ?m'")
proof -
  have st: "subjects_typed (m\<lparr>dom := f\<rparr>)" and ru: "realizations_unique (m\<lparr>dom := f\<rparr>)"
    using inv by (simp_all add: dom_inv_def well_typed_def)
  have "subjects_typed ?m'"
    using st s by (auto simp: subjects_typed_def)
  moreover have "realizations_unique ?m'"
    using ru s by (auto simp: realizations_unique_def)
  ultimately show ?thesis using inv by (simp add: dom_inv_def well_typed_def)
qed

lemma new_item_subject_class:
  "new_item_subject k = Some t \<Longrightarrow> subject_class k = Some t"
  by (simp add: new_item_subject_def split: if_splits)

lemma editor_inv_create_item:
  assumes inv: "editor_inv m"
  shows "editor_inv (snd (create_item k (new_item_subject k) m))"
proof (cases "new_item_subject k")
  case None
  have "dom_inv (m\<lparr>dom := dom m\<rparr>)" using inv by (simp add: editor_inv_def)
  then have "dom_inv (m\<lparr>items := (items m)(length (item_order m) := \<lparr>kind = k, subject = None, diagram = 0\<rparr>),
                 item_order := item_order m @ [length (item_order m)], dom := dom m\<rparr>)"
    by (rule dom_inv_new_item) simp
  moreover have "diag_inv (m\<lparr>items := (items m)(length (item_order m) := \<lparr>kind = k, subject = None, diagram = 0\<rparr>),
                 item_order := item_order m @ [length (item_order m)], dom := dom m\<rparr>)"
    using inv by (intro diag_inv_new_item) (simp_all add: editor_inv_def)
  ultimately show ?thesis
    using None by (simp add: create_item_def editor_inv_def Let_def)
next
  case (Some t)
  obtain e f where cr: "create_element t (dom m) = (e, f)" by (cases "create_element t (dom m)")
  have di: "dom_inv m" using inv by (simp add: editor_inv_def)
  note d = dom_inv_create[OF di cr]
  have "dom_inv (m\<lparr>items := (items m)(length (item_order m) := \<lparr>kind = k, subject = Some e, diagram = 0\<rparr>),
                 item_order := item_order m @ [length (item_order m)], dom := f\<rparr>)"
    by (rule dom_inv_new_item[OF d(1)]) (use d(2,3) new_item_subject_class[OF Some] in simp)
  moreover have "diag_inv (m\<lparr>items := (items m)(length (item_order m) := \<lparr>kind = k, subject = Some e, diagram = 0\<rparr>),
                 item_order := item_order m @ [length (item_order m)], dom := f\<rparr>)"
    using inv by (intro diag_inv_new_item) (simp_all add: editor_inv_def)
  ultimately show ?thesis
    using Some cr by (simp add: create_item_def editor_inv_def Let_def)
qed

subsection \<open>Every connector call keeps the invariants\<close>

lemma dom_inv_dom_frame:
  assumes "dom_inv m" "association_sync f" "realization_sync f" "elements f = elements (dom m)"
    "next_eid f = next_eid (dom m)" "conn_end f = conn_end (dom m)" "partWithPort f = partWithPort (dom m)"
    "interfaceRealization f = interfaceRealization (dom m)"
  shows "dom_inv (m\<lparr>dom := f\<rparr>)"
proof -
  have "typed_dom f" using assms(1,4-8)
    by (simp add: dom_inv_def well_typed_def typed_dom_def fresh_dom_def parts_typed_def)
  moreover have "subjects_typed (m\<lparr>dom := f\<rparr>)" "realizations_unique (m\<lparr>dom := f\<rparr>)"
    using assms(1,4) by (simp_all add: dom_inv_def well_typed_def subjects_typed_def realizations_unique_def)
  ultimately show ?thesis using assms(2,3) by (simp add: dom_inv_def well_typed_def typed_dom_def)
qed

lemma dom_inv_annotated:
  assumes "dom_inv m"
  shows "dom_inv (m\<lparr>dom := set_annotatedElement (dom m) x y\<rparr>)"
    and "dom_inv (m\<lparr>dom := del_annotatedElement (dom m) x y\<rparr>)"
proof -
  have a: "association_sync (dom m)" and r: "realization_sync (dom m)"
    using assms by (simp_all add: dom_inv_def)
  have "realization_sync (set_annotatedElement (dom m) x y)" "realization_sync (del_annotatedElement (dom m) x y)"
    using r realization_sync_cong[of "set_annotatedElement (dom m) x y" "dom m"]
      realization_sync_cong[of "del_annotatedElement (dom m) x y" "dom m"]
    by (simp_all add: set_annotatedElement_def del_annotatedElement_def)
  moreover have "association_sync (set_annotatedElement (dom m) x y)"
    "association_sync (del_annotatedElement (dom m) x y)"
    using a by (simp_all add: association_sync_set_annotatedElement association_sync_del_annotatedElement)
  ultimately show "dom_inv (m\<lparr>dom := set_annotatedElement (dom m) x y\<rparr>)"
    "dom_inv (m\<lparr>dom := del_annotatedElement (dom m) x y\<rparr>)"
    by (auto intro!: dom_inv_dom_frame[OF assms] simp: set_annotatedElement_def del_annotatedElement_def)
qed

lemma editor_inv_shape:
  "editor_inv m \<Longrightarrow> same_shape m' m \<Longrightarrow> dom_inv m' \<Longrightarrow> editor_inv m'"
  unfolding editor_inv_def by (blast intro: diag_inv_shape)

lemma editor_inv_connect_item:
  assumes "editor_inv m" "direct_pair (kind (items m t)) (kind (items m l))"
    "kind (items m l) = CommentLineItem \<Longrightarrow> comment_end_ok m l h t"
  shows "editor_inv (connect_item m l h t p)"
  using assms dom_inv_cong[of "connect_item m l h t p" m]
  by (simp add: editor_inv_def diag_inv_connect_item)

lemma editor_inv_disconnect_item:
  "editor_inv m \<Longrightarrow> editor_inv (disconnect_item m l h)"
  using dom_inv_cong[of "disconnect_item m l h" m]
  by (simp add: editor_inv_def diag_inv_disconnect_item)

lemma editor_inv_refold_all: "editor_inv m \<Longrightarrow> editor_inv (refold_all is m)"
  using dom_inv_cong[of "refold_all is m" m]
  by (simp add: editor_inv_def diag_inv_shape[of m "refold_all is m"])

lemma comment_allow_end_ok:
  "comment_allow (comment_view m) e l h p \<Longrightarrow> comment_end_ok m l h e"
  by (auto simp: comment_allow_def comment_end_ok_def item_is_def Let_def
      split: option.split_asm if_splits)

lemma editor_inv_comment_connect:
  assumes inv: "editor_inv m" and kl: "kind (items m l) = CommentLineItem"
    and ke: "kind (items m e) \<noteq> CommentLineItem" "kind (items m e) \<noteq> Presentation"
    and allow: "comment_allow (comment_view m) e l h p"
    and run: "comment_connect (comment_view m) e l h p = Inr c"
  shows "editor_inv (comment_update m c)"
proof -
  have m1: "editor_inv (connect_item m l h e p)"
    using inv kl ke comment_allow_end_ok[OF allow]
    by (intro editor_inv_connect_item) (simp_all add: direct_pair_def)
  from run show ?thesis
  proof (cases rule: lifted_comment_connect_cases)
    case plain
    with m1 show ?thesis by simp
  next
    case (annot x y)
    have "dom_inv (connect_item m l h e p)" using m1 by (simp add: editor_inv_def)
    then have "dom_inv ((connect_item m l h e p)\<lparr>dom := set_annotatedElement (dom (connect_item m l h e p)) x y\<rparr>)"
      by (rule dom_inv_annotated(1))
    with m1 annot show ?thesis
      by (intro editor_inv_shape[OF m1]) simp_all
  qed
qed

lemma editor_inv_comment_disconnect:
  assumes inv: "editor_inv m" and run: "comment_disconnect (comment_view m) e l h = Inr c"
  shows "editor_inv (comment_update m c)"
  using run
proof (cases rule: lifted_comment_disconnect_cases)
  case kept
  with inv show ?thesis by simp
next
  case (removed x y)
  have m1: "editor_inv (disconnect_item m l h)" using inv by (rule editor_inv_disconnect_item)
  have "dom_inv (disconnect_item m l h)" using m1 by (simp add: editor_inv_def)
  then have "dom_inv ((disconnect_item m l h)\<lparr>dom := del_annotatedElement (dom (disconnect_item m l h)) x y\<rparr>)"
    by (rule dom_inv_annotated(2))
  with m1 removed show ?thesis
    by (intro editor_inv_shape[OF m1]) simp_all
next
  case plain
  with inv show ?thesis by (simp add: editor_inv_disconnect_item)
qed

lemma editor_inv_assembly_connect:
  assumes inv: "editor_inv m" and kl: "kind (items m l) = ConnectorItem"
    and kt: "isinstance (kind (items m t)) ElementPresentation"
  shows "editor_inv (assembly_connect m t l h p)"
proof -
  let ?m1 = "connect_item m l h t p"
  have m1: "editor_inv ?m1" using inv kl kt by (intro editor_inv_connect_item) (simp_all add: direct_pair_def)
  have "dom_inv (assembly_link ?m1 l)"
    using m1 kl by (intro dom_inv_assembly_link) (simp_all add: editor_inv_def)
  then have "editor_inv (assembly_link ?m1 l)" by (intro editor_inv_shape[OF m1]) simp_all
  then show ?thesis by (simp add: assembly_connect_def Let_def editor_inv_refold_all)
qed

lemma editor_inv_realization_connect:
  assumes inv: "editor_inv m" and kl: "kind (items m l) = InterfaceRealizationItem"
    and kt: "isinstance (kind (items m t)) ElementPresentation"
  shows "editor_inv (realization_connect m t l h p)"
proof -
  let ?m1 = "connect_item m l h t p"
  have m1: "editor_inv ?m1" using inv kl kt by (intro editor_inv_connect_item) (simp_all add: direct_pair_def)
  have "dom_inv (realization_link ?m1 l)"
    using m1 kl by (intro dom_inv_realization_link) (simp_all add: editor_inv_def)
  moreover have "same_shape (realization_link ?m1 l) ?m1" by simp
  ultimately have "editor_inv (realization_link ?m1 l)" by (intro editor_inv_shape[OF m1])
  then show ?thesis by (simp add: realization_connect_def Let_def editor_inv_refold_all)
qed

lemma editor_inv_dependency_connect:
  assumes inv: "editor_inv m" and kl: "kind (items m l) = DependencyItem"
    and kt: "isinstance (kind (items m t)) ElementPresentation"
  shows "editor_inv (dependency_connect m t l h p)"
proof -
  have "editor_inv (connect_item m l h t p)"
    using inv kl kt by (intro editor_inv_connect_item) (simp_all add: direct_pair_def)
  then show ?thesis by (simp add: dependency_connect_def Let_def editor_inv_refold_all)
qed

lemma editor_inv_assembly_disconnect:
  assumes inv: "editor_inv m" and kl: "kind (items m l) = ConnectorItem"
  shows "editor_inv (assembly_disconnect m l h)"
proof -
  have "dom_inv (assembly_unlink m l)"
    using inv kl by (intro dom_inv_assembly_unlink) (simp_all add: editor_inv_def)
  then have "editor_inv (assembly_unlink m l)" by (intro editor_inv_shape[OF inv]) simp_all
  then show ?thesis
    by (simp add: assembly_disconnect_def editor_inv_refold_all editor_inv_disconnect_item inv)
qed

lemma editor_inv_realization_disconnect:
  assumes inv: "editor_inv m" and kl: "kind (items m l) = InterfaceRealizationItem"
  shows "editor_inv (realization_disconnect m l h)"
proof -
  have "dom_inv (realization_unlink m l)"
    using inv kl by (intro dom_inv_realization_unlink) (simp_all add: editor_inv_def)
  moreover have "same_shape (realization_unlink m l) m" by simp
  ultimately have "editor_inv (realization_unlink m l)" by (intro editor_inv_shape[OF inv])
  then show ?thesis
    by (simp add: realization_disconnect_def editor_inv_refold_all editor_inv_disconnect_item inv)
qed

lemma editor_inv_dependency_disconnect:
  "editor_inv m \<Longrightarrow> editor_inv (dependency_disconnect m l h)"
  by (simp add: dependency_disconnect_def editor_inv_refold_all editor_inv_disconnect_item)

subsection \<open>Every gesture keeps the invariants\<close>

lemma editor_connector_cases:
  assumes "editor_connector t l = Inr (Some c)"
  shows "(c = CommentConnector CommentLinePresentationConnect \<and> l = CommentLineItem \<and>
            t \<noteq> CommentLineItem \<and> t \<noteq> Presentation) \<or>
         (c = CommentConnector InverseCommentLineLineConnect \<and> t = CommentLineItem \<and> is_line l \<and>
            l \<noteq> CommentLineItem) \<or>
         (c = AssemblyConnector \<and> l = ConnectorItem \<and> isinstance t ElementPresentation) \<or>
         (c = RealizationConnector \<and> l = InterfaceRealizationItem \<and> isinstance t ElementPresentation) \<or>
         (c = DependencyConnector \<and> l = DependencyItem \<and> isinstance t ElementPresentation)"
  using assms by (auto simp: editor_connector_def split: if_splits item_kind.splits)

lemma editor_connector_Inl:
  "editor_connector t l = Inl err \<Longrightarrow> err = AmbiguousLookupError \<and> t = CommentLineItem \<and> l = CommentLineItem"
  by (auto simp: editor_connector_def split: if_splits item_kind.splits)

lemma is_line_not_Presentation: "is_line k \<Longrightarrow> k \<noteq> Presentation"
  by (auto simp: is_line_def isinstance_def)

lemma map_sum_Inr: "map_sum id f x = Inr y \<Longrightarrow> \<exists>z. x = Inr z \<and> y = f z"
  by (cases x) auto

lemma editor_inv_connector_connect:
  assumes inv: "editor_inv m" and c: "editor_connector (kind (items m t)) (kind (items m l)) = Inr (Some c)"
    and allow: "connector_allow c m t l h p" and run: "connector_connect c m t l h p = Inr m'"
  shows "editor_inv m'"
  using editor_connector_cases[OF c]
proof (elim disjE conjE)
  assume "c = CommentConnector CommentLinePresentationConnect" "kind (items m l) = CommentLineItem"
    "kind (items m t) \<noteq> CommentLineItem" "kind (items m t) \<noteq> Presentation"
  with inv allow run show ?thesis by (auto dest!: map_sum_Inr intro: editor_inv_comment_connect)
next
  assume "c = CommentConnector InverseCommentLineLineConnect" "kind (items m t) = CommentLineItem"
    "is_line (kind (items m l))" "kind (items m l) \<noteq> CommentLineItem"
  with inv allow run show ?thesis
    by (auto dest!: map_sum_Inr is_line_not_Presentation intro: editor_inv_comment_connect)
qed (use inv run in \<open>auto intro: editor_inv_assembly_connect editor_inv_realization_connect
       editor_inv_dependency_connect\<close>)

lemma editor_inv_connector_disconnect:
  assumes inv: "editor_inv m" and c: "editor_connector (kind (items m t)) (kind (items m l)) = Inr (Some c)"
    and run: "connector_disconnect c m t l h = Inr m'"
  shows "editor_inv m'"
  using editor_connector_cases[OF c]
  by (elim disjE conjE)
     (use inv run in \<open>auto dest!: map_sum_Inr intro: editor_inv_comment_disconnect
        editor_inv_assembly_disconnect editor_inv_realization_disconnect editor_inv_dependency_disconnect\<close>)

lemma editor_inv_dom_only:
  "editor_inv m \<Longrightarrow> dom_inv (m\<lparr>dom := f\<rparr>) \<Longrightarrow> editor_inv (m\<lparr>dom := f\<rparr>)"
  by (erule editor_inv_shape) simp_all

lemma editor_inv_drop:
  assumes inv: "editor_inv m" and run: "editor_drop m l h t p = Inr m'"
  shows "editor_inv m'"
proof (cases "editor_connector (kind (items m t)) (kind (items m l))")
  case (Inl err)
  with run show ?thesis by (simp add: editor_drop_def editor_connector_dispatch)
next
  case (Inr r)
  show ?thesis
  proof (cases r)
    case None
    with Inr run inv show ?thesis by (simp add: editor_drop_def editor_connector_dispatch)
  next
    case (Some c)
    with Inr have c: "editor_connector (kind (items m t)) (kind (items m l)) = Inr (Some c)" by simp
    show ?thesis
    proof (cases "connector_allow c m t l h p")
      case True
      with c run have "connector_connect c m t l h p = Inr m'"
        by (simp add: editor_drop_def editor_connector_dispatch)
      with inv c True show ?thesis by (rule editor_inv_connector_connect)
    next
      case False
      with c run inv show ?thesis by (simp add: editor_drop_def editor_connector_dispatch)
    qed
  qed
qed

lemma editor_inv_remove:
  assumes inv: "editor_inv m" and run: "editor_remove m l h = Inr m'"
  shows "editor_inv m'"
proof (cases "get_connected m l h")
  case None
  with run inv show ?thesis by (simp add: editor_remove_def)
next
  case (Some t)
  note gc = Some
  show ?thesis
  proof (cases "editor_connector (kind (items m t)) (kind (items m l))")
    case (Inl err)
    with gc run show ?thesis by (simp add: editor_remove_def editor_connector_dispatch)
  next
    case (Inr r)
    show ?thesis
    proof (cases r)
      case None
      with gc Inr run inv show ?thesis by (simp add: editor_remove_def editor_connector_dispatch)
    next
      case (Some c)
      with Inr have c: "editor_connector (kind (items m t)) (kind (items m l)) = Inr (Some c)" by simp
      with gc run have "connector_disconnect c m t l h = Inr m'"
        by (simp add: editor_remove_def editor_connector_dispatch)
      with inv c show ?thesis by (rule editor_inv_connector_disconnect)
    qed
  qed
qed

lemma editor_inv_ifaces:
  assumes "editor_inv m"
  shows "editor_inv (m\<lparr>ifaces := x\<rparr>)"
proof -
  have "dom_inv (m\<lparr>ifaces := x\<rparr>)"
    using assms dom_inv_cong[of "m\<lparr>ifaces := x\<rparr>" m] by (simp add: editor_inv_def)
  then show ?thesis by (rule editor_inv_shape[OF assms, rotated]) (simp add: same_shape_def)
qed

lemma provide_dom_only: "provide c i m = m\<lparr>dom := dom (provide c i m)\<rparr>"
  by (simp add: provide_def split: prod.split)

lemma require_dom_only: "require c i m = m\<lparr>dom := dom (require c i m)\<rparr>"
  by (simp add: require_def split: prod.split)

lemma editor_inv_provide: "editor_inv m \<Longrightarrow> editor_inv (provide c i m)"
  using dom_inv_provide[of m c i] editor_inv_dom_only[of m "dom (provide c i m)"]
  by (simp add: editor_inv_def flip: provide_dom_only)

lemma editor_inv_require: "editor_inv m \<Longrightarrow> editor_inv (require c i m)"
  using dom_inv_require[of m c i] editor_inv_dom_only[of m "dom (require c i m)"]
  by (simp add: editor_inv_def flip: require_dom_only)

text \<open>Withdrawing a usage destroys only \<open>Usage\<close> elements, which are neither subjects
  of items nor parts of connectors, and touches no item or connection.\<close>

lemma dom_inv_unuse:
  assumes inv: "dom_inv m" and u: "elements (dom m) u \<in> {None, Some Usage}"
  shows "dom_inv (unuse u m)"
proof -
  have "association_sync (dom (unuse u m))"
    using inv association_sync_cong[of "dom (unuse u m)" "dom m"] by (simp add: unuse_def dom_inv_def)
  moreover have "realization_sync (dom (unuse u m))"
    using inv realization_sync_cong[of "dom (unuse u m)" "dom m"] by (simp add: unuse_def dom_inv_def)
  moreover have "fresh_dom (dom (unuse u m))"
    using inv by (simp add: unuse_def fresh_dom_def dom_inv_def well_typed_def)
  moreover have "subjects_typed (unuse u m)"
    unfolding subjects_typed_def
  proof (intro allI impI)
    fix i e
    assume "subject (items (unuse u m) i) = Some e"
    then have "subject (items m i) = Some e" by (simp add: unuse_def)
    with inv obtain t where t: "subject_class (kind (items m i)) = Some t" and e: "elements (dom m) e = Some t"
      by (auto simp: dom_inv_def well_typed_def subjects_typed_def)
    from t have "t \<noteq> Usage" by (cases "kind (items m i)") auto
    with t e u show "subject_class (kind (items (unuse u m) i)) \<noteq> None \<and>
        elements (dom (unuse u m)) e = subject_class (kind (items (unuse u m) i))"
      by (auto simp: unuse_def)
  qed
  moreover have "parts_typed (dom (unuse u m))"
    using inv u by (auto simp: unuse_def parts_typed_def dom_inv_def well_typed_def)
  moreover have "realizations_unique (unuse u m)"
    using inv by (simp add: unuse_def realizations_unique_def dom_inv_def well_typed_def)
  ultimately show ?thesis by (simp add: dom_inv_def well_typed_def)
qed

lemma dom_inv_fold_unuse:
  "dom_inv m \<Longrightarrow> \<forall>u \<in> set us. elements (dom m) u \<in> {None, Some Usage} \<Longrightarrow> dom_inv (fold unuse us m)"
proof (induction us arbitrary: m)
  case Nil
  then show ?case by simp
next
  case (Cons u us)
  have "dom_inv (unuse u m)" using Cons.prems by (intro dom_inv_unuse) auto
  moreover have "\<forall>x \<in> set us. elements (dom (unuse u m)) x \<in> {None, Some Usage}"
    using Cons.prems(2) by (auto simp: unuse_def)
  ultimately show ?case by (simp add: Cons.IH)
qed

lemma fold_unuse_dom_only: "fold unuse us m = m\<lparr>dom := dom (fold unuse us m)\<rparr>"
proof (induction us arbitrary: m)
  case Nil
  then show ?case by simp
next
  case (Cons u us)
  have "fold unuse (u # us) m = fold unuse us (unuse u m)" by simp
  also have "\<dots> = (unuse u m)\<lparr>dom := dom (fold unuse us (unuse u m))\<rparr>" by (rule Cons.IH)
  also have "\<dots> = m\<lparr>dom := dom (fold unuse us (unuse u m))\<rparr>" by (simp add: unuse_def)
  finally show ?case by simp
qed

lemma editor_inv_unrequire: "editor_inv m \<Longrightarrow> editor_inv (unrequire c i m)"
proof -
  assume inv: "editor_inv m"
  then have "dom_inv (unrequire c i m)"
    unfolding unrequire_def by (intro dom_inv_fold_unuse) (auto simp: editor_inv_def)
  with editor_inv_dom_only[OF inv, of "dom (unrequire c i m)"] show ?thesis
    by (simp add: unrequire_def flip: fold_unuse_dom_only)
qed

lemma editor_inv_step:
  assumes inv: "editor_inv m" and step: "editor_step e m = Inr m'"
  shows "editor_inv m'"
proof (cases e)
  case (NewItem k)
  with inv step show ?thesis by (auto intro: editor_inv_create_item)
next
  case (Drop l h t p)
  with inv step show ?thesis by (simp add: editor_inv_drop)
next
  case (Remove l h)
  with inv step show ?thesis by (simp add: editor_inv_remove)
next
  case (FoldItem i f)
  with inv step show ?thesis by (auto simp: set_item_folded_def intro: editor_inv_ifaces)
next
  case (AddRealization c i)
  with inv step show ?thesis by (auto intro: editor_inv_provide split: option.splits)
next
  case (AddUsage c i)
  with inv step show ?thesis by (auto intro: editor_inv_require split: option.splits)
next
  case (RemoveUsage c i)
  with inv step show ?thesis by (auto intro: editor_inv_unrequire split: option.splits)
qed

lemma editor_inv_init: "editor_inv empty_model"
  by (simp add: editor_inv_def diag_inv_def dom_inv_def conn_unique_def unused_items_def records_direct_def
      comment_lines_ok_def get_connected_def get_connection_def line_connections_def
      association_sync_def realization_sync_def well_typed_def fresh_dom_def subjects_typed_def
      parts_typed_def realizations_unique_def empty_model_def empty_factory_def)

lemma editor_reach_inv: "editor_reach m \<Longrightarrow> editor_inv m"
  by (induction rule: editor_reach.induct) (auto intro: editor_inv_init editor_inv_step)

end
