(* ===== verification/EditorProps.thy ===== *)
theory EditorProps
  imports EditorSafety
begin

text \<open>
  What the editor's invariants give: in every state the editor reaches, the connection
  index and the bidirectional associations are consistent and the domain is well
  typed; a gesture fails only on the one ambiguous registry entry; a connector,
  realization or dependency line can always be detached.
\<close>

subsection \<open>Helper lemmas\<close>

lemma editor_run_reach:
  "editor_reach m \<Longrightarrow> editor_run es m = Inr m' \<Longrightarrow> editor_reach m'"
proof (induction es arbitrary: m)
  case Nil
  then show ?case by simp
next
  case (Cons e es)
  then obtain m1 where s: "editor_step e m = Inr m1" and r: "editor_run es m1 = Inr m'"
    by (auto split: sum.splits)
  from Cons.prems(1) s have "editor_reach m1" by (rule editor_reach.step)
  from this r show ?case by (rule Cons.IH)
qed

lemma comment_items_typed_view:
  "editor_inv m \<Longrightarrow> comment_items_typed (comment_view m)"
  by (auto simp: comment_items_typed_def editor_inv_def dom_inv_def well_typed_def subjects_typed_def
      is_comment_def)

lemma lifted_comment_connect_Inr:
  assumes "editor_inv m" "comment_allow (comment_view m) e l h p"
  shows "\<exists>c. comment_connect (comment_view m) e l h p = Inr c"
  using assms(2) comment_items_typed_view[OF assms(1)]
  by (auto simp: comment_allow_def item_is_def comment_items_typed_def comment_connect_eq comment_link_def
      Let_def split: option.split option.split_asm if_splits)

lemma record_direct:
  assumes "editor_inv m" "get_connected m l h = Some t"
  shows "direct_pair (kind (items m t)) (kind (items m l))"
  using get_connected_record[OF assms(2)] assms(1)
  by (auto simp: editor_inv_def diag_inv_def records_direct_def)

lemma direct_pair_connector:
  "direct_pair t l \<Longrightarrow>
   editor_connector t l = Inr (Some (if l = CommentLineItem then CommentConnector CommentLinePresentationConnect
      else if l = ConnectorItem then AssemblyConnector
      else if l = InterfaceRealizationItem then RealizationConnector else DependencyConnector))"
  by (auto simp: direct_pair_def editor_connector_def is_line_def isinstance_def)

lemma comment_subject_is_comment:
  "editor_inv m \<Longrightarrow> kind (items m x) = CommentItem \<Longrightarrow> subject (items m x) = Some s \<Longrightarrow>
   is_comment (dom m) s"
  by (auto simp: editor_inv_def dom_inv_def well_typed_def subjects_typed_def is_comment_def)

lemma lifted_comment_disconnect_Inr:
  assumes inv: "editor_inv m" and kl: "kind (items m l) = CommentLineItem"
    and gt: "get_connected m l h = Some t"
  shows "\<exists>c. comment_disconnect (comment_view m) t l h = Inr c"
proof (cases "get_connected m l (opposite h)")
  case None
  then show ?thesis by (auto simp: comment_disconnect_def Let_def split: option.split)
next
  case (Some ob)
  have "kind (items m t) = CommentItem \<or> kind (items m ob) = CommentItem"
    using inv kl gt Some
    by (cases h) (auto simp: editor_inv_def diag_inv_def comment_lines_ok_def)
  then have "\<forall>st so. subject (items m t) = Some st \<longrightarrow> subject (items m ob) = Some so \<longrightarrow>
      is_comment (dom m) st \<or> is_comment (dom m) so"
    using comment_subject_is_comment[OF inv] by blast
  with Some show ?thesis by (auto simp: comment_disconnect_def Let_def split: option.split)
qed

lemma get_connection_same_shape:
  "same_shape m' m \<Longrightarrow> get_connection m' l h = get_connection m l h"
  unfolding same_shape_def by (simp add: get_connection_cong[of m' m])

lemma get_connection_refold_disconnect:
  assumes "same_shape y m"
  shows "get_connection (refold_all is (disconnect_item y l h)) l h' =
         (if h' = h then None else get_connection m l h')"
proof -
  have "get_connection (refold_all is (disconnect_item y l h)) l h' = get_connection (disconnect_item y l h) l h'"
    by (rule get_connection_same_shape) simp
  also have "\<dots> = (if h' = h then None else get_connection y l h')"
    by (simp add: get_connection_disconnect_item get_connection_disconnect_item_other)
  finally show ?thesis using get_connection_same_shape[OF assms] by simp
qed

text \<open>Disconnecting a handle of a connector, realization or dependency line frees that
  handle and leaves the other one as it was.\<close>

lemma line_disconnect_frees:
  assumes "kind (items m l) \<in> {ConnectorItem, InterfaceRealizationItem, DependencyItem}"
    and c: "c = (if kind (items m l) = ConnectorItem then AssemblyConnector
               else if kind (items m l) = InterfaceRealizationItem then RealizationConnector
               else DependencyConnector)"
    and "get_connection m l h \<noteq> None"
  shows "\<exists>m'. connector_disconnect c m t l h = Inr m' \<and>
           (\<forall>h'. get_connection m' l h' = (if h' = h then None else get_connection m l h')) \<and>
           kind (items m' l) = kind (items m l)"
  using assms
  by (auto simp: assembly_disconnect_def realization_disconnect_def dependency_disconnect_def
      get_connection_refold_disconnect)

lemma editor_remove_frees:
  assumes inv: "editor_inv m" and k: "kind (items m l) \<in> {ConnectorItem, InterfaceRealizationItem, DependencyItem}"
  shows "\<exists>m'. editor_remove m l h = Inr m' \<and>
           (\<forall>h'. get_connection m' l h' = (if h' = h then None else get_connection m l h')) \<and>
           kind (items m' l) = kind (items m l)"
proof (cases "get_connected m l h")
  case None
  then have "get_connection m l h = None" by (simp add: get_connected_def)
  with None show ?thesis by (auto simp: editor_remove_def)
next
  case (Some t)
  have gc: "get_connection m l h \<noteq> None" using Some by (auto simp: get_connected_def)
  have "editor_connector (kind (items m t)) (kind (items m l)) =
        Inr (Some (if kind (items m l) = ConnectorItem then AssemblyConnector
           else if kind (items m l) = InterfaceRealizationItem then RealizationConnector
           else DependencyConnector))"
    using direct_pair_connector[OF record_direct[OF inv Some]] k by auto
  with line_disconnect_frees[OF k refl gc, of t] Some show ?thesis
    by (simp add: editor_remove_def editor_connector_dispatch)
qed

lemma editor_drop_error:
  assumes inv: "editor_inv m" and run: "editor_drop m l h t p = Inl err"
  shows "err = AmbiguousLookupError \<and> kind (items m l) = CommentLineItem \<and> kind (items m t) = CommentLineItem"
proof (cases "editor_connector (kind (items m t)) (kind (items m l))")
  case (Inl err')
  with run show ?thesis by (auto simp: editor_drop_def editor_connector_dispatch dest: editor_connector_Inl)
next
  case (Inr r)
  show ?thesis
  proof (cases r)
    case None
    with Inr run show ?thesis by (simp add: editor_drop_def editor_connector_dispatch)
  next
    case (Some c)
    with Inr have c: "editor_connector (kind (items m t)) (kind (items m l)) = Inr (Some c)" by simp
    with run have allow: "connector_allow c m t l h p" and conn: "connector_connect c m t l h p = Inl err"
      by (simp_all add: editor_drop_def editor_connector_dispatch split: if_splits)
    from editor_connector_cases[OF c] show ?thesis
    proof (elim disjE conjE)
      assume "c = CommentConnector CommentLinePresentationConnect"
      with allow conn lifted_comment_connect_Inr[OF inv, of t l h p] show ?thesis by auto
    next
      assume "c = CommentConnector InverseCommentLineLineConnect"
      with allow conn lifted_comment_connect_Inr[OF inv, of l t h p] show ?thesis by auto
    qed (use conn in simp_all)
  qed
qed

lemma editor_remove_Inr:
  assumes inv: "editor_inv m"
  shows "\<exists>m'. editor_remove m l h = Inr m'"
proof (cases "get_connected m l h")
  case None
  then show ?thesis by (simp add: editor_remove_def)
next
  case (Some t)
  note c = direct_pair_connector[OF record_direct[OF inv Some]]
  show ?thesis
  proof (cases "kind (items m l) = CommentLineItem")
    case True
    with c Some lifted_comment_disconnect_Inr[OF inv True Some] show ?thesis
      by (auto simp: editor_remove_def editor_connector_dispatch)
  next
    case False
    with c Some show ?thesis by (simp add: editor_remove_def editor_connector_dispatch)
  qed
qed

subsection \<open>Properties of the editor\<close>

text \<open>Claim C8: In every state the editor reaches from an empty diagram, through any sequence of item creations, role declarations and withdrawals, folds, drops and removals dispatched to the comment, assembly, realization and dependency connectors, every handle has at most one ConnectionInfo and the associations annotatedElement/comment and interfaceRealization/implementatingClassifier are mirrored.\<close>
theorem editor_reach_consistent:
  assumes "editor_reach m"
  shows "conn_unique m \<and> association_sync (dom m) \<and> realization_sync (dom m)"
  using editor_reach_inv[OF assms] by (simp add: editor_inv_def diag_inv_def dom_inv_def)

text \<open>Claim C9: In every reachable state every subject exists and has the class its item presents, identities are fresh, connector ends are ConnectorEnds, their ports Ports or destroyed, and classifiers realize only InterfaceRealizations, each the subject of one line: no line keeps a destroyed subject.\<close>
theorem editor_reach_well_typed:
  assumes "editor_reach m"
  shows "well_typed m"
  using editor_reach_inv[OF assms] by (simp add: editor_inv_def dom_inv_def)

text \<open>Claim C10: In a reachable state a gesture fails only with the registry ambiguity, when a comment line is dropped on a comment line; the assertions of the comment connector never fail, on connect or on disconnect.\<close>
theorem editor_step_errors:
  assumes "editor_reach m" and "editor_step e m = Inl err"
  shows "err = AmbiguousLookupError \<and>
         (\<exists>l h t p. e = Drop l h t p \<and> kind (items m l) = CommentLineItem \<and> kind (items m t) = CommentLineItem)"
proof -
  have inv: "editor_inv m" using assms(1) by (rule editor_reach_inv)
  show ?thesis
  proof (cases e)
    case (Drop l h t p)
    with assms(2) editor_drop_error[OF inv] show ?thesis by fastforce
  next
    case (Remove l h)
    with assms(2) editor_remove_Inr[OF inv, of l h] show ?thesis by auto
  qed (use assms(2) in auto)
qed

text \<open>Claim C11: In every reachable state a connector, interface-realization or dependency line can be detached: removing its head and then its tail completes without error and leaves neither handle connected.\<close>
theorem editor_detach_line:
  assumes "editor_reach m"
    and "kind (items m l) \<in> {ConnectorItem, InterfaceRealizationItem, DependencyItem}"
  shows "\<exists>m'. editor_run [Remove l Head, Remove l Tail] m = Inr m' \<and>
              get_connection m' l Head = None \<and> get_connection m' l Tail = None"
proof -
  have inv: "editor_inv m" using assms(1) by (rule editor_reach_inv)
  obtain m1 where r1: "editor_remove m l Head = Inr m1"
    and g1: "\<forall>h'. get_connection m1 l h' = (if h' = Head then None else get_connection m l h')"
    and k1: "kind (items m1 l) = kind (items m l)"
    using editor_remove_frees[OF inv assms(2)] by blast
  have inv1: "editor_inv m1" using inv r1 by (rule editor_inv_remove)
  obtain m2 where r2: "editor_remove m1 l Tail = Inr m2"
    and g2: "\<forall>h'. get_connection m2 l h' = (if h' = Tail then None else get_connection m1 l h')"
    using editor_remove_frees[OF inv1] assms(2) k1 by fastforce
  from r1 r2 g1 g2 show ?thesis by auto
qed

end
