(* ===== verification/EditorScenario.thy ===== *)
theory EditorScenario
  imports EditorProps
begin

text \<open>
  A concrete editing session: a Comment annotating a class through a comment line, a
  component realizing an interface through an interface-realization line, and a second
  comment line. The session is evaluated by \<open>simp\<close>; the properties of \<open>EditorProps\<close>
  are applied to the state it reaches.
\<close>

text \<open>Items 0--6: a CommentItem, a ClassItem, a comment line joining them, a
  ComponentItem, an InterfaceItem, a realization line from the interface (head) to
  the component (tail), and a second comment line.\<close>

definition demo_events :: "editor_event list" where
  "demo_events =
     [NewItem CommentItem, NewItem ClassItem, NewItem CommentLineItem,
      Drop 2 Head 0 0, Drop 2 Tail 1 0,
      NewItem ComponentItem, NewItem InterfaceItem, NewItem InterfaceRealizationItem,
      Drop 5 Head 4 0, Drop 5 Tail 3 0, NewItem CommentLineItem]"

definition demo_state :: asm_model where
  "demo_state = (case editor_run demo_events empty_model of Inr m \<Rightarrow> m | Inl _ \<Rightarrow> empty_model)"

lemmas editor_eval = model_defs Let_def is_line_def isinstance_def demo_events_def demo_state_def

lemma demo_run: "editor_run demo_events empty_model = Inr demo_state"
  by (simp add: editor_eval)

lemma demo_reach: "editor_reach demo_state"
  by (rule editor_run_reach[OF editor_reach.init demo_run])

theorem editor_reach_consistent_witness:
  "(conn_unique demo_state \<and> association_sync (dom demo_state) \<and> realization_sync (dom demo_state)) \<and>
   annotatedElement (dom demo_state) 0 = [1] \<and> interfaceRealization (dom demo_state) 2 = [4]"
proof
  show "conn_unique demo_state \<and> association_sync (dom demo_state) \<and> realization_sync (dom demo_state)"
    by (rule editor_reach_consistent[OF demo_reach])
  show "annotatedElement (dom demo_state) 0 = [1] \<and> interfaceRealization (dom demo_state) 2 = [4]"
    by (simp add: editor_eval)
qed

theorem editor_reach_well_typed_witness:
  "well_typed demo_state \<and> subject (items demo_state 5) = Some 4 \<and>
   elements (dom demo_state) 4 = Some InterfaceRealization"
proof
  show "well_typed demo_state" by (rule editor_reach_well_typed[OF demo_reach])
  show "subject (items demo_state 5) = Some 4 \<and> elements (dom demo_state) 4 = Some InterfaceRealization"
    by (simp add: editor_eval)
qed

theorem editor_step_errors_witness:
  "editor_step (Drop 6 Head 2 0) demo_state = Inl AmbiguousLookupError \<and>
   (AmbiguousLookupError = AmbiguousLookupError \<and>
    (\<exists>l h t p. Drop 6 Head 2 0 = Drop l h t p \<and> kind (items demo_state l) = CommentLineItem \<and>
                kind (items demo_state t) = CommentLineItem))"
proof
  show step: "editor_step (Drop 6 Head 2 0) demo_state = Inl AmbiguousLookupError"
    by (simp add: editor_eval)
  show "AmbiguousLookupError = AmbiguousLookupError \<and>
    (\<exists>l h t p. Drop 6 Head 2 0 = Drop l h t p \<and> kind (items demo_state l) = CommentLineItem \<and>
                kind (items demo_state t) = CommentLineItem)"
    by (rule editor_step_errors[OF demo_reach step])
qed

theorem editor_detach_line_witness:
  "kind (items demo_state 5) = InterfaceRealizationItem \<and>
   get_connection demo_state 5 Head \<noteq> None \<and> get_connection demo_state 5 Tail \<noteq> None \<and>
   (\<exists>m'. editor_run [Remove 5 Head, Remove 5 Tail] demo_state = Inr m' \<and>
         get_connection m' 5 Head = None \<and> get_connection m' 5 Tail = None)"
proof -
  have k: "kind (items demo_state 5) = InterfaceRealizationItem" by (simp add: editor_eval)
  have "get_connection demo_state 5 Head \<noteq> None \<and> get_connection demo_state 5 Tail \<noteq> None"
    by (simp add: editor_eval)
  moreover have "\<exists>m'. editor_run [Remove 5 Head, Remove 5 Tail] demo_state = Inr m' \<and>
         get_connection m' 5 Head = None \<and> get_connection m' 5 Tail = None"
    using k by (intro editor_detach_line[OF demo_reach]) simp
  ultimately show ?thesis using k by simp
qed


end
