(* ===== verification/Spec2Isabelle.thy ===== *)
theory Spec2Isabelle
  imports Scenarios Registry StyleExamples Copypaste ComponentTests EditorScenario
begin

text \<open>
  \<^bold>\<open>A verification library for gaphor's connection-consistency code.\<close>

  \<^bold>\<open>The program.\<close> gaphor keeps a diagram (items whose line handles dock on ports of
  other items) consistent with a domain model (typed elements linked by bidirectional
  associations). The editor asks a connector registry for the connector of a (target,
  line) pair, calls its \<open>allow\<close> while a handle is dragged, \<open>connect\<close> on drop and
  \<open>disconnect\<close> when the handle leaves; connectors read and write a per-diagram index of
  connection records and the element factory. Styles of items come from a compiled style
  sheet. The sources under \<open>src/\<close> are the comment-line connector
  (\<open>diagram/general/connectors.py\<close>), the generated domain classes
  (\<open>core/modeling/coremodel.py\<close>), the style-sheet cascade
  (\<open>core/styling/__init__.py\<close>), copy support for classes
  (\<open>UML/classes/copypaste.py\<close>) and the tests of the component and realization
  connectors; the base connector, the connection index, the dispatcher, the interface
  item and the assembly connector are not under \<open>src/\<close> and are modelled from the
  specification (\<open>spec.md\<close>, sections 3--4).

  \<^bold>\<open>The theories.\<close>
  \<^item> \<open>Prelude\<close>: identifier types (\<open>eid\<close>, \<open>iid\<close>, \<open>did\<close>), the Python errors
    (\<open>py_error\<close>), duplicate-free collections (\<open>add_unique\<close>) and list lemmas.
  \<^item> \<open>Items\<close>: the presentation classes with their method resolution order
    (\<open>mro\<close>, \<open>isinstance\<close>), the item record and \<open>Line.opposite\<close>.
  \<^item> \<open>Connections\<close>: \<open>ConnectionInfo\<close> (\<open>cinfo\<close>), the per-diagram index
    (\<open>diagram_state\<close>), its queries and updates, and the BaseConnector protocol
    (\<open>base_allow\<close>, \<open>base_connect\<close>, \<open>base_disconnect\<close>, \<open>get_connected\<close>) with
    the uniqueness invariant \<open>conn_unique\<close> and its contract theorems.
  \<^item> \<open>Domain\<close> (\<open>coremodel.py\<close>): element classes, the element factory record, the
    writes of the attributes \<open>name\<close> and \<open>body\<close> (\<open>set_name\<close>, \<open>set_body\<close>:
    \<open>None\<close>, the default, deletes the value), the
    association \<open>Comment.annotatedElement\<close>/\<open>Element.comment\<close> as one operation that
    updates both ends (\<open>set_annotatedElement\<close>, \<open>del_annotatedElement\<close>) with the
    mirror invariant \<open>association_sync\<close>, and \<open>_namedelement_qualifiedname\<close> as a
    \<open>partial_function (option)\<close>.
  \<^item> \<open>CommentLine\<close> (\<open>connectors.py\<close> lines 15--92): the state \<open>model\<close> (diagram
    state plus element factory), \<open>all_comment_line_items\<close>, and \<open>comment_allow\<close>,
    \<open>comment_connect\<close> (base connect, then \<open>comment_link\<close>), \<open>comment_disconnect\<close>,
    each with every branch of the source, the failing \<open>assert\<close>s as
    \<open>Inl AssertionError\<close>.
  \<^item> \<open>Registry\<close>: the four registrations of \<open>connectors.py\<close>, most-specific
    dispatch with ambiguity as \<open>Inl AmbiguousLookupError\<close>, and the argument swap of
    \<open>InverseCommentLineLineConnect\<close>.
  \<^item> \<open>Styling\<close> (\<open>core/styling/__init__.py\<close>): \<open>merge_styles\<close>,
    \<open>parse_style_sheet\<close> over the rules tinycss2 returns, \<open>CompiledStyleSheet\<close>
    (\<open>compiled_style_sheet\<close>, numbering with \<open>enumerate\<close>) and \<open>match\<close>
    (\<open>style_match\<close>, sorted by (specificity, order) with \<open>Product_Lexorder\<close>).
  \<^item> \<open>Copypaste\<close> (\<open>UML/classes/copypaste.py\<close>): the ownership features of
    classes, operations and associations (\<open>uml_factory\<close>), the generators
    \<open>copy_class\<close>, \<open>copy_operation\<close>, \<open>copy_association\<close> as functions of the
    copier they recurse into, and the single dispatch \<open>copy\<close> between them as a
    fuelled recursion whose value is the list of yielded (id, copy) pairs.
  \<^item> \<open>Folding\<close> (spec 4.4): the interface item's fold state, side and port flags
    (\<open>iface_item\<close>, \<open>set_folded\<close>), the fold as a function of the attached lines'
    roles (\<open>fold_of\<close>), the connector glue test, and an abstract machine over the list
    of attached lines (\<open>fold_attach\<close>, \<open>fold_detach\<close>, \<open>fold_preset\<close>) with its
    reachable states as an \<open>inductive\<close> predicate.
  \<^item> \<open>Assembly\<close> (spec 4.5): the component domain (\<open>comp_factory\<close>: realizations,
    usages, connectors, ends, ports, fresh identities), the model \<open>asm_model\<close> (connection
    index, domain, interface items), and the connector's \<open>allow\<close>, \<open>connect\<close>
    (\<open>link_target\<close>, \<open>assembly_link\<close>) and \<open>disconnect\<close> (\<open>assembly_unlink\<close>,
    \<open>teardown\<close>), each recomputing the fold of the interfaces the line touches.
  \<^item> \<open>Realization\<close>: the interface-realization connector (relationship with both ends
    of \<open>interfaceRealization\<close>/\<open>implementatingClassifier\<close>, moved on reconnect) and
    the dependency line as a requiring line.
  \<^item> \<open>ComponentTests\<close>: the fixture of \<open>gaphor.tests.TestCase\<close> (empty factory and
    diagram, \<open>create_item\<close>) and the role helpers \<open>provide\<close> and \<open>require\<close> of
    \<open>UML/components/tests/test_connect.py\<close>, shared with the editor model, and every
    test method of \<open>test_connect.py\<close> and \<open>test_realizationconnect.py\<close> as a script
    of fixture calls (\<open>test_action\<close>, run by \<open>run_test\<close>) with a predicate of its
    assertions; no theorem is stated about these single runs.
  \<^item> \<open>Editor\<close> (spec 3--4, the editor's use of the connectors): one shared state
    (\<open>asm_model\<close>) for every connector. The comment-line connector of
    \<open>connectors.py\<close> runs on it through \<open>comment_view\<close>/\<open>comment_update\<close>; the
    registry \<open>editor_registrations\<close> extends the four registrations with the assembly,
    realization and dependency connectors, and \<open>editor_connector\<close> is its table
    (\<open>editor_connector_dispatch\<close>). \<open>editor_drop\<close> dispatches, asks \<open>allow\<close>
    and then \<open>connect\<close>s; \<open>editor_remove\<close> disconnects a docked handle;
    \<open>editor_step\<close> also creates items (element items with a subject of their class,
    \<open>new_item_subject\<close>), folds an interface, declares realizations and usages and withdraws a usage
    (\<open>unrequire\<close>, which unlinks and destroys the component's \<open>Usage\<close>s of the
    interface, \<open>unuse\<close>).
    \<open>editor_run\<close> runs a session and stops at the first error; \<open>editor_reach\<close> is the
    inductive set of states the editor reaches from the empty model.
  \<^item> \<open>EditorSafety\<close>: the invariant \<open>editor_inv\<close> (diagram part: unique records, lines
    only docked by their own connector, comment lines with a comment end; domain part:
    both associations mirrored, fresh identities, subjects of the class of their item,
    typed ends, ports and realizations) and its preservation by every connector and
    every event, by rule induction to \<open>editor_reach_inv\<close>.
  \<^item> \<open>EditorProps\<close> and \<open>EditorScenario\<close>: what the invariant gives on reachable
    states, and a concrete session (comment line and realization line) evaluated by
    \<open>simp\<close> on which the four properties are applied.
  \<^item> \<open>Scenarios\<close> and \<open>StyleExamples\<close>: concrete diagrams and style sheets on which the
    theorems are applied (their witnesses).

  \<^bold>\<open>What is proved.\<close> For the comment-line connector: the fan-in rule (a relation is
  kept while another line represents it, removed with the last line whichever end the
  Comment is on), that connect links the Comment to the other subject and is idempotent,
  that connect and disconnect keep connection records unique and the association
  mirrored, and that connect never fails its assertion after \<open>allow\<close> on well-typed
  items. For the registry: every element or non-comment line gets the comment
  connector, and the inverse connector agrees with the direct one. For the cascade: the winning declaration is the one of the
  matching selector with the greatest (specificity, order), merging keeps the last
  style that defines a property, undefined properties, and
  that parse errors drop only their own rule, and that the order of a compiled selector
  is its position among the enumerated parse results. For the domain: linking a comment
  to an element sets both ends, and unlinking it again restores the factory exactly; qualifiedName
  returns the names along an acyclic namespace chain and never returns on a self-loop;
  renaming an element is seen by every later read of qualifiedName, which returns
  exactly when it returned before (\<open>qualifiedname_set_name\<close>). For
  copying: on a well-typed model a class copy yields the class, its attributes, then each
  operation followed by its parameters, an association copy yields the association and
  its member ends; a \<open>Component\<close> is copied as a class.
  For folding: reachable fold states keep their port flags in agreement with the fold
  (\<open>fold_reach_wf\<close>), the fold after a connect or disconnect depends only on the set
  of attached roles, not on the history (\<open>fold_history_independent\<close>), removing the
  last line leaves \<open>NONE\<close> with every port connectable, and a connector only glues on
  an active port. For the assembly: connect and disconnect keep connection records
  unique, connect and disconnect of a connector refine the abstract attach and detach
  of the fold machine (\<open>assembly_connect_refines_attach\<close>,
  \<open>assembly_disconnect_refines_detach\<close>, through the abstraction \<open>fold_abs\<close>),
  connecting a handle twice is a no-op (\<open>assembly_connect_idem\<close>), and a teardown
  destroys the relationship, its ends and their ports and clears every subject that
  referred to it (\<open>assembly_unlink_teardown\<close>). For the realization: the association
  stays mirrored and a connected line realizes the interface, keeping the identity of an
  existing subject. For the editor as a whole: every reachable state has unique
  connection records and both associations mirrored (\<open>editor_reach_consistent\<close>)
  and is well typed (\<open>editor_reach_well_typed\<close>); the only gesture that fails is a
  comment line dropped on a comment line, with the registry's ambiguity error
  (\<open>editor_step_errors\<close>); and a connector, realization or dependency line can always
  be detached by removing its two handles (\<open>editor_detach_line\<close>). These hold for
  sessions in which components withdraw a role after an assembly relied on it (the
  malformed prior state of spec 7 (d)).
  The findings (PROJECT.json) come from reading the sources against the specification;
  the one about the registry's ambiguous pair is shown by the witness of
  \<open>editor_step_errors\<close>.

  \<^bold>\<open>Bounds and fuel.\<close> No machine integers occur: Python ints are \<open>nat\<close>. The
  only unbounded recursion, \<open>qualifiedName\<close>, is a \<open>partial_function (option)\<close>;
  \<open>reaches_root f n e\<close> (the namespace chain ends within \<open>n\<close> steps) is exactly
  the condition under which it returns, so no fuel constant is chosen. \<open>copy\<close>
  follows the runtime class of each feature, so it is written with fuel (\<open>None\<close> when
  it runs out); on a well-typed model (\<open>copy_typed\<close>) the ownership tree has depth
  three, and the theorems show three levels of fuel suffice for a class and two for an
  association, while \<open>copy_class_out_of_fuel\<close> shows two are not enough for a class
  with an operation. The concrete sessions of the witnesses are evaluated by the
  simplifier over the model's definitions (the collection \<open>model_defs\<close>).

  \<^bold>\<open>Not modelled, and the plan.\<close> Geometry, rendering, persistence and undo are
  outside the specification; of the editor only the order of its calls into the
  registry and the connectors is modelled (spec 3), not its hit testing: a drop names
  the item and port it lands on. tinycss2, selector compilation and
  \<open>StyleDeclarations\<close> are library code: their results are inputs. The component,
  interface and realization items' own code (\<open>interface.py\<close>,
  \<open>connectorconnect.py\<close>, \<open>interfacerealization.py\<close>) and the test fixture are
  not under \<open>src/\<close>: they are modelled from the specification and from their use in
  the tests. The test methods themselves are not modelled as theorems: a test is a run on
  one fixed input, and four component tests
  (\<open>test_simple_connection\<close>, \<open>test_simple_disconnection\<close>,
  \<open>test_glue_when_connector_connected\<close>, \<open>test_required_port_glue\<close>) expect fold
  states that the specified transition rule does not produce, so the specified model of
  the component connectors and the tests disagree (recorded as findings). The domain objects other connectors create (usages for dependency lines) are
  not modelled: a dependency line only counts as a requiring line for the fold state,
  and the usages of the model are the ones roles are declared with. An interface
  realization cannot be withdrawn on its own: it is the subject of a realization line,
  and deleting it deletes the line, which the model does not cover. The lines of
  \<open>coremodel.py\<close> outside the map are imports, comments and type annotations whose
  descriptors (\<open>namespace\<close>, \<open>visibility\<close>, \<open>clientDependency\<close>,
  \<open>memberNamespace\<close>, \<open>owningPackage\<close>) are defined outside \<open>src/\<close>; the
  other uncovered lines of the sources are imports, decorators, docstrings and test
  method headers.
  The test fixture's \<open>provide\<close> sets both ends of the new realization, as
  \<open>interfaceRealization\<close> does in the domain, so the editor and the tests share one
  \<open>realize\<close>.
\<close>

end
